(* ===== verification/Prelude.thy ===== *)
theory Prelude
  imports Main "HOL-Library.Sublist"
begin

text \<open>
  Shared vocabulary of the handbook development: the JavaScript string
  primitives the sources call (\<open>String.prototype.trim\<close>, \<open>toLowerCase\<close>,
  \<open>startsWith\<close>, \<open>includes\<close>, \<open>Array.prototype.join\<close>, \<open>split(/\r?\n/)\<close>),
  the JavaScript truthiness test on identifiers, the list and character lemmas
  the component theories share, and the \<open>js_simps\<close> collection that lets
  \<open>simp\<close> evaluate the primitives on literals.
  Strings are \<open>char list\<close>s of 8-bit characters: the model covers the ASCII
  behaviour of the primitives (the whitespace set of \<open>trim\<close> is the ASCII
  one; \<open>toLowerCase\<close> maps \<open>A\<close>..\<open>Z\<close> only).
\<close>

named_theorems js_simps "evaluation rules of the modelled JavaScript string primitives"

section \<open>Characters\<close>

abbreviation LF :: char where "LF \<equiv> CHR 0x0A"
abbreviation CR :: char where "CR \<equiv> CHR 0x0D"

text \<open>A text without line breaks.\<close>

definition no_breaks :: "string \<Rightarrow> bool" where
  "no_breaks s \<longleftrightarrow> CR \<notin> set s \<and> LF \<notin> set s"

definition is_js_space :: "char \<Rightarrow> bool" where
  "is_js_space c \<longleftrightarrow> c = CHR '' '' \<or> (let n = (of_char c :: nat) in 9 \<le> n \<and> n \<le> 13)"

definition is_upper :: "char \<Rightarrow> bool" where
  "is_upper c \<longleftrightarrow> (let n = (of_char c :: nat) in 65 \<le> n \<and> n \<le> 90)"

definition js_lower_char :: "char \<Rightarrow> char" where
  "js_lower_char c = (if is_upper c then char_of (of_char c + (32::nat)) else c)"

text \<open>\<open>s.toLowerCase()\<close>, character by character.\<close>

definition js_lower :: "string \<Rightarrow> string" where
  "js_lower s = map js_lower_char s"

lemma char_of_literal_eq [js_simps]:
  "char_of (n::nat) = c \<longleftrightarrow> take_bit 8 n = of_char c"
  by (rule char_of_eq_iff)

lemma char_of_literal_eq' [js_simps]:
  "c = char_of (n::nat) \<longleftrightarrow> take_bit 8 n = of_char c"
  by (metis char_of_eq_iff)

lemma LF_space [simp]: "is_js_space LF" and CR_space [simp]: "is_js_space CR"
  and blank_space [simp]: "is_js_space (CHR '' '')"
  by (simp_all add: is_js_space_def)

lemma js_lower_char_not_upper [simp]: "\<not> is_upper (js_lower_char c)"
  by (auto simp: js_lower_char_def is_upper_def Let_def)

lemma js_lower_char_eq_self [simp]: "\<not> is_upper c \<Longrightarrow> js_lower_char c = c"
  by (simp add: js_lower_char_def)

lemma js_lower_idem [simp]: "js_lower (js_lower s) = js_lower s"
  by (simp add: js_lower_def comp_def)

lemma js_lower_append [simp]: "js_lower (xs @ ys) = js_lower xs @ js_lower ys"
  by (simp add: js_lower_def)

lemma js_lower_Nil_iff [simp]: "js_lower s = [] \<longleftrightarrow> s = []"
  by (simp add: js_lower_def)

lemma js_lower_char_space [simp]: "js_lower_char c = CHR '' '' \<longleftrightarrow> c = CHR '' ''"
  by (auto simp: js_lower_char_def is_upper_def Let_def js_simps take_bit_eq_mod)

section \<open>trim\<close>

text \<open>\<open>s.trim()\<close>: leading and trailing white space removed.\<close>

definition js_trim :: "string \<Rightarrow> string" where
  "js_trim s = rev (dropWhile is_js_space (rev (dropWhile is_js_space s)))"

definition trimmed :: "string \<Rightarrow> bool" where
  "trimmed s \<longleftrightarrow> s = [] \<or> (\<not> is_js_space (hd s) \<and> \<not> is_js_space (last s))"

lemma dropWhile_hd_not:
  "dropWhile P xs \<noteq> [] \<Longrightarrow> \<not> P (hd (dropWhile P xs))"
  by (induction xs) auto

lemma dropWhile_id: "xs = [] \<or> \<not> P (hd xs) \<Longrightarrow> dropWhile P xs = xs"
  by (cases xs) auto

lemma js_trim_trimmed [simp]: "trimmed (js_trim s)"
proof -
  let ?a = "dropWhile is_js_space s"
  let ?b = "dropWhile is_js_space (rev ?a)"
  have lastb: "?b \<noteq> [] \<Longrightarrow> \<not> is_js_space (last (rev ?b))"
    by (simp add: last_rev dropWhile_hd_not)
  have "rev ?a = takeWhile is_js_space (rev ?a) @ ?b"
    by simp
  then have a: "?a = rev ?b @ rev (takeWhile is_js_space (rev ?a))"
    by (metis rev_append rev_rev_ident)
  have "\<not> is_js_space (hd (rev ?b))" if ne: "?b \<noteq> []"
  proof -
    from a ne have "hd ?a = hd (rev ?b)" and "?a \<noteq> []"
      by (metis hd_append2 Nil_is_rev_conv, metis Nil_is_append_conv Nil_is_rev_conv)
    then show ?thesis by (metis dropWhile_hd_not)
  qed
  with lastb show ?thesis by (auto simp: js_trim_def trimmed_def)
qed

lemma js_trim_Nil [simp]: "js_trim [] = []"
  by (simp add: js_trim_def)

lemma js_trim_id: "trimmed s \<Longrightarrow> js_trim s = s"
proof -
  assume t: "trimmed s"
  then have "dropWhile is_js_space s = s"
    by (auto simp: trimmed_def intro: dropWhile_id)
  moreover from t have "dropWhile is_js_space (rev s) = rev s"
    by (auto simp: trimmed_def hd_rev intro: dropWhile_id)
  ultimately show ?thesis by (simp add: js_trim_def)
qed

lemma js_trim_idem [simp]: "js_trim (js_trim s) = js_trim s"
  by (rule js_trim_id) simp

lemma all_set_dropWhile_iff:
  "(\<forall>x\<in>set (dropWhile P xs). P x) \<longleftrightarrow> (\<forall>x\<in>set xs. P x)"
  by (induction xs) auto

lemma js_trim_Nil_iff: "js_trim s = [] \<longleftrightarrow> (\<forall>c\<in>set s. is_js_space c)"
  by (simp add: js_trim_def all_set_dropWhile_iff)

lemma js_trim_snoc_space:
  assumes c: "is_js_space c"
  shows "js_trim (s @ [c]) = js_trim s"
proof (cases "\<forall>x\<in>set s. is_js_space x")
  case True
  with c have "js_trim (s @ [c]) = []" and "js_trim s = []"
    by (simp_all add: js_trim_Nil_iff)
  then show ?thesis by simp
next
  case False
  then obtain x where "x \<in> set s" and "\<not> is_js_space x"
    by blast
  then have "dropWhile is_js_space (s @ [c]) = dropWhile is_js_space s @ [c]"
    by (rule dropWhile_append1)
  with c show ?thesis by (simp add: js_trim_def)
qed

section \<open>join and split\<close>

text \<open>\<open>xs.join(sep)\<close> on an array of strings.\<close>

fun js_join :: "string \<Rightarrow> string list \<Rightarrow> string" where
  "js_join sep [] = []"
| "js_join sep [x] = x"
| "js_join sep (x # y # xs) = x @ sep @ js_join sep (y # xs)"

text \<open>
  \<open>s.split(/\r?\n/)\<close>: scanning left to right, a line feed ends a line, and a
  carriage return directly before it belongs to the separator.
\<close>

fun split_lines :: "string \<Rightarrow> string list" where
  "split_lines [] = [[]]"
| "split_lines (c # cs) =
     (if c = LF then [] # split_lines cs
      else if c = CR \<and> take 1 cs = [LF] then [] # split_lines (drop 1 cs)
      else (case split_lines cs of [] \<Rightarrow> [[c]] | l # ls \<Rightarrow> (c # l) # ls))"

text \<open>A line loses a final carriage return when a line feed follows it.\<close>

definition strip_cr :: "string \<Rightarrow> string" where
  "strip_cr l = (if l \<noteq> [] \<and> last l = CR then butlast l else l)"

lemma take_Suc_0_singleton [simp]: "take (Suc 0) cs = [c] \<longleftrightarrow> (\<exists>r. cs = c # r)"
  by (cases cs) auto

lemma split_lines_no_LF: "LF \<notin> set l \<Longrightarrow> split_lines l = [l]"
  by (induction l rule: split_lines.induct) auto

lemma split_lines_LF:
  "LF \<notin> set l \<Longrightarrow> split_lines (l @ LF # r) = strip_cr l # split_lines r"
proof (induction l)
  case Nil
  then show ?case by (simp add: strip_cr_def)
next
  case (Cons c l)
  show ?case
  proof (cases "c = CR \<and> l = []")
    case True
    then show ?thesis by (simp add: strip_cr_def)
  next
    case False
    with Cons have "take 1 (l @ LF # r) \<noteq> [LF] \<or> c \<noteq> CR"
      by (cases l) auto
    with Cons False show ?thesis by (auto simp: strip_cr_def)
  qed
qed

lemma js_trim_strip_cr [simp]: "js_trim (strip_cr l) = js_trim l"
  by (cases l rule: rev_cases) (simp_all add: strip_cr_def js_trim_snoc_space)

lemma split_lines_js_join:
  "\<forall>l\<in>set ls. LF \<notin> set l \<Longrightarrow> ls \<noteq> [] \<Longrightarrow>
   map js_trim (split_lines (js_join [LF] ls)) = map js_trim ls"
proof (induction "[LF]" ls rule: js_join.induct)
  case (2 x)
  then show ?case by (simp add: split_lines_no_LF)
next
  case (3 x y xs)
  then show ?case by (simp add: split_lines_LF)
qed simp

lemma set_js_join: "set (js_join sep xs) \<subseteq> set sep \<union> (\<Union>x\<in>set xs. set x)"
  by (induction sep xs rule: js_join.induct) auto

lemma js_join_Cons_Cons: "js_join sep (x # y # xs) = x @ sep @ js_join sep (y # xs)"
  by simp

lemma js_lower_js_join:
  "js_lower (js_join sep xs) = js_join (js_lower sep) (map js_lower xs)"
  by (induction sep xs rule: js_join.induct) simp_all

lemma js_join_adjacent: "sublist (p @ sep @ q) (js_join sep (xs @ p # q # zs))"
proof (induction xs)
  case Nil
  obtain r where "js_join sep (q # zs) = q @ r"
    by (cases zs) (simp_all add: js_join_Cons_Cons)
  then show ?case
    by (simp add: js_join_Cons_Cons)
next
  case (Cons x xs)
  have "js_join sep ((x # xs) @ p # q # zs) = x @ sep @ js_join sep (xs @ p # q # zs)"
    by (cases xs) (simp_all add: js_join_Cons_Cons)
  with Cons show ?case
    by (metis append.assoc sublist_append_leftI sublist_order.order.trans)
qed

lemma sublist_js_join: "x \<in> set xs \<Longrightarrow> sublist x (js_join sep xs)"
proof (induction sep xs rule: js_join.induct)
  case (3 sep x' y xs)
  have tail: "sublist (js_join sep (y # xs)) (x' @ sep @ js_join sep (y # xs))"
    using sublist_append_leftI [of "js_join sep (y # xs)" "x' @ sep"] by simp
  show ?case
  proof (cases "x = x'")
    case True
    then show ?thesis by simp
  next
    case False
    with "3.prems" have "sublist x (js_join sep (y # xs))" by (intro "3.IH") auto
    with tail show ?thesis by (auto intro: sublist_order.order.trans)
  qed
qed simp_all

text \<open>
  A non-empty needle without the separator that occurs in a joined string
  occurs in one of the joined parts.
\<close>

lemma sublist_js_join_sep:
  assumes "sep = [c]" and "q \<noteq> []" and "c \<notin> set q" and "sublist q (js_join sep xs)"
  shows "\<exists>x\<in>set xs. sublist q x"
  using assms
proof (induction sep xs rule: js_join.induct)
  case 1
  then show ?case by simp
next
  case (2 x)
  then show ?case by simp
next
  case (3 sep x y xs)
  let ?r = "js_join [c] (y # xs)"
  from "3.prems"(1,4) have "sublist q (x @ c # ?r)" by simp
  then consider "sublist q x" | "sublist q (c # ?r)"
    | q1 q2 where "q = q1 @ q2" "suffix q1 x" "prefix q2 (c # ?r)"
    unfolding sublist_append by blast
  then show ?case
  proof cases
    case 1
    then show ?thesis by simp
  next
    case 2
    with "3.prems"(2,3) have "sublist q ?r"
      by (cases q) (auto simp: sublist_Cons_right)
    with "3.IH" "3.prems"(1,2,3) show ?thesis by auto
  next
    case 3
    show ?thesis
    proof (cases "q2 = []")
      case True
      with 3 show ?thesis by auto
    next
      case False
      with 3 have "c \<in> set q" by (cases q2) auto
      with "3.prems"(3) show ?thesis by simp
    qed
  qed
qed

section \<open>Truthiness of identifiers\<close>

text \<open>
  The sources test identifiers with \<open>x || null\<close> and \<open>if (x)\<close>: an
  absent value and the empty string are both falsy.
\<close>

definition truthy :: "string option \<Rightarrow> string option" where
  "truthy x = (case x of Some s \<Rightarrow> if s = [] then None else Some s | None \<Rightarrow> None)"

lemma truthy_simps [simp]:
  "truthy None = None" "truthy (Some s) = (if s = [] then None else Some s)"
  by (simp_all add: truthy_def)

lemma truthy_Some_iff [simp]: "truthy x = Some s \<longleftrightarrow> x = Some s \<and> s \<noteq> []"
  by (cases x) auto

section \<open>Sets in insertion order\<close>

text \<open>
  A JavaScript \<open>Set\<close> keeps its members in insertion order, and its spread
  \<open>[...s]\<close> lists them in that order: a list without repetitions.
\<close>

definition js_set_add :: "'a \<Rightarrow> 'a list \<Rightarrow> 'a list" where
  "js_set_add x xs = (if x \<in> set xs then xs else xs @ [x])"

definition js_set_delete :: "'a \<Rightarrow> 'a list \<Rightarrow> 'a list" where
  "js_set_delete x xs = removeAll x xs"

text \<open>\<open>new Set(xs)\<close>: the first occurrence of each member, in order.\<close>

definition js_set_of_list :: "'a list \<Rightarrow> 'a list" where
  "js_set_of_list xs = foldl (\<lambda>acc x. js_set_add x acc) [] xs"

lemma set_js_set_add [simp]: "set (js_set_add x xs) = insert x (set xs)"
  by (auto simp: js_set_add_def)

lemma set_js_set_delete [simp]: "set (js_set_delete x xs) = set xs - {x}"
  by (simp add: js_set_delete_def)

lemma distinct_js_set_add [simp]: "distinct (js_set_add x xs) \<longleftrightarrow> distinct xs"
  by (simp add: js_set_add_def)

lemma distinct_js_set_delete [simp]: "distinct xs \<Longrightarrow> distinct (js_set_delete x xs)"
  by (simp add: js_set_delete_def distinct_removeAll)

lemma length_js_set_delete [simp]: "length (js_set_delete x xs) \<le> length xs"
  by (simp add: js_set_delete_def)

lemma js_set_of_list_foldl:
  "distinct acc \<Longrightarrow> distinct (foldl (\<lambda>acc x. js_set_add x acc) acc xs)
     \<and> set (foldl (\<lambda>acc x. js_set_add x acc) acc xs) = set acc \<union> set xs"
  by (induction xs arbitrary: acc) auto

lemma distinct_js_set_of_list [simp]: "distinct (js_set_of_list xs)"
  and set_js_set_of_list [simp]: "set (js_set_of_list xs) = set xs"
  using js_set_of_list_foldl [of "[]" xs] by (simp_all add: js_set_of_list_def)

lemma js_set_of_list_Nil_iff [simp]: "js_set_of_list xs = [] \<longleftrightarrow> xs = []"
  using set_js_set_of_list [of xs] by (metis set_empty)

section \<open>Lists\<close>

lemma find_Some_in_set: "find P xs = Some x \<Longrightarrow> x \<in> set xs \<and> P x"
  by (induction xs) (auto split: if_splits)

lemma find_None_iff': "find P xs = None \<longleftrightarrow> (\<forall>x\<in>set xs. \<not> P x)"
  by (induction xs) auto

lemma find_append_Some:
  "find P xs = Some x \<Longrightarrow> find P (xs @ ys) = Some x"
  by (induction xs) auto

lemma find_append_None:
  "find P xs = None \<Longrightarrow> find P (xs @ ys) = find P ys"
  by (induction xs) (auto split: if_splits)

text \<open>
  In-place mutation of the object \<open>xs.find(P)\<close> returned: the first element
  satisfying \<open>P\<close> is replaced by its updated copy.
\<close>

fun update_first :: "('a \<Rightarrow> bool) \<Rightarrow> ('a \<Rightarrow> 'a) \<Rightarrow> 'a list \<Rightarrow> 'a list" where
  "update_first P f [] = []"
| "update_first P f (x # xs) = (if P x then f x # xs else x # update_first P f xs)"

lemma update_first_find:
  "(\<And>x. P x \<Longrightarrow> P (f x)) \<Longrightarrow> find P (update_first P f xs) = map_option f (find P xs)"
  by (induction xs) auto

lemma update_first_no_match: "find P xs = None \<Longrightarrow> update_first P f xs = xs"
  by (induction xs) (auto split: if_splits)

lemma map_update_first:
  "(\<And>x. P x \<Longrightarrow> g (f x) = g x) \<Longrightarrow> map g (update_first P f xs) = map g xs"
  by (induction xs) auto

lemma update_first_fix:
  "find P xs = Some x \<Longrightarrow> f x = x \<Longrightarrow> update_first P f xs = xs"
  by (induction xs) (auto split: if_splits)

lemma find_snoc_not_None: "P x \<Longrightarrow> find P (xs @ [x]) \<noteq> None"
  by (simp add: find_None_iff')

lemma length_update_first [simp]: "length (update_first P f xs) = length xs"
  by (induction xs) auto

lemma update_first_first:
  "P x \<Longrightarrow> update_first P f (x # xs) = f x # xs"
  by simp

lemma find_distinct_key:
  "distinct (map f xs) \<Longrightarrow> x \<in> set xs \<Longrightarrow> find (\<lambda>y. f y = f x) xs = Some x"
  by (induction xs) (auto simp: image_iff)

lemma filter_distinct_key:
  "distinct (map f xs) \<Longrightarrow> y \<in> set xs \<Longrightarrow> filter (\<lambda>x. f x = f y) xs = [y]"
  by (induction xs) (auto simp: filter_empty_conv image_iff)

lemma map_fst_filter_snd: "map fst (filter snd (map (\<lambda>x. (x, P x)) xs)) = filter P xs"
  by (induction xs) auto

lemma filter_conj_const: "filter (\<lambda>y. P \<and> Q y) xs = (if P then filter Q xs else [])"
  by (induction xs) auto

lemma concat_map_if_filter:
  "concat (map (\<lambda>x. if P x then g x else []) xs) = concat (map g (filter P xs))"
  by (induction xs) auto

lemma in_set_tl: "x \<in> set (tl xs) \<Longrightarrow> x \<in> set xs"
  by (cases xs) auto

lemma map_option_find_filter:
  "find P (filter Q xs) = find (\<lambda>x. P x \<and> Q x) xs"
  by (induction xs) auto

section \<open>Evaluation\<close>

text \<open>The rules that evaluate the string primitives on literals.\<close>

lemmas js_eval = js_trim_def is_js_space_def js_lower_def js_lower_char_def is_upper_def
  char_of_literal_eq char_of_literal_eq' sublist_code

end
