(* ===== verification/Handbook_Model.thy ===== *)
theory Handbook_Model
  imports Prelude
begin

text \<open>
  The handbook document as the sources read and build it: a handbook holds
  its \<open>meta\<close> fields, an optional \<open>companyInfo\<close> object and the ordered
  \<open>sections\<close> array; a section holds its ordered \<open>subpolicies\<close>; a
  sub-policy holds its ordered \<open>blocks\<close>. A JavaScript object becomes a
  record, with the field names of the JSON document (prefixed where two
  objects share a field name). A string field the code reads as
  \<open>x || ""\<close> is a string whose empty value stands for an absent field; an
  array read as \<open>x || []\<close> is a list whose empty value stands for an absent
  array. A sub-policy's \<open>pdfPage\<close>, the optional page anchor of its PDF link
  that app.js reads, is the text of that value, empty when it is absent or
  falsy.
\<close>

record block =
  btype :: string
  btext :: string

record subpolicy =
  sp_id :: string
  sp_title :: string
  sp_summary :: string
  blocks :: "block list"
  pdf :: string
  pdf_page :: string

record handbook_section =
  sec_id :: string
  sec_title :: string
  sec_summary :: string
  subpolicies :: "subpolicy list"

record location =
  loc_name :: string
  loc_address :: string
  loc_phone :: string

record company_info =
  ci_name :: string
  ci_address :: string
  ci_phone :: string
  ci_email :: string
  ci_website :: string
  ci_tagline :: string
  ci_flyer :: string
  ci_notes :: string
  ci_locations :: "location list"

record meta_info =
  meta_title :: string
  meta_subtitle :: string
  meta_updated :: string

record handbook =
  meta :: meta_info
  companyInfo :: "company_info option"
  sections :: "handbook_section list"

text \<open>
  A small handbook the witnesses evaluate the operations on: two sections,
  the first with two sub-policies, the second with one.
\<close>

abbreviation sample_qc :: subpolicy where
  "sample_qc \<equiv> \<lparr>sp_id = ''qc'', sp_title = ''Quality Control'', sp_summary = ''Daily checks'',
      blocks = [\<lparr>btype = ''li'', btext = ''Run controls''\<rparr>], pdf = [], pdf_page = []\<rparr>"

abbreviation sample_safety :: subpolicy where
  "sample_safety \<equiv> \<lparr>sp_id = ''safety'', sp_title = ''Safety'', sp_summary = [],
      blocks = [], pdf = ''pdf/safety.pdf'', pdf_page = ''3''\<rparr>"

abbreviation sample_leave :: subpolicy where
  "sample_leave \<equiv> \<lparr>sp_id = ''leave'', sp_title = ''Leave'', sp_summary = ''Paid time off'',
      blocks = [], pdf = [], pdf_page = []\<rparr>"

abbreviation sample_lab :: handbook_section where
  "sample_lab \<equiv> \<lparr>sec_id = ''lab'', sec_title = ''Waived Lab'', sec_summary = ''Safety rules'',
      subpolicies = [sample_qc, sample_safety]\<rparr>"

abbreviation sample_hr :: handbook_section where
  "sample_hr \<equiv> \<lparr>sec_id = ''hr'', sec_title = ''Human Resources'', sec_summary = [],
      subpolicies = [sample_leave]\<rparr>"

abbreviation sample_handbook :: handbook where
  "sample_handbook \<equiv> \<lparr>meta = \<lparr>meta_title = ''Handbook'', meta_subtitle = [], meta_updated = []\<rparr>,
      companyInfo = None, sections = [sample_lab, sample_hr]\<rparr>"

lemma block_eqI: "btype b = ty \<Longrightarrow> btext b = tx \<Longrightarrow> \<lparr>btype = ty, btext = tx\<rparr> = b"
  by (cases b) simp

text \<open>
  The identities of a handbook. The spec asks for section identities that are
  unique among the sections and sub-policy identities unique within their
  section; no code path checks it, so it is a predicate the theorems assume
  or refute, never a property of the type.
\<close>

definition section_ids :: "handbook \<Rightarrow> string list" where
  "section_ids hb = map sec_id (sections hb)"

definition unique_ids :: "handbook \<Rightarrow> bool" where
  "unique_ids hb \<longleftrightarrow> distinct (section_ids hb)
     \<and> (\<forall>s\<in>set (sections hb). distinct (map sp_id (subpolicies s)))"

lemma sample_handbook_unique: "unique_ids sample_handbook"
  by (simp add: unique_ids_def section_ids_def)

text \<open>The first entry of an array, \<open>xs[0]\<close>, which is \<open>undefined\<close> on an empty array.\<close>

definition first :: "'a list \<Rightarrow> 'a option" where
  "first xs = (case xs of [] \<Rightarrow> None | x # _ \<Rightarrow> Some x)"

lemma first_simps [simp]: "first [] = None" "first (x # xs) = Some x"
  by (simp_all add: first_def)

lemma first_Some_iff: "first xs = Some x \<longleftrightarrow> (\<exists>ys. xs = x # ys)"
  by (cases xs) auto

lemma first_None_iff [simp]: "first xs = None \<longleftrightarrow> xs = []"
  by (cases xs) auto

lemma first_map: "first (map f xs) = map_option f (first xs)"
  by (cases xs) auto

end
