(* ===== verification/Editor_Text.thy ===== *)
theory Editor_Text
  imports Handbook_Model
begin

text \<open>
  The admin editor's text form of a sub-policy body (src/js/admin.js):
  \<open>parseEditorText\<close> turns the textarea's text into blocks, one per
  non-blank line, a line starting with \<open>"- "\<close> or \<open>"* "\<close> becoming a bullet
  (\<open>"li"\<close>) and any other line a paragraph (\<open>"p"\<close>);
  \<open>blocksToEditorText\<close> prints blocks back, one line each, a bullet with
  the marker \<open>"- "\<close>. The lemmas show that printing then parsing is the
  identity on the blocks the editor itself produces (\<open>editor_block\<close>), that
  every parsed block is one of those, and exactly how it is lossy on the
  others.
\<close>

section \<open>Parsing\<close>

text \<open>
  The body of the \<open>for (const raw of lines)\<close> loop: the blocks it pushes for
  one line (none when it \<open>continue\<close>s on a blank line).
\<close>

definition parse_line :: "string \<Rightarrow> block list" where
  "parse_line raw =
     (let ln = js_trim raw in
      if ln = [] then []
      else if prefix ''- '' ln \<or> prefix ''* '' ln
      then [\<lparr>btype = ''li'', btext = js_trim (drop 2 ln)\<rparr>]
      else [\<lparr>btype = ''p'', btext = ln\<rparr>])"

definition parseEditorText :: "string \<Rightarrow> block list" where
  "parseEditorText txt = concat (map parse_line (split_lines txt))"

section \<open>Printing\<close>

definition block_line :: "block \<Rightarrow> string" where
  "block_line b = (if btype b = ''li'' then ''- '' else []) @ btext b"

definition blocksToEditorText :: "block list \<Rightarrow> string" where
  "blocksToEditorText bs = js_join [LF] (map block_line bs)"

section \<open>The blocks the editor produces\<close>

text \<open>
  A bullet or paragraph whose text is one non-empty trimmed line; a paragraph
  besides does not start with a bullet marker.
\<close>

definition editor_block :: "block \<Rightarrow> bool" where
  "editor_block b \<longleftrightarrow>
     (btype b = ''li'' \<or> btype b = ''p'') \<and> btext b \<noteq> [] \<and> trimmed (btext b)
     \<and> LF \<notin> set (btext b)
     \<and> (btype b = ''p'' \<longrightarrow> \<not> prefix ''- '' (btext b) \<and> \<not> prefix ''* '' (btext b))"

section \<open>Lemmas\<close>

lemma parse_line_trim [simp]: "parse_line (js_trim raw) = parse_line raw"
  by (simp add: parse_line_def)

lemma parse_lines_trim_eq:
  "map js_trim ls = map js_trim ls' \<Longrightarrow>
   concat (map parse_line ls) = concat (map parse_line ls')"
  by (metis (no_types, lifting) map_eq_conv map_map o_def parse_line_trim)

lemma set_js_trim: "set (js_trim s) \<subseteq> set s"
  by (auto simp: js_trim_def dest!: set_dropWhileD)

lemma split_lines_lines_no_LF: "l \<in> set (split_lines s) \<Longrightarrow> LF \<notin> set l"
  by (induction s arbitrary: l rule: split_lines.induct)
     (auto split: if_splits list.splits)

text \<open>Printing then parsing is parsing each printed line on its own.\<close>

lemma parse_print_lines:
  assumes "\<forall>b\<in>set bs. LF \<notin> set (btext b)"
  shows "parseEditorText (blocksToEditorText bs) = concat (map (parse_line \<circ> block_line) bs)"
proof (cases "bs = []")
  case True
  then show ?thesis
    by (simp add: parseEditorText_def blocksToEditorText_def parse_line_def)
next
  case False
  have "\<forall>l\<in>set (map block_line bs). LF \<notin> set l"
    using assms by (auto simp: block_line_def)
  with False have "map js_trim (split_lines (js_join [LF] (map block_line bs)))
      = map js_trim (map block_line bs)"
    by (simp add: split_lines_js_join)
  then have "concat (map parse_line (split_lines (js_join [LF] (map block_line bs))))
      = concat (map parse_line (map block_line bs))"
    by (rule parse_lines_trim_eq)
  then show ?thesis
    by (simp add: parseEditorText_def blocksToEditorText_def)
qed

lemma trimmed_bullet_line:
  "t \<noteq> [] \<Longrightarrow> trimmed t \<Longrightarrow> trimmed (CHR ''-'' # CHR '' '' # t)"
  by (simp add: trimmed_def is_js_space_def)

lemma editor_block_line:
  assumes wf: "editor_block b"
  shows "parse_line (block_line b) = [b]"
proof (cases "btype b = ''li''")
  case True
  from wf have t: "btext b \<noteq> []" "trimmed (btext b)"
    by (simp_all add: editor_block_def)
  then have "js_trim (block_line b) = CHR ''-'' # CHR '' '' # btext b"
    using True by (simp add: block_line_def js_trim_id trimmed_bullet_line)
  with True t show ?thesis
    by (simp add: parse_line_def js_trim_id block_eqI)
next
  case False
  with wf have "btype b = ''p''" "btext b \<noteq> []" "trimmed (btext b)"
    "\<not> prefix ''- '' (btext b)" "\<not> prefix ''* '' (btext b)"
    by (auto simp: editor_block_def)
  with False show ?thesis
    by (simp add: parse_line_def block_line_def js_trim_id block_eqI)
qed

lemma editor_blocks_lines:
  "\<forall>b\<in>set bs. editor_block b \<Longrightarrow> concat (map (parse_line \<circ> block_line) bs) = bs"
  by (induction bs) (simp_all add: editor_block_line)

text \<open>A trimmed line that starts with a marker has a non-blank rest.\<close>

lemma bullet_rest_nonblank:
  assumes t: "trimmed ln" and m: "prefix m ln" and mm: "m = ''- '' \<or> m = ''* ''"
  shows "js_trim (drop 2 ln) \<noteq> []"
proof
  assume "js_trim (drop 2 ln) = []"
  then have sp: "\<forall>c\<in>set (drop 2 ln). is_js_space c"
    by (simp add: js_trim_Nil_iff)
  from m obtain r where ln: "ln = m @ r"
    by (auto simp: prefix_def)
  with mm have r: "drop 2 ln = r" and ne: "ln \<noteq> []" by auto
  with t have nsp: "\<not> is_js_space (last ln)"
    by (simp add: trimmed_def)
  show False
  proof (cases "r = []")
    case True
    with ln mm have "last ln = CHR '' ''" by auto
    with nsp show False by simp
  next
    case False
    with ln have "last ln \<in> set r" by simp
    with sp r nsp show False by simp
  qed
qed

lemma parse_line_editor_block:
  assumes nolf: "LF \<notin> set raw"
  shows "\<forall>b\<in>set (parse_line raw). editor_block b"
proof -
  let ?ln = "js_trim raw"
  have lf: "LF \<notin> set ?ln"
    using nolf set_js_trim by blast
  have t: "trimmed ?ln" by simp
  show ?thesis
  proof (cases "prefix ''- '' ?ln \<or> prefix ''* '' ?ln")
    case True
    then have ne: "?ln \<noteq> []" by auto
    from True have rest: "js_trim (drop 2 ?ln) \<noteq> []"
      using bullet_rest_nonblank [OF t] by blast
    have "LF \<notin> set (js_trim (drop 2 ?ln))"
      using lf set_js_trim [of "drop 2 ?ln"] set_drop_subset [of 2 ?ln] by blast
    with rest True ne show ?thesis
      by (simp add: parse_line_def editor_block_def)
  next
    case False
    with lf t show ?thesis
      by (simp add: parse_line_def editor_block_def Let_def)
  qed
qed

lemma parseEditorText_editor_blocks:
  "b \<in> set (parseEditorText txt) \<Longrightarrow> editor_block b"
  using parse_line_editor_block split_lines_lines_no_LF
  by (auto simp: parseEditorText_def)

lemma editor_blocks_parse_print:
  "parseEditorText (blocksToEditorText (parseEditorText txt)) = parseEditorText txt"
proof -
  have "\<forall>b\<in>set (parseEditorText txt). LF \<notin> set (btext b)"
    using parseEditorText_editor_blocks by (simp add: editor_block_def)
  then have "parseEditorText (blocksToEditorText (parseEditorText txt))
      = concat (map (parse_line \<circ> block_line) (parseEditorText txt))"
    by (rule parse_print_lines)
  also have "\<dots> = parseEditorText txt"
    using parseEditorText_editor_blocks by (blast intro: editor_blocks_lines)
  finally show ?thesis .
qed

text \<open>Printing editor blocks and parsing the text gives them back.\<close>

lemma print_parse_editor_blocks:
  assumes wf: "\<forall>b\<in>set bs. editor_block b"
  shows "parseEditorText (blocksToEditorText bs) = bs"
proof -
  from wf have "\<forall>b\<in>set bs. LF \<notin> set (btext b)"
    by (simp add: editor_block_def)
  then have "parseEditorText (blocksToEditorText bs) = concat (map (parse_line \<circ> block_line) bs)"
    by (rule parse_print_lines)
  also from wf have "\<dots> = bs"
    by (rule editor_blocks_lines)
  finally show ?thesis .
qed

text \<open>What the editor's textarea needs to hold the printed text unchanged.\<close>

lemma editor_text_no_CR:
  "list_all (\<lambda>b. CR \<notin> set (btext b)) bs \<Longrightarrow> CR \<notin> set (blocksToEditorText bs)"
  using set_js_join [of "[LF]" "map block_line bs"]
  by (auto simp: blocksToEditorText_def block_line_def list_all_iff)

lemma editor_text_first:
  "list_all editor_block bs \<Longrightarrow> take 1 (blocksToEditorText bs) \<noteq> [LF]"
proof (cases bs)
  case (Cons b r)
  assume eb: "list_all editor_block bs"
  with Cons have b: "editor_block b" by simp
  then obtain x y where xy: "block_line b = x # y" and x: "x \<noteq> LF"
    by (cases "btext b") (auto simp: block_line_def editor_block_def trimmed_def)
  with Cons show ?thesis
    by (cases r) (simp_all add: blocksToEditorText_def js_join_Cons_Cons)
qed (simp add: blocksToEditorText_def)

section \<open>Properties\<close>

text \<open>
  C3. Round trip of the editor's text form: printing a list of editor blocks
  with \<open>blocksToEditorText\<close> and parsing the text back with
  \<open>parseEditorText\<close> gives the same blocks, in the same order.
\<close>

theorem editor_text_roundtrip:
  "\<forall>b\<in>set bs. editor_block b \<Longrightarrow> parseEditorText (blocksToEditorText bs) = bs"
  by (rule print_parse_editor_blocks)

text \<open>
  C34. Every block \<open>parseEditorText\<close> produces is an editor block: a bullet or
  paragraph whose text is one non-empty trimmed line, a paragraph never
  starting with a bullet marker; blank lines produce no block.
\<close>

theorem parseEditorText_wf:
  "\<forall>b\<in>set (parseEditorText txt). editor_block b"
  using parseEditorText_editor_blocks by blast

text \<open>
  Saving the editor twice changes nothing the second time: parsing the
  printed form of parsed text gives the parsed text again.
\<close>

theorem editor_text_idempotent:
  "parseEditorText (blocksToEditorText (parseEditorText txt)) = parseEditorText txt"
  by (rule editor_blocks_parse_print)

text \<open>
  The text-form round trip is lossy on blocks the editor does not produce:
  a bullet with empty text comes back as the paragraph \<open>"-"\<close>.
\<close>

theorem empty_bullet_roundtrip:
  "parseEditorText (blocksToEditorText [\<lparr>btype = ''li'', btext = []\<rparr>])
     = [\<lparr>btype = ''p'', btext = ''-''\<rparr>]"
  by (simp add: parseEditorText_def blocksToEditorText_def block_line_def
      parse_line_def js_trim_def is_js_space_def)

section \<open>Witnesses\<close>

theorem editor_text_roundtrip_witness:
  "list_all editor_block
      [\<lparr>btype = ''p'', btext = ''Scope''\<rparr>, \<lparr>btype = ''li'', btext = ''Wear gloves''\<rparr>]
   \<and> parseEditorText (blocksToEditorText
        [\<lparr>btype = ''p'', btext = ''Scope''\<rparr>, \<lparr>btype = ''li'', btext = ''Wear gloves''\<rparr>])
     = [\<lparr>btype = ''p'', btext = ''Scope''\<rparr>, \<lparr>btype = ''li'', btext = ''Wear gloves''\<rparr>]"
proof -
  have h: "\<forall>b\<in>set [\<lparr>btype = ''p'', btext = ''Scope''\<rparr>, \<lparr>btype = ''li'', btext = ''Wear gloves''\<rparr>].
      editor_block b"
    by (simp add: editor_block_def trimmed_def is_js_space_def)
  show ?thesis using h editor_text_roundtrip [OF h] by simp
qed

theorem parseEditorText_wf_witness:
  "parseEditorText (''Scope'' @ [LF] @ '' - gloves '' @ [CR, LF, LF] @ ''* mask'')
     = [\<lparr>btype = ''p'', btext = ''Scope''\<rparr>, \<lparr>btype = ''li'', btext = ''gloves''\<rparr>,
        \<lparr>btype = ''li'', btext = ''mask''\<rparr>]
   \<and> list_all editor_block (parseEditorText (''Scope'' @ [LF] @ '' - gloves '' @ [CR, LF, LF] @ ''* mask''))"
proof -
  have e: "parseEditorText (''Scope'' @ [LF] @ '' - gloves '' @ [CR, LF, LF] @ ''* mask'')
     = [\<lparr>btype = ''p'', btext = ''Scope''\<rparr>, \<lparr>btype = ''li'', btext = ''gloves''\<rparr>,
        \<lparr>btype = ''li'', btext = ''mask''\<rparr>]"
    by (simp add: parseEditorText_def parse_line_def js_trim_def is_js_space_def)
  show ?thesis
    using e parseEditorText_wf [of "''Scope'' @ [LF] @ '' - gloves '' @ [CR, LF, LF] @ ''* mask''"]
    by (simp add: list_all_iff)
qed

end
