(* ===== verification/Viewer.thy ===== *)
theory Viewer
  imports Handbook_Model
begin

text \<open>
  The read-only viewer of src/app1.js. Its state is the loaded handbook, the
  active selection \<open>active = {sectionId, subId}\<close>, the \<open>expanded\<close> set of
  section identifiers, the local-storage slot \<open>"expandedSections"\<close> that
  \<open>persistExpanded\<close> writes, and the URL's \<open>section\<close> and \<open>policy\<close>
  query parameters. The handlers are functions on that state: \<open>setActive\<close>,
  \<open>ensureDefaultSelection\<close>, the header toggle \<open>toggleFn\<close> and the start-up
  \<open>init\<close>; \<open>renderMenu\<close> and \<open>renderContent\<close> are functions from the state
  (and the search box) to what the menu and the content pane show. User
  events are a step relation over the rendered menu.
\<close>

section \<open>Lookups\<close>

text \<open>
  \<open>findSection(id)\<close> and \<open>findSub(section, subId)\<close>: the first entry whose
  \<open>id\<close> is \<open>id\<close>; an absent (\<open>null\<close>) identifier matches nothing.
\<close>

definition findSection :: "handbook \<Rightarrow> string option \<Rightarrow> handbook_section option" where
  "findSection hb sid = find (\<lambda>s. Some (sec_id s) = sid) (sections hb)"

definition findSub :: "handbook_section \<Rightarrow> string option \<Rightarrow> subpolicy option" where
  "findSub sec pid = find (\<lambda>sp. Some (sp_id sp) = pid) (subpolicies sec)"

section \<open>State\<close>

record url_query =
  url_section :: "string option"
  url_policy :: "string option"

record viewer =
  vhb :: handbook
  active_section :: "string option"
  active_sub :: "string option"
  expanded :: "string list"
  stored_expanded :: "string list option"
  vurl :: url_query

section \<open>Handlers\<close>

text \<open>
  \<open>setActive(sectionId, subId)\<close> with its default \<open>pushUrl = true\<close> (no caller
  passes another): select, expand the owning section, persist the expanded
  set, and write both query parameters (\<open>history.replaceState\<close>).
\<close>

definition setActive :: "string \<Rightarrow> string \<Rightarrow> viewer \<Rightarrow> viewer" where
  "setActive sid pid v =
     (let e = js_set_add sid (expanded v) in
      v\<lparr>active_section := Some sid, active_sub := Some pid,
        expanded := e, stored_expanded := Some e,
        vurl := \<lparr>url_section = Some sid, url_policy = Some pid\<rparr>\<rparr>)"

text \<open>
  \<open>ensureDefaultSelection()\<close>: a deep link \<open>?section=s&policy=p\<close> whose
  section exists is taken verbatim, whether or not \<open>p\<close> names a sub-policy;
  otherwise the first sub-policy of the first section, if there is one
  (\<open>first_policy_selection\<close>, lines 84-90). The expansion it adds is not
  persisted.
\<close>

definition first_policy_selection :: "viewer \<Rightarrow> viewer" where
  "first_policy_selection v =
     (case first (sections (vhb v)) of
        None \<Rightarrow> v
      | Some f \<Rightarrow>
          (case first (subpolicies f) of
             None \<Rightarrow> v
           | Some fs \<Rightarrow> v\<lparr>active_section := Some (sec_id f), active_sub := Some (sp_id fs),
                           expanded := js_set_add (sec_id f) (expanded v)\<rparr>))"

definition ensureDefaultSelection :: "viewer \<Rightarrow> viewer" where
  "ensureDefaultSelection v =
     (case (truthy (url_section (vurl v)), truthy (url_policy (vurl v))) of
        (Some s, Some p) \<Rightarrow>
          if findSection (vhb v) (Some s) \<noteq> None
          then v\<lparr>active_section := Some s, active_sub := Some p,
                 expanded := js_set_add s (expanded v)\<rparr>
          else first_policy_selection v
      | _ \<Rightarrow> first_policy_selection v)"

text \<open>
  The header's \<open>toggleFn\<close> for the section object the menu rendered: flip
  membership in the expanded set and persist it; opening also selects the
  section's first sub-policy through \<open>setActive\<close> (all sub-policies, not
  only those the search shows).
\<close>

definition toggleSection :: "handbook_section \<Rightarrow> viewer \<Rightarrow> viewer" where
  "toggleSection sec v =
     (let nowOpen = sec_id sec \<in> set (expanded v);
          e = (if nowOpen then js_set_delete (sec_id sec) (expanded v)
               else js_set_add (sec_id sec) (expanded v));
          v1 = v\<lparr>expanded := e, stored_expanded := Some e\<rparr>
      in if \<not> nowOpen
         then (case first (subpolicies sec) of
                 Some fs \<Rightarrow> setActive (sec_id sec) (sp_id fs) v1
               | None \<Rightarrow> v1)
         else v1)"

section \<open>Start-up\<close>

text \<open>
  The stored expanded set is read when the module loads:
  \<open>new Set(JSON.parse(localStorage.getItem("expandedSections") || "[]"))\<close>.
  The slot is absent, holds a JSON array of identifiers, or holds text that
  \<open>JSON.parse\<close> rejects or a value \<open>new Set\<close> cannot iterate; the last
  throws at module load, before any handler exists, so nothing is rendered.
\<close>

datatype expanded_slot = SlotAbsent | SlotList "string list" | SlotInvalid

text \<open>
  The two ways a viewer page fails: the module throws while loading (nothing
  is drawn), or \<open>init\<close> catches a load failure and draws the
  "Could not load handbook data" notice (lines 264-273).
\<close>

datatype boot_error = ModuleLoadError | HandbookLoadError

definition read_expanded :: "expanded_slot \<Rightarrow> boot_error + string list" where
  "read_expanded slot =
     (case slot of
        SlotAbsent \<Rightarrow> Inr []
      | SlotList xs \<Rightarrow> Inr (js_set_of_list xs)
      | SlotInvalid \<Rightarrow> Inl ModuleLoadError)"

text \<open>
  \<open>init()\<close> after the handbook has loaded (the loading itself is the
  \<open>Loading\<close> theory): on a first visit (empty set) every section is expanded
  and the set persisted; then the default selection is resolved.
\<close>

definition viewer_init ::
    "handbook \<Rightarrow> expanded_slot \<Rightarrow> url_query \<Rightarrow> boot_error + viewer" where
  "viewer_init hb slot url =
     (case read_expanded slot of
        Inl err \<Rightarrow> Inl err
      | Inr e0 \<Rightarrow>
          (let stored = (case slot of SlotList xs \<Rightarrow> Some xs | _ \<Rightarrow> None);
               v0 = \<lparr>vhb = hb, active_section = None, active_sub = None,
                     expanded = e0, stored_expanded = stored, vurl = url\<rparr>;
               v1 = (if e0 = [] then
                       (let e = js_set_of_list (map sec_id (sections hb))
                        in v0\<lparr>expanded := e, stored_expanded := Some e\<rparr>)
                     else v0)
           in Inr (ensureDefaultSelection v1)))"

section \<open>Menu\<close>

text \<open>
  \<open>renderMenu()\<close>: the search box's text, trimmed and lower-cased, filters
  each section's sub-policies by \<open>matchesSearch\<close>; under a non-empty query
  a section with no match is left out, and one with a match is drawn open.
\<close>

definition search_query :: "string \<Rightarrow> string" where
  "search_query raw = js_lower (js_trim raw)"

text \<open>The texts \<open>matchesSearch\<close> joins with spaces into its haystack.\<close>

definition search_fields :: "handbook_section \<Rightarrow> subpolicy \<Rightarrow> string list" where
  "search_fields sec sp =
     [sec_title sec, sec_summary sec, sp_title sp, sp_summary sp] @ map btext (blocks sp)"

definition haystack :: "handbook_section \<Rightarrow> subpolicy \<Rightarrow> string" where
  "haystack sec sp = js_lower (js_join '' '' (search_fields sec sp))"

definition matchesSearch :: "string \<Rightarrow> handbook_section \<Rightarrow> subpolicy \<Rightarrow> bool" where
  "matchesSearch q sec sp \<longleftrightarrow> (if q = [] then True else sublist q (haystack sec sp))"

record menu_group =
  g_section :: handbook_section
  g_subs :: "subpolicy list"
  g_open :: bool

definition menu_group_of :: "string list \<Rightarrow> string \<Rightarrow> handbook_section \<Rightarrow> menu_group list" where
  "menu_group_of exp q sec =
     (let subs = filter (matchesSearch q sec) (subpolicies sec)
      in if q \<noteq> [] \<and> subs = [] then []
         else [\<lparr>g_section = sec, g_subs = subs,
                g_open = (sec_id sec \<in> set exp \<or> (q \<noteq> [] \<and> subs \<noteq> []))\<rparr>])"

definition renderMenu :: "viewer \<Rightarrow> string \<Rightarrow> menu_group list" where
  "renderMenu v raw = concat (map (menu_group_of (expanded v) (search_query raw)) (sections (vhb v)))"

text \<open>\<open>friendlySubTitle\<close>: the label of a sub-policy in the menu.\<close>

definition friendlySubTitle :: "handbook_section \<Rightarrow> subpolicy \<Rightarrow> string" where
  "friendlySubTitle sec sp =
     (if length (subpolicies sec) = 1 \<and> js_lower (js_trim (sp_title sp)) = ''policy''
      then ''View policy''
      else if sp_title sp = [] then ''Policy'' else sp_title sp)"

section \<open>Content pane\<close>

datatype content = NoPolicySelected | ShowPolicy handbook_section subpolicy

definition renderContent :: "viewer \<Rightarrow> content" where
  "renderContent v =
     (case findSection (vhb v) (active_section v) of
        None \<Rightarrow> NoPolicySelected
      | Some sec \<Rightarrow>
          (case findSub sec (active_sub v) of
             None \<Rightarrow> NoPolicySelected
           | Some sp \<Rightarrow> ShowPolicy sec sp))"

text \<open>\<open>parseBlocks\<close>: bullet texts and paragraph texts, each in order.\<close>

definition parseBlocks :: "block list \<Rightarrow> string list \<times> string list" where
  "parseBlocks bs =
     (map btext (filter (\<lambda>b. btype b = ''li'') bs),
      map btext (filter (\<lambda>b. btype b \<noteq> ''li'') bs))"

section \<open>User events\<close>

text \<open>
  A click on a sub-policy of an open group selects it; a click (or Enter or
  Space) on a group header toggles the section. The groups are those the menu
  draws for some content of the search box.
\<close>

inductive viewer_step :: "viewer \<Rightarrow> viewer \<Rightarrow> bool" where
  select: "g \<in> set (renderMenu v raw) \<Longrightarrow> g_open g \<Longrightarrow> sp \<in> set (g_subs g) \<Longrightarrow>
     viewer_step v (setActive (sec_id (g_section g)) (sp_id sp) v)"
| toggle: "g \<in> set (renderMenu v raw) \<Longrightarrow>
     viewer_step v (toggleSection (g_section g) v)"

inductive viewer_reach :: "handbook \<Rightarrow> expanded_slot \<Rightarrow> url_query \<Rightarrow> viewer \<Rightarrow> bool"
  for hb slot url where
  boot: "viewer_init hb slot url = Inr v \<Longrightarrow> viewer_reach hb slot url v"
| step: "viewer_reach hb slot url v \<Longrightarrow> viewer_step v v' \<Longrightarrow> viewer_reach hb slot url v'"

inductive_cases viewer_stepE: "viewer_step v v'"

text \<open>
  The viewer after start-up on the sample handbook, with no stored expanded
  set and no query parameters: every section expanded, the first policy
  selected.
\<close>

abbreviation no_query :: url_query where
  "no_query \<equiv> \<lparr>url_section = None, url_policy = None\<rparr>"

abbreviation sample_viewer :: viewer where
  "sample_viewer \<equiv> \<lparr>vhb = sample_handbook, active_section = Some ''lab'', active_sub = Some ''qc'',
      expanded = [''lab'', ''hr''], stored_expanded = Some [''lab'', ''hr''], vurl = no_query\<rparr>"

section \<open>Lemmas: lookups\<close>

lemma findSection_Some:
  "findSection hb sid = Some sec \<Longrightarrow> sec \<in> set (sections hb) \<and> sid = Some (sec_id sec)"
  by (auto simp: findSection_def dest: find_Some_in_set)

lemma findSection_None_arg [simp]: "findSection hb None = None"
  by (simp add: findSection_def find_None_iff')

lemma findSection_member:
  "sec \<in> set (sections hb) \<Longrightarrow> findSection hb (Some (sec_id sec)) \<noteq> None"
  by (auto simp: findSection_def find_None_iff')

lemma findSub_Some:
  "findSub sec pid = Some sp \<Longrightarrow> sp \<in> set (subpolicies sec) \<and> pid = Some (sp_id sp)"
  by (auto simp: findSub_def dest: find_Some_in_set)

section \<open>Lemmas: handlers\<close>

lemma setActive_simps [simp]:
  "vhb (setActive s p v) = vhb v"
  "active_section (setActive s p v) = Some s"
  "active_sub (setActive s p v) = Some p"
  "expanded (setActive s p v) = js_set_add s (expanded v)"
  "stored_expanded (setActive s p v) = Some (js_set_add s (expanded v))"
  "vurl (setActive s p v) = \<lparr>url_section = Some s, url_policy = Some p\<rparr>"
  by (simp_all add: setActive_def Let_def)

lemma toggleSection_cases:
  "(sec_id sec \<in> set (expanded v) \<and>
      toggleSection sec v = v\<lparr>expanded := js_set_delete (sec_id sec) (expanded v),
                              stored_expanded := Some (js_set_delete (sec_id sec) (expanded v))\<rparr>)
   \<or> (sec_id sec \<notin> set (expanded v) \<and> first (subpolicies sec) = None \<and>
      toggleSection sec v = v\<lparr>expanded := js_set_add (sec_id sec) (expanded v),
                              stored_expanded := Some (js_set_add (sec_id sec) (expanded v))\<rparr>)
   \<or> (\<exists>fs. sec_id sec \<notin> set (expanded v) \<and> first (subpolicies sec) = Some fs \<and>
      toggleSection sec v = setActive (sec_id sec) (sp_id fs)
        (v\<lparr>expanded := js_set_add (sec_id sec) (expanded v),
            stored_expanded := Some (js_set_add (sec_id sec) (expanded v))\<rparr>))"
  by (cases "first (subpolicies sec)") (auto simp: toggleSection_def Let_def)

lemma toggleSection_frame:
  "vhb (toggleSection sec v) = vhb v"
  "stored_expanded (toggleSection sec v) = Some (expanded (toggleSection sec v))"
  "distinct (expanded v) \<Longrightarrow> distinct (expanded (toggleSection sec v))"
  using toggleSection_cases [of sec v] by (auto simp: setActive_def Let_def)

lemma first_policy_selection_cases:
  "first_policy_selection v = v \<or>
   (\<exists>f fs. first (sections (vhb v)) = Some f \<and> first (subpolicies f) = Some fs \<and>
      first_policy_selection v = v\<lparr>active_section := Some (sec_id f), active_sub := Some (sp_id fs),
                                    expanded := js_set_add (sec_id f) (expanded v)\<rparr>)"
  by (auto simp: first_policy_selection_def split: option.splits)

lemma ensureDefaultSelection_frame:
  "vhb (ensureDefaultSelection v) = vhb v"
  "vurl (ensureDefaultSelection v) = vurl v"
  "stored_expanded (ensureDefaultSelection v) = stored_expanded v"
  "distinct (expanded v) \<Longrightarrow> distinct (expanded (ensureDefaultSelection v))"
  using first_policy_selection_cases [of v]
  by (auto simp: ensureDefaultSelection_def split: option.splits)

lemma first_Some_member: "first xs = Some x \<Longrightarrow> x \<in> set xs"
  by (auto simp: first_Some_iff)

lemma first_policy_selection_active:
  "first_policy_selection v = v \<or>
   findSection (vhb v) (active_section (first_policy_selection v)) \<noteq> None"
proof (cases "first (sections (vhb v))")
  case None
  then show ?thesis by (simp add: first_policy_selection_def)
next
  case (Some f)
  then have "findSection (vhb v) (Some (sec_id f)) \<noteq> None"
    by (intro findSection_member first_Some_member)
  with Some show ?thesis
    by (auto simp: first_policy_selection_def split: option.splits)
qed

lemma ensureDefaultSelection_active:
  "active_section (ensureDefaultSelection v) = active_section v \<or>
   findSection (vhb v) (active_section (ensureDefaultSelection v)) \<noteq> None"
  using first_policy_selection_active [of v]
  by (auto simp: ensureDefaultSelection_def split: option.splits)

lemma viewer_init_Inr:
  assumes "viewer_init hb slot url = Inr v"
  shows "\<exists>v1. v = ensureDefaultSelection v1 \<and> vhb v1 = hb \<and> vurl v1 = url
            \<and> active_section v1 = None \<and> active_sub v1 = None \<and> distinct (expanded v1)"
  using assms
  by (auto simp: viewer_init_def read_expanded_def Let_def split: expanded_slot.splits)

section \<open>Lemmas: menu\<close>

lemma menu_group_of_iff:
  "g \<in> set (menu_group_of exp q sec) \<longleftrightarrow>
     \<not> (q \<noteq> [] \<and> filter (matchesSearch q sec) (subpolicies sec) = []) \<and>
     g = \<lparr>g_section = sec, g_subs = filter (matchesSearch q sec) (subpolicies sec),
          g_open = (sec_id sec \<in> set exp \<or>
                    (q \<noteq> [] \<and> filter (matchesSearch q sec) (subpolicies sec) \<noteq> []))\<rparr>"
  by (auto simp: menu_group_of_def Let_def)

lemma renderMenu_iff:
  "g \<in> set (renderMenu v raw) \<longleftrightarrow>
     (\<exists>sec\<in>set (sections (vhb v)). g \<in> set (menu_group_of (expanded v) (search_query raw) sec))"
  by (auto simp: renderMenu_def)

lemmas menu_simps = renderMenu_iff menu_group_of_iff

lemma renderMenu_group:
  assumes "g \<in> set (renderMenu v raw)"
  shows "g_section g \<in> set (sections (vhb v))"
    and "g_subs g = filter (matchesSearch (search_query raw) (g_section g)) (subpolicies (g_section g))"
  using assms by (auto simp: menu_simps)

lemma menu_group_of_no_query:
  "menu_group_of exp [] =
     (\<lambda>sec. [\<lparr>g_section = sec, g_subs = subpolicies sec, g_open = (sec_id sec \<in> set exp)\<rparr>])"
  by (rule ext) (simp add: menu_group_of_def matchesSearch_def)

lemma concat_map_singleton_list: "concat (map (\<lambda>x. [f x]) xs) = map f xs"
  by (induction xs) simp_all

lemma haystack_joined:
  "haystack sec sp = js_join '' '' (map js_lower (search_fields sec sp))"
proof -
  have "js_lower '' '' = '' ''" by (simp add: js_lower_def)
  then show ?thesis by (simp add: haystack_def js_lower_js_join)
qed

lemmas viewer_eval = viewer_init_def read_expanded_def ensureDefaultSelection_def
  first_policy_selection_def js_set_of_list_def js_set_add_def js_set_delete_def Let_def
  renderMenu_def menu_group_of_def search_query_def matchesSearch_def haystack_def
  search_fields_def findSection_def findSub_def renderContent_def toggleSection_def setActive_def

section \<open>Properties: the filtered menu\<close>

text \<open>
  C1. Soundness of the search filter for a one-word query: every sub-policy
  the menu lists under a non-empty query without spaces has the query, in lower
  case, inside one of the texts it is searched by (section title or summary,
  sub-policy title or summary, or a block's text), lower-cased.
\<close>

theorem menu_sound_fields:
  assumes "g \<in> set (renderMenu v raw)" and "sp \<in> set (g_subs g)"
    and "search_query raw \<noteq> []" and "CHR '' '' \<notin> set (search_query raw)"
  shows "\<exists>f\<in>set (search_fields (g_section g) sp). sublist (search_query raw) (js_lower f)"
proof -
  let ?q = "search_query raw"
  from assms(1,2) have "matchesSearch ?q (g_section g) sp"
    by (simp add: renderMenu_group(2))
  with assms(3) have "sublist ?q (js_join '' '' (map js_lower (search_fields (g_section g) sp)))"
    by (simp add: matchesSearch_def haystack_joined)
  then have "\<exists>x\<in>set (map js_lower (search_fields (g_section g) sp)). sublist ?q x"
    using assms(3,4) by (intro sublist_js_join_sep [of "'' ''" "CHR '' ''"]) simp_all
  then show ?thesis by simp
qed

text \<open>
  C9. Completeness of the search filter: a sub-policy one of whose searched
  texts contains the (non-empty, normalised) query is listed, in an open
  group of its section.
\<close>

theorem menu_complete:
  assumes "sec \<in> set (sections (vhb v))" and "sp \<in> set (subpolicies sec)"
    and "f \<in> set (search_fields sec sp)" and "sublist (search_query raw) (js_lower f)"
    and "search_query raw \<noteq> []"
  shows "\<exists>g\<in>set (renderMenu v raw). g_section g = sec \<and> sp \<in> set (g_subs g) \<and> g_open g"
proof -
  let ?q = "search_query raw"
  have "sublist ?q (js_join '' '' (map js_lower (search_fields sec sp)))"
    using assms(3,4) sublist_js_join [of "js_lower f" "map js_lower (search_fields sec sp)"]
    by (auto intro: sublist_order.order.trans)
  then have m: "matchesSearch ?q sec sp"
    by (simp add: matchesSearch_def haystack_joined)
  let ?g = "\<lparr>g_section = sec, g_subs = filter (matchesSearch ?q sec) (subpolicies sec),
            g_open = True\<rparr>"
  from m assms(2,5) have "?g \<in> set (menu_group_of (expanded v) ?q sec)"
    by (auto simp: menu_group_of_def Let_def filter_empty_conv)
  with assms(1) have "?g \<in> set (renderMenu v raw)"
    by (auto simp: renderMenu_def)
  with m assms(2) show ?thesis by force
qed

text \<open>
  C33. The filter matches across field boundaries: the query is searched in the
  texts joined by spaces, so a query made of the end of one searched text, a
  space and the start of the next lists the sub-policy, though no single text
  need contain it (as \<open>"b s"\<close> in \<open>"waived lab safety rules"\<close>).
\<close>

theorem menu_matches_across_fields:
  assumes "sec \<in> set (sections (vhb v))" and "sp \<in> set (subpolicies sec)"
    and "search_fields sec sp = xs @ (x0 @ a) # (b @ y0) # zs"
    and "search_query raw = js_lower (a @ '' '' @ b)" and "search_query raw \<noteq> []"
  shows "\<exists>g\<in>set (renderMenu v raw). g_section g = sec \<and> sp \<in> set (g_subs g)"
proof -
  let ?q = "search_query raw"
  have sp: "js_lower '' '' = '' ''" by (simp add: js_lower_def)
  have "sublist (js_lower (x0 @ a) @ '' '' @ js_lower (b @ y0))
          (js_join '' '' (map js_lower (search_fields sec sp)))"
    using js_join_adjacent [of "js_lower (x0 @ a)" "'' ''" "js_lower (b @ y0)" "map js_lower xs"
        "map js_lower zs"] assms(3) by simp
  moreover have "sublist ?q (js_lower (x0 @ a) @ '' '' @ js_lower (b @ y0))"
    unfolding assms(4) js_lower_append sp
    by (metis append.assoc sublist_append_leftI sublist_append_rightI sublist_order.order.trans)
  ultimately have m: "matchesSearch ?q sec sp"
    by (auto simp: matchesSearch_def haystack_joined intro: sublist_order.order.trans)
  let ?g = "\<lparr>g_section = sec, g_subs = filter (matchesSearch ?q sec) (subpolicies sec),
            g_open = True\<rparr>"
  from m assms(2,5) have "?g \<in> set (menu_group_of (expanded v) ?q sec)"
    by (auto simp: menu_group_of_def Let_def filter_empty_conv)
  with assms(1) have "?g \<in> set (renderMenu v raw)"
    by (auto simp: renderMenu_def)
  with m assms(2) show ?thesis by force
qed

text \<open>
  With an empty query (only white space typed) the menu lists every
  section with all its sub-policies, open exactly when the section is in the
  expanded set.
\<close>

theorem menu_no_query:
  "search_query raw = [] \<Longrightarrow>
   renderMenu v raw = map (\<lambda>sec. \<lparr>g_section = sec, g_subs = subpolicies sec,
                                 g_open = (sec_id sec \<in> set (expanded v))\<rparr>) (sections (vhb v))"
  by (simp add: renderMenu_def menu_group_of_no_query concat_map_singleton_list)

text \<open>
  Under a non-empty query every listed section has at least one matching
  sub-policy and is drawn open, whatever its expansion flag.
\<close>

theorem menu_query_forces_open:
  "search_query raw \<noteq> [] \<Longrightarrow> g \<in> set (renderMenu v raw) \<Longrightarrow> g_open g \<and> g_subs g \<noteq> []"
  by (auto simp: menu_simps)

section \<open>Properties: selection and events\<close>

text \<open>
  C2. Initial selection without a usable deep link: when the URL lacks a
  policy parameter or its section parameter names no section, start-up
  selects the first sub-policy of the first section, and nothing when the
  handbook has no sections or its first section has no sub-policies.
\<close>

theorem init_default_selection:
  assumes "truthy (url_policy url) = None \<or> findSection hb (truthy (url_section url)) = None"
    and "viewer_init hb slot url = Inr v"
  shows "(active_section v, active_sub v) =
           (case first (sections hb) of
              None \<Rightarrow> (None, None)
            | Some f \<Rightarrow> (case first (subpolicies f) of
                          None \<Rightarrow> (None, None)
                        | Some fs \<Rightarrow> (Some (sec_id f), Some (sp_id fs))))"
proof -
  obtain v1 where v: "v = ensureDefaultSelection v1" and hb: "vhb v1 = hb" and u: "vurl v1 = url"
    and none: "active_section v1 = None" "active_sub v1 = None"
    using viewer_init_Inr [OF assms(2)] by blast
  from assms(1) hb u have "ensureDefaultSelection v1 = first_policy_selection v1"
    by (auto simp: ensureDefaultSelection_def split: option.splits)
  with v hb none show ?thesis
    by (simp add: first_policy_selection_def split: option.splits)
qed

text \<open>
  C5. A deep link is taken verbatim: when both parameters are non-empty and
  the section exists, start-up selects exactly that pair, expands the section
  and keeps the URL.
\<close>

theorem init_deep_link:
  assumes "truthy (url_section url) = Some s" and "truthy (url_policy url) = Some p"
    and "findSection hb (Some s) \<noteq> None" and "viewer_init hb slot url = Inr v"
  shows "active_section v = Some s \<and> active_sub v = Some p \<and> s \<in> set (expanded v) \<and> vurl v = url"
proof -
  obtain v1 where v: "v = ensureDefaultSelection v1" and hb: "vhb v1 = hb" and u: "vurl v1 = url"
    using viewer_init_Inr [OF assms(4)] by blast
  with assms(1-3) show ?thesis
    by (simp add: ensureDefaultSelection_def)
qed

text \<open>
  A deep link whose section exists but whose policy does not is not
  corrected: the content pane shows that nothing is selected.
\<close>

theorem init_stale_policy:
  assumes "truthy (url_section url) = Some s" and "truthy (url_policy url) = Some p"
    and "findSection hb (Some s) = Some sec" and "findSub sec (Some p) = None"
    and "viewer_init hb slot url = Inr v"
  shows "renderContent v = NoPolicySelected"
proof -
  obtain v1 where v: "v = ensureDefaultSelection v1" and hb: "vhb v1 = hb" and u: "vurl v1 = url"
    using viewer_init_Inr [OF assms(5)] by blast
  with assms(1-4) show ?thesis
    by (simp add: ensureDefaultSelection_def renderContent_def)
qed

text \<open>
  C7. Every user event that changes the selection selects a sub-policy of the
  handbook: it expands the owning section and writes both identifiers into
  the URL (so the address bar is a link to what is shown).
\<close>

theorem viewer_step_selection:
  assumes "viewer_step v v'"
    and "(active_section v', active_sub v') \<noteq> (active_section v, active_sub v)"
  shows "\<exists>sec sp. sec \<in> set (sections (vhb v)) \<and> sp \<in> set (subpolicies sec)
           \<and> active_section v' = Some (sec_id sec) \<and> active_sub v' = Some (sp_id sp)
           \<and> sec_id sec \<in> set (expanded v')
           \<and> vurl v' = \<lparr>url_section = Some (sec_id sec), url_policy = Some (sp_id sp)\<rparr>"
  using assms(1)
proof (cases rule: viewer_step.cases)
  case (select g raw sp)
  then have "g_section g \<in> set (sections (vhb v))" "sp \<in> set (subpolicies (g_section g))"
    using renderMenu_group [OF select(2)] by auto
  with select show ?thesis by auto
next
  case (toggle g raw)
  let ?sec = "g_section g"
  have sec: "?sec \<in> set (sections (vhb v))"
    using renderMenu_group(1) [OF toggle(2)] .
  from toggleSection_cases [of ?sec v] assms(2) toggle(1) obtain fs where
    "first (subpolicies ?sec) = Some fs"
    "v' = setActive (sec_id ?sec) (sp_id fs)
       (v\<lparr>expanded := js_set_add (sec_id ?sec) (expanded v),
           stored_expanded := Some (js_set_add (sec_id ?sec) (expanded v))\<rparr>)"
    by auto
  with sec show ?thesis
    by (auto dest!: first_Some_member)
qed

text \<open>
  Every user event keeps the handbook, leaves the stored expanded set equal
  to the expanded set, and keeps the expanded set free of repetitions.
\<close>

theorem viewer_step_persists_expanded:
  assumes "viewer_step v v'"
  shows "vhb v' = vhb v \<and> stored_expanded v' = Some (expanded v')
         \<and> (distinct (expanded v) \<longrightarrow> distinct (expanded v'))"
  using assms
  by (cases rule: viewer_step.cases) (simp_all add: toggleSection_frame)

lemma viewer_step_frame:
  "viewer_step v v' \<Longrightarrow> vhb v' = vhb v"
  "viewer_step v v' \<Longrightarrow> distinct (expanded v) \<Longrightarrow> distinct (expanded v')"
  by (auto elim!: viewer_step.cases simp: toggleSection_frame)

lemma viewer_step_active:
  assumes "viewer_step v v'"
  shows "active_section v' = active_section v \<or>
         (\<exists>sec\<in>set (sections (vhb v)). active_section v' = Some (sec_id sec))"
  using assms
proof (cases rule: viewer_step.cases)
  case (select g raw sp)
  then show ?thesis using renderMenu_group(1) [OF select(2)] by auto
next
  case (toggle g raw)
  then show ?thesis
    using toggleSection_cases [of "g_section g" v] renderMenu_group(1) [OF toggle(2)]
    by auto
qed

text \<open>
  In every state reachable from start-up, the handbook is the loaded one,
  the expanded set has no repetitions, and the active section, when set, is a
  section of the handbook.
\<close>

theorem viewer_reach_invariant:
  "viewer_reach hb slot url v \<Longrightarrow>
   vhb v = hb \<and> distinct (expanded v) \<and>
   (active_section v = None \<or> findSection hb (active_section v) \<noteq> None)"
proof (induction rule: viewer_reach.induct)
  case (boot v)
  then obtain v1 where v: "v = ensureDefaultSelection v1" and hb: "vhb v1 = hb"
    and none: "active_section v1 = None" and d: "distinct (expanded v1)"
    using viewer_init_Inr by blast
  then show ?case
    using ensureDefaultSelection_active [of v1] ensureDefaultSelection_frame [of v1]
    by auto
next
  case (step v v')
  then show ?case
    using viewer_step_frame [OF step(2)] viewer_step_active [OF step(2)]
    by (auto dest: findSection_member)
qed

text \<open>
  Collapsing an expanded section leaves the selection and the URL as they
  are and removes the section from the expanded set.
\<close>

theorem toggle_close_keeps_selection:
  assumes "sec_id sec \<in> set (expanded v)"
  shows "active_section (toggleSection sec v) = active_section v
         \<and> active_sub (toggleSection sec v) = active_sub v
         \<and> vurl (toggleSection sec v) = vurl v
         \<and> sec_id sec \<notin> set (expanded (toggleSection sec v))"
  using assms by (simp add: toggleSection_def Let_def)

text \<open>
  The expansion that start-up adds for the default selection is not
  persisted: with a stored set holding only the second section, the first
  section is expanded in memory but missing from the storage slot.
\<close>

theorem init_expansion_not_persisted:
  "viewer_init sample_handbook (SlotList [''hr'']) no_query
     = Inr (sample_viewer\<lparr>expanded := [''hr'', ''lab''], stored_expanded := Some [''hr'']\<rparr>)"
  by (simp add: viewer_eval)

section \<open>Witnesses\<close>

abbreviation sample_hr_group :: menu_group where
  "sample_hr_group \<equiv> \<lparr>g_section = sample_hr, g_subs = [sample_leave], g_open = True\<rparr>"

lemma sample_hr_group_listed: "sample_hr_group \<in> set (renderMenu sample_viewer [])"
  by (simp add: viewer_eval js_eval)

lemma sample_select_step: "viewer_step sample_viewer (setActive ''hr'' ''leave'' sample_viewer)"
proof -
  have "viewer_step sample_viewer
      (setActive (sec_id (g_section sample_hr_group)) (sp_id sample_leave) sample_viewer)"
    by (rule viewer_step.select [OF sample_hr_group_listed]) simp_all
  then show ?thesis by simp
qed

theorem menu_sound_fields_witness:
  "\<lparr>g_section = sample_lab, g_subs = [sample_qc], g_open = True\<rparr>
       \<in> set (renderMenu sample_viewer ''Control'')
   \<and> (\<exists>f\<in>set (search_fields sample_lab sample_qc). sublist (search_query ''Control'') (js_lower f))"
proof -
  have g: "\<lparr>g_section = sample_lab, g_subs = [sample_qc], g_open = True\<rparr>
       \<in> set (renderMenu sample_viewer ''Control'')"
    by (simp add: viewer_eval js_eval)
  have q: "search_query ''Control'' \<noteq> []" "CHR '' '' \<notin> set (search_query ''Control'')"
    by (simp_all add: viewer_eval js_eval)
  show ?thesis
    using g menu_sound_fields [OF g, of sample_qc, OF _ q] by simp
qed

theorem menu_complete_witness:
  "\<exists>g\<in>set (renderMenu sample_viewer ''TIME'').
     g_section g = sample_hr \<and> sample_leave \<in> set (g_subs g) \<and> g_open g"
proof -
  have "sublist (search_query ''TIME'') (js_lower ''Paid time off'')" "search_query ''TIME'' \<noteq> []"
    by (simp_all add: viewer_eval js_eval)
  then show ?thesis
    using menu_complete [of sample_hr sample_viewer sample_leave "''Paid time off''" "''TIME''"]
    by (simp add: search_fields_def)
qed

theorem menu_no_query_witness:
  "search_query ''  '' = [] \<and>
   renderMenu sample_viewer ''  '' =
     [\<lparr>g_section = sample_lab, g_subs = [sample_qc, sample_safety], g_open = True\<rparr>, sample_hr_group]"
proof -
  have q: "search_query ''  '' = []" by (simp add: viewer_eval js_eval)
  show ?thesis using q menu_no_query [OF q, of sample_viewer] by simp
qed

theorem menu_query_forces_open_witness:
  "search_query ''leave'' \<noteq> []
   \<and> sample_hr_group \<in> set (renderMenu (sample_viewer\<lparr>expanded := []\<rparr>) ''leave'')
   \<and> g_open sample_hr_group \<and> g_subs sample_hr_group \<noteq> []"
proof -
  have q: "search_query ''leave'' \<noteq> []" by (simp add: viewer_eval js_eval)
  have g: "sample_hr_group \<in> set (renderMenu (sample_viewer\<lparr>expanded := []\<rparr>) ''leave'')"
    by (simp add: viewer_eval js_eval)
  show ?thesis using q g menu_query_forces_open [OF q g] by simp
qed

theorem init_default_selection_witness:
  "viewer_init sample_handbook SlotAbsent \<lparr>url_section = Some ''gone'', url_policy = Some ''x''\<rparr>
     = Inr (sample_viewer\<lparr>vurl := \<lparr>url_section = Some ''gone'', url_policy = Some ''x''\<rparr>\<rparr>)
   \<and> (Some ''lab'', Some ''qc'') =
       (case first (sections sample_handbook) of
          None \<Rightarrow> (None, None)
        | Some f \<Rightarrow> (case first (subpolicies f) of
                      None \<Rightarrow> (None, None)
                    | Some fs \<Rightarrow> (Some (sec_id f), Some (sp_id fs))))"
proof -
  have i: "viewer_init sample_handbook SlotAbsent \<lparr>url_section = Some ''gone'', url_policy = Some ''x''\<rparr>
     = Inr (sample_viewer\<lparr>vurl := \<lparr>url_section = Some ''gone'', url_policy = Some ''x''\<rparr>\<rparr>)"
    by (simp add: viewer_eval)
  have u: "truthy (url_policy \<lparr>url_section = Some ''gone'', url_policy = Some ''x''\<rparr>) = None
      \<or> findSection sample_handbook
           (truthy (url_section \<lparr>url_section = Some ''gone'', url_policy = Some ''x''\<rparr>)) = None"
    by (simp add: findSection_def)
  show ?thesis using i init_default_selection [OF u i] by simp
qed

theorem init_deep_link_witness:
  "viewer_init sample_handbook SlotAbsent \<lparr>url_section = Some ''hr'', url_policy = Some ''leave''\<rparr>
     = Inr (sample_viewer\<lparr>active_section := Some ''hr'', active_sub := Some ''leave'',
             vurl := \<lparr>url_section = Some ''hr'', url_policy = Some ''leave''\<rparr>\<rparr>)
   \<and> ''hr'' \<in> set (expanded sample_viewer)"
proof -
  have i: "viewer_init sample_handbook SlotAbsent \<lparr>url_section = Some ''hr'', url_policy = Some ''leave''\<rparr>
     = Inr (sample_viewer\<lparr>active_section := Some ''hr'', active_sub := Some ''leave'',
             vurl := \<lparr>url_section = Some ''hr'', url_policy = Some ''leave''\<rparr>\<rparr>)"
    by (simp add: viewer_eval)
  have f: "findSection sample_handbook (Some ''hr'') \<noteq> None" by (simp add: findSection_def)
  show ?thesis
    using i init_deep_link [of _ "''hr''" "''leave''", OF _ _ f i] by simp
qed

theorem init_stale_policy_witness:
  "renderContent (sample_viewer\<lparr>active_section := Some ''hr'', active_sub := Some ''retired'',
       vurl := \<lparr>url_section = Some ''hr'', url_policy = Some ''retired''\<rparr>\<rparr>) = NoPolicySelected"
proof -
  have i: "viewer_init sample_handbook SlotAbsent \<lparr>url_section = Some ''hr'', url_policy = Some ''retired''\<rparr>
     = Inr (sample_viewer\<lparr>active_section := Some ''hr'', active_sub := Some ''retired'',
             vurl := \<lparr>url_section = Some ''hr'', url_policy = Some ''retired''\<rparr>\<rparr>)"
    by (simp add: viewer_eval)
  have f: "findSection sample_handbook (Some ''hr'') = Some sample_hr"
    and p: "findSub sample_hr (Some ''retired'') = None"
    by (simp_all add: findSection_def findSub_def)
  show ?thesis
    using init_stale_policy [of _ "''hr''" "''retired''", OF _ _ f p i] by simp
qed

theorem viewer_step_selection_witness:
  "viewer_step sample_viewer (setActive ''hr'' ''leave'' sample_viewer)
   \<and> ''hr'' \<in> set (expanded (setActive ''hr'' ''leave'' sample_viewer))
   \<and> vurl (setActive ''hr'' ''leave'' sample_viewer)
       = \<lparr>url_section = Some ''hr'', url_policy = Some ''leave''\<rparr>"
proof -
  have ne: "(active_section (setActive ''hr'' ''leave'' sample_viewer),
             active_sub (setActive ''hr'' ''leave'' sample_viewer))
          \<noteq> (active_section sample_viewer, active_sub sample_viewer)"
    by simp
  show ?thesis
    using sample_select_step viewer_step_selection [OF sample_select_step ne]
    by (auto simp: js_set_add_def)
qed

theorem viewer_step_persists_expanded_witness:
  "viewer_step sample_viewer (toggleSection sample_lab sample_viewer)
   \<and> toggleSection sample_lab sample_viewer
       = sample_viewer\<lparr>expanded := [''hr''], stored_expanded := Some [''hr'']\<rparr>
   \<and> stored_expanded (toggleSection sample_lab sample_viewer)
       = Some (expanded (toggleSection sample_lab sample_viewer))"
proof -
  have g: "\<lparr>g_section = sample_lab, g_subs = [sample_qc, sample_safety], g_open = True\<rparr>
      \<in> set (renderMenu sample_viewer [])"
    by (simp add: viewer_eval js_eval)
  have st: "viewer_step sample_viewer (toggleSection sample_lab sample_viewer)"
    using viewer_step.toggle [OF g] by simp
  have t: "toggleSection sample_lab sample_viewer
       = sample_viewer\<lparr>expanded := [''hr''], stored_expanded := Some [''hr'']\<rparr>"
    by (simp add: viewer_eval)
  show ?thesis using st t viewer_step_persists_expanded [OF st] by simp
qed

theorem viewer_reach_invariant_witness:
  "viewer_reach sample_handbook SlotAbsent no_query (setActive ''hr'' ''leave'' sample_viewer)
   \<and> distinct (expanded (setActive ''hr'' ''leave'' sample_viewer))
   \<and> findSection sample_handbook (active_section (setActive ''hr'' ''leave'' sample_viewer)) \<noteq> None"
proof -
  have "viewer_init sample_handbook SlotAbsent no_query = Inr sample_viewer"
    by (simp add: viewer_eval)
  then have "viewer_reach sample_handbook SlotAbsent no_query sample_viewer"
    by (rule viewer_reach.boot)
  then have r: "viewer_reach sample_handbook SlotAbsent no_query (setActive ''hr'' ''leave'' sample_viewer)"
    using sample_select_step by (rule viewer_reach.step)
  show ?thesis
    using r viewer_reach_invariant [OF r] by simp
qed

theorem toggle_close_keeps_selection_witness:
  "''lab'' \<in> set (expanded sample_viewer)
   \<and> active_section (toggleSection sample_lab sample_viewer) = Some ''lab''
   \<and> active_sub (toggleSection sample_lab sample_viewer) = Some ''qc''
   \<and> ''lab'' \<notin> set (expanded (toggleSection sample_lab sample_viewer))"
proof -
  have e: "sec_id sample_lab \<in> set (expanded sample_viewer)" by simp
  show ?thesis using toggle_close_keeps_selection [OF e] by simp
qed

theorem menu_matches_across_fields_witness:
  "sample_lab \<in> set (sections sample_handbook) \<and> sample_safety \<in> set (subpolicies sample_lab)
   \<and> search_fields sample_lab sample_safety
       = [] @ (''Waived La'' @ ''b'') # (''S'' @ ''afety rules'') # [''Safety'', []]
   \<and> search_query ''B S'' = js_lower (''b'' @ '' '' @ ''S'') \<and> search_query ''B S'' \<noteq> []
   \<and> (\<exists>g\<in>set (renderMenu \<lparr>vhb = sample_handbook, active_section = None, active_sub = None,
          expanded = [], stored_expanded = None, vurl = \<lparr>url_section = None, url_policy = None\<rparr>\<rparr> ''B S'').
        g_section g = sample_lab \<and> sample_safety \<in> set (g_subs g))
   \<and> \<not> list_ex (\<lambda>f. sublist ''b s'' (js_lower f)) (search_fields sample_lab sample_safety)"
  using menu_matches_across_fields [of sample_lab
      "\<lparr>vhb = sample_handbook, active_section = None, active_sub = None,
         expanded = [], stored_expanded = None, vurl = \<lparr>url_section = None, url_policy = None\<rparr>\<rparr>"
      sample_safety "[]" "''Waived La''" "''b''" "''S''" "''afety rules''" "[''Safety'', []]" "''B S''"]
  by (simp add: search_fields_def search_query_def js_eval)

end
