(* ===== verification/Slugify.thy ===== *)
theory Slugify
  imports Prelude
begin

text \<open>
  Identifier generation of src/js/admin.js. \<open>uid(prefix)\<close> appends a random
  hexadecimal token to a prefix; the token (\<open>Math.random().toString(16)
  .slice(2, 10)\<close>) is a parameter of the model. \<open>slugify(s)\<close> lower-cases
  the title, replaces every maximal run of characters outside \<open>[a-z0-9]\<close>
  by one \<open>"-"\<close>, removes a leading and a trailing \<open>"-"\<close>, keeps the first
  80 characters, and falls back to \<open>uid("item")\<close> when nothing is left.
  The lemmas bound the slug's alphabet and length, show that truncation can
  leave a trailing separator, and that different titles can share a slug.
\<close>

definition uid :: "string \<Rightarrow> string \<Rightarrow> string" where
  "uid pre token = pre @ ''-'' @ token"

definition is_slug_char :: "char \<Rightarrow> bool" where
  "is_slug_char c \<longleftrightarrow> (let n = (of_char c :: nat) in (97 \<le> n \<and> n \<le> 122) \<or> (48 \<le> n \<and> n \<le> 57))"

text \<open>
  \<open>.replace(/[^a-z0-9]+/g, "-")\<close>, scanning left to right; the flag records
  that the previous character belonged to a replaced run.
\<close>

fun replace_runs :: "bool \<Rightarrow> string \<Rightarrow> string" where
  "replace_runs in_run [] = []"
| "replace_runs in_run (c # cs) =
     (if is_slug_char c then c # replace_runs False cs
      else if in_run then replace_runs True cs
      else CHR ''-'' # replace_runs True cs)"

text \<open>\<open>.replace(/(^-|-$)/g, "")\<close>: one leading and one trailing dash.\<close>

definition strip_dashes :: "string \<Rightarrow> string" where
  "strip_dashes s =
     (let s1 = (case s of [] \<Rightarrow> [] | c # r \<Rightarrow> if c = CHR ''-'' then r else s)
      in if s1 \<noteq> [] \<and> last s1 = CHR ''-'' then butlast s1 else s1)"

definition slugify :: "string \<Rightarrow> string \<Rightarrow> string" where
  "slugify s token =
     (let r = take 80 (strip_dashes (replace_runs False (js_lower s)))
      in if r = [] then uid ''item'' token else r)"

text \<open>
  The same pass as the ECMAScript global replace runs it
  (\<open>RegExp.prototype[Symbol.replace]\<close> with the \<open>g\<close> flag): from position
  \<open>i\<close>, a match of \<open>[^a-z0-9]+\<close> is the longest run of other characters
  starting there; a match is replaced by \<open>"-"\<close> and the scan resumes after
  it, a position without a match is copied. The loop ends only because every
  match is non-empty, so it is a \<open>partial_function\<close> into \<open>option\<close>:
  \<open>None\<close> would be a scan that never ends.
\<close>

partial_function (option) replace_from :: "string \<Rightarrow> nat \<Rightarrow> string option" where
  "replace_from s i =
     (if length s \<le> i then Some []
      else
        (let n = length (takeWhile (\<lambda>c. \<not> is_slug_char c) (drop i s))
         in if n = 0 then Option.bind (replace_from s (Suc i)) (\<lambda>r. Some (s ! i # r))
            else Option.bind (replace_from s (i + n)) (\<lambda>r. Some (CHR ''-'' # r))))"

section \<open>The alphabet of a slug\<close>

text \<open>
  A slug body: letters, digits and dashes, never two dashes in a row, and not
  starting with a dash.
\<close>

fun no_double_dash :: "string \<Rightarrow> bool" where
  "no_double_dash [] = True"
| "no_double_dash [c] = True"
| "no_double_dash (c # d # cs) = (\<not> (c = CHR ''-'' \<and> d = CHR ''-'') \<and> no_double_dash (d # cs))"

definition slug_body :: "string \<Rightarrow> bool" where
  "slug_body s \<longleftrightarrow> (\<forall>c\<in>set s. is_slug_char c \<or> c = CHR ''-'') \<and> no_double_dash s
                    \<and> (s = [] \<or> hd s \<noteq> CHR ''-'')"

lemma dash_not_slug_char [simp]: "\<not> is_slug_char (CHR ''-'')"
  by (simp add: is_slug_char_def)

lemma replace_runs_chars: "c \<in> set (replace_runs b s) \<Longrightarrow> is_slug_char c \<or> c = CHR ''-''"
  by (induction b s rule: replace_runs.induct) (auto split: if_splits)

lemma replace_runs_head:
  "replace_runs True s = [] \<or> is_slug_char (hd (replace_runs True s))"
  by (induction s) auto

lemma no_double_dash_Cons:
  "no_double_dash (c # s) \<longleftrightarrow> no_double_dash s \<and> (s = [] \<or> \<not> (c = CHR ''-'' \<and> hd s = CHR ''-''))"
  by (cases s) auto

lemma replace_runs_no_double: "no_double_dash (replace_runs b s)"
proof (induction b s rule: replace_runs.induct)
  case (2 in_run c cs)
  then show ?case
    using replace_runs_head [of cs]
    by (auto simp: no_double_dash_Cons)
qed simp

lemma no_double_dash_tl: "no_double_dash s \<Longrightarrow> no_double_dash (tl s)"
  by (cases s) (auto simp: no_double_dash_Cons)

lemma no_double_dash_butlast: "no_double_dash s \<Longrightarrow> no_double_dash (butlast s)"
  by (induction s rule: no_double_dash.induct) (auto simp: no_double_dash_Cons)

lemma no_double_dash_take: "no_double_dash s \<Longrightarrow> no_double_dash (take n s)"
proof (induction s arbitrary: n)
  case (Cons c s)
  show ?case
  proof (cases n)
    case (Suc m)
    from Cons.prems have nd: "no_double_dash s"
      and h: "s = [] \<or> \<not> (c = CHR ''-'' \<and> hd s = CHR ''-'')"
      by (simp_all add: no_double_dash_Cons)
    from nd Cons.IH have "no_double_dash (take m s)" by simp
    moreover have "take m s = [] \<or> hd (take m s) = hd s"
      by (cases m; cases s) auto
    ultimately show ?thesis
      using Suc h by (auto simp: no_double_dash_Cons)
  qed simp
qed simp

lemma strip_dashes_cases:
  "strip_dashes s = s \<or> strip_dashes s = tl s \<or> strip_dashes s = butlast s
   \<or> strip_dashes s = butlast (tl s)"
  by (cases s) (auto simp: strip_dashes_def Let_def)

lemma strip_dashes_head:
  assumes "no_double_dash s"
  shows "strip_dashes s = [] \<or> hd (strip_dashes s) \<noteq> CHR ''-''"
proof (cases s)
  case (Cons c r)
  show ?thesis
  proof (cases "c = CHR ''-''")
    case True
    with assms Cons have "r = [] \<or> hd r \<noteq> CHR ''-''"
      by (auto simp: no_double_dash_Cons)
    with True Cons show ?thesis
      by (cases r rule: rev_cases) (auto simp: strip_dashes_def Let_def hd_append)
  next
    case False
    with Cons show ?thesis
      by (cases r rule: rev_cases) (auto simp: strip_dashes_def Let_def)
  qed
qed (simp add: strip_dashes_def)

lemma slug_body_strip_take:
  assumes "\<forall>c\<in>set s. is_slug_char c \<or> c = CHR ''-''" and "no_double_dash s"
  shows "slug_body (take n (strip_dashes s))"
proof -
  let ?t = "strip_dashes s"
  have sub: "set ?t \<subseteq> set s"
    using strip_dashes_cases [of s]
    by (auto dest!: in_set_butlastD in_set_tl)
  have nd: "no_double_dash ?t"
    using strip_dashes_cases [of s] assms(2)
    by (auto intro: no_double_dash_tl no_double_dash_butlast
        no_double_dash_butlast [OF no_double_dash_tl])
  have hd: "?t = [] \<or> hd ?t \<noteq> CHR ''-''"
    by (rule strip_dashes_head [OF assms(2)])
  have "take n ?t = [] \<or> hd (take n ?t) \<noteq> CHR ''-''"
    using hd by (cases n; cases ?t) auto
  with sub assms(1) nd show ?thesis
    by (auto simp: slug_body_def no_double_dash_take dest: in_set_takeD)
qed

lemma slugify_nonempty: "slugify t token \<noteq> []"
  by (simp add: slugify_def uid_def Let_def)

lemma uid_nonempty [simp]: "uid pre token \<noteq> []"
  by (simp add: uid_def)

lemma replace_runs_True_dropWhile:
  "replace_runs True xs = replace_runs False (dropWhile (\<lambda>c. \<not> is_slug_char c) xs)"
  by (induction xs) auto

lemma takeWhile_drop_pos:
  assumes "i < length s" and "\<not> is_slug_char (s ! i)"
  shows "0 < length (takeWhile (\<lambda>c. \<not> is_slug_char c) (drop i s))"
  using assms by (simp add: Cons_nth_drop_Suc [symmetric])

lemma replace_from_runs:
  "replace_from s i = Some (replace_runs False (drop i s))"
proof (induction "length s - i" arbitrary: i rule: less_induct)
  case less
  show ?case
  proof (cases "length s \<le> i")
    case True
    then show ?thesis by (subst replace_from.simps) simp
  next
    case False
    then have d: "drop i s = s ! i # drop (Suc i) s" by (simp add: Cons_nth_drop_Suc)
    let ?n = "length (takeWhile (\<lambda>c. \<not> is_slug_char c) (drop i s))"
    show ?thesis
    proof (cases "is_slug_char (s ! i)")
      case True
      then have "?n = 0" using d by simp
      moreover have "replace_from s (Suc i) = Some (replace_runs False (drop (Suc i) s))"
        using False by (intro less) simp
      ultimately show ?thesis using False True d by (subst replace_from.simps) simp
    next
      case nt: False
      then have n: "0 < ?n" using takeWhile_drop_pos False by simp
      have lt: "length s - (i + ?n) < length s - i"
        using n False by arith
      have "replace_from s (i + ?n) = Some (replace_runs False (drop (i + ?n) s))"
        by (rule less [OF lt])
      moreover have "drop (i + ?n) s = dropWhile (\<lambda>c. \<not> is_slug_char c) (drop (Suc i) s)"
      proof -
        have "drop ?n (drop i s) = dropWhile (\<lambda>c. \<not> is_slug_char c) (drop i s)"
          by (metis append_eq_conv_conj takeWhile_dropWhile_id)
        then show ?thesis using d nt by (simp add: add.commute)
      qed
      ultimately show ?thesis
        using False nt d n by (subst replace_from.simps) (simp add: replace_runs_True_dropWhile)
    qed
  qed
qed

section \<open>Properties\<close>

text \<open>
  Termination of the global replace: from every position of every string
  the matching loop returns, because each match consumes at least one
  character.
\<close>

theorem replace_from_terminates: "\<exists>r. replace_from s i = Some r"
proof (induction "length s - i" arbitrary: i rule: less_induct)
  case less
  show ?case
  proof (cases "length s \<le> i")
    case True
    then show ?thesis by (subst replace_from.simps) simp
  next
    case False
    let ?n = "length (takeWhile (\<lambda>c. \<not> is_slug_char c) (drop i s))"
    obtain r1 where r1: "replace_from s (Suc i) = Some r1"
      using False less by (metis Suc_diff_Suc diff_less_mono2 lessI not_le)
    show ?thesis
    proof (cases "?n = 0")
      case True
      then show ?thesis using False r1 by (subst replace_from.simps) simp
    next
      case nz: False
      have "length s - (i + ?n) < length s - i"
        using nz False by arith
      then obtain r2 where "replace_from s (i + ?n) = Some r2"
        using less by blast
      then show ?thesis using False nz by (subst replace_from.simps) simp
    qed
  qed
qed

text \<open>
  The matching loop computes the left-to-right run replacement
  \<open>replace_runs\<close> that \<open>slugify\<close> is defined with: a run of characters
  outside \<open>[a-z0-9]\<close> becomes one dash.
\<close>

theorem replace_from_equiv: "replace_from s 0 = Some (replace_runs False s)"
  using replace_from_runs [of s 0] by simp

text \<open>
  Shape of a generated identifier: either the title has no letter or
  digit and the identifier is the random \<open>item-\<close> token, or it is a
  non-empty string of at most 80 lower-case letters, digits and dashes with no
  two dashes in a row and no leading dash.
\<close>

theorem slugify_shape:
  "slugify s token = uid ''item'' token \<or>
   (slug_body (slugify s token) \<and> slugify s token \<noteq> [] \<and> length (slugify s token) \<le> 80)"
proof -
  let ?r = "take 80 (strip_dashes (replace_runs False (js_lower s)))"
  have "slug_body ?r"
    by (rule slug_body_strip_take) (auto dest: replace_runs_chars intro: replace_runs_no_double)
  then show ?thesis
    by (auto simp: slugify_def Let_def)
qed

text \<open>
  The trailing dash is removed before the 80-character cut, so a long title
  can give an identifier that ends with a dash.
\<close>

theorem slugify_trailing_dash:
  "slugify (replicate 79 (CHR ''a'') @ '' b'') token = replicate 79 (CHR ''a'') @ ''-''"
  by code_simp

text \<open>
  Different titles can give the same identifier, whatever the random
  tokens: \<open>slugify\<close> does not make identifiers unique.
\<close>

theorem slugify_collision:
  "slugify ''Lab Safety'' t1 = ''lab-safety'' \<and> slugify '' lab  safety!'' t2 = ''lab-safety''"
  by (simp add: slugify_def strip_dashes_def is_slug_char_def js_eval)

end
