(* ===== verification/Storage.thy ===== *)
theory Storage
  imports Handbook_Model
begin

text \<open>
  Local storage as the scripts use it: two slots holding a serialised
  handbook, the draft (\<open>STORAGE_KEY_DRAFT\<close>, written by admin.js) and the
  published copy (\<open>STORAGE_KEY_PUBLISHED\<close>, written by admin.js, read by the
  viewers and the company page), and the baseline file fetched from
  \<open>data/handbook.json\<close>.
  A slot holds text, and every reader passes it to \<open>JSON.parse\<close>; the model
  records what that gives: \<open>None\<close> when the parse throws (corrupt text, or the
  empty string), otherwise a \<open>json_doc\<close>, the shape of the parsed value that
  the readers test: \<open>null\<close>, a primitive with its truthiness, an array, or an
  object. An object carries whether its \<open>sections\<close> field is an array
  (\<open>Array.isArray(data.sections)\<close>) and its fields decoded as a handbook; an
  object without a \<open>sections\<close> array has \<open>sections = []\<close> there.
  \<open>JSON.stringify\<close> of the in-memory handbook parses back to the same
  document: \<open>stringify\<close> below.
\<close>

datatype json_doc = JNull | JPrim bool | JArray | JObject bool handbook

type_synonym slot_text = "json_doc option"

record store =
  draft :: "slot_text option"
  published :: "slot_text option"

definition stringify :: "handbook \<Rightarrow> slot_text" where
  "stringify hb = Some (JObject True hb)"

text \<open>\<open>!data || !Array.isArray(data.sections)\<close> rejects a document.\<close>

definition handbook_doc :: "json_doc \<Rightarrow> handbook option" where
  "handbook_doc d = (case d of JObject True hb \<Rightarrow> Some hb | _ \<Rightarrow> None)"

text \<open>
  The baseline fetch: a network or HTTP failure (\<open>!res.ok\<close>), or a response
  whose body \<open>res.json()\<close> parses or fails to parse.
\<close>

datatype fetch_result = FetchFailed | Fetched "json_doc option"

lemma handbook_doc_Some [simp]: "handbook_doc d = Some hb \<longleftrightarrow> d = JObject True hb"
  by (cases d) (auto simp: handbook_doc_def split: bool.splits)

lemma handbook_doc_simps [simp]:
  "handbook_doc JNull = None" "handbook_doc (JPrim b) = None" "handbook_doc JArray = None"
  "handbook_doc (JObject b hb) = (if b then Some hb else None)"
  by (simp_all add: handbook_doc_def)

lemma handbook_doc_stringify [simp]: "stringify hb = Some d \<Longrightarrow> handbook_doc d = Some hb"
  by (simp add: stringify_def)

end
