(* ===== verification/Escape.thy ===== *)
theory Escape
  imports Prelude
begin

text \<open>
  HTML escaping. Two implementations exist: admin.js and app.js replace each
  character of the class \<open>[&<>"']\<close> through a lookup table in one regular
  expression pass (\<open>escapeHtml_table\<close>, with \<open>&#039;\<close> for the apostrophe);
  app1.js and company.js chain five \<open>replaceAll\<close> calls, ampersand first
  (\<open>escapeHtml_chain\<close>, with \<open>&#39;\<close>). The browser's reading of character
  references, \<open>html_decode\<close>, is the specification both are checked against:
  it is not code of the repository. The lemmas show that the chain equals a
  per-character table, that both escapes leave no markup character, and that
  the browser reads back exactly the escaped text.
\<close>

abbreviation QUOT :: char where "QUOT \<equiv> CHR 0x22"
abbreviation APOS :: char where "APOS \<equiv> CHR 0x27"

text \<open>admin.js and app.js: the table of \<open>escapeHtml\<close>.\<close>

definition esc_table :: "char \<Rightarrow> string" where
  "esc_table c =
     (if c = CHR ''&'' then ''&amp;''
      else if c = CHR ''<'' then ''&lt;''
      else if c = CHR ''>'' then ''&gt;''
      else if c = QUOT then ''&quot;''
      else if c = APOS then ''&#039;''
      else [c])"

definition escapeHtml_table :: "string \<Rightarrow> string" where
  "escapeHtml_table s = concat (map esc_table s)"

text \<open>\<open>s.replaceAll(c, r)\<close> for a one-character pattern.\<close>

definition replace_all :: "char \<Rightarrow> string \<Rightarrow> string \<Rightarrow> string" where
  "replace_all c r s = concat (map (\<lambda>x. if x = c then r else [x]) s)"

text \<open>app1.js and company.js: five passes, ampersand first.\<close>

definition escapeHtml_chain :: "string \<Rightarrow> string" where
  "escapeHtml_chain s =
     replace_all APOS ''&#39;'' (replace_all QUOT ''&quot;'' (replace_all (CHR ''>'') ''&gt;''
       (replace_all (CHR ''<'') ''&lt;'' (replace_all (CHR ''&'') ''&amp;'' s))))"

text \<open>The same escape as a table, with the chain's apostrophe entity.\<close>

definition esc_chain_char :: "char \<Rightarrow> string" where
  "esc_chain_char c = (if c = APOS then ''&#39;'' else esc_table c)"

text \<open>How a browser reads text and attribute values: the character references above.\<close>

fun html_decode :: "string \<Rightarrow> string" where
  "html_decode [] = []"
| "html_decode (c # cs) =
     (if c = CHR ''&'' then
        (if take 4 cs = ''amp;'' then CHR ''&'' # html_decode (drop 4 cs)
         else if take 3 cs = ''lt;'' then CHR ''<'' # html_decode (drop 3 cs)
         else if take 3 cs = ''gt;'' then CHR ''>'' # html_decode (drop 3 cs)
         else if take 5 cs = ''quot;'' then QUOT # html_decode (drop 5 cs)
         else if take 5 cs = ''#039;'' then APOS # html_decode (drop 5 cs)
         else if take 4 cs = ''#39;'' then APOS # html_decode (drop 4 cs)
         else c # html_decode cs)
      else c # html_decode cs)"

text \<open>
  The HTML parser's preprocessing of its input (also for \<open>innerHTML\<close>):
  a CR LF pair and a lone CR become LF.
\<close>

fun nl_norm :: "string \<Rightarrow> string" where
  "nl_norm [] = []"
| "nl_norm [c] = (if c = CR then [LF] else [c])"
| "nl_norm (c # d # s) =
     (if c = CR \<and> d = LF then LF # nl_norm s
      else (if c = CR then LF else c) # nl_norm (d # s))"

text \<open>
  What the browser holds after the page interpolated \<open>s\<close> into markup: an
  attribute \<open>name="..."\<close> as \<open>getAttribute\<close> returns it (the text up to the
  first double quote, newlines normalised, character references decoded);
  the value of an \<open><input>\<close> with that \<open>value\<close> attribute, from which value
  sanitisation strips every line break; and the value of a textarea whose
  content is \<open>s\<close>, where the parser drops a line feed right after the start
  tag (the model assumes the text does not contain the closing tag).
\<close>

definition attr_value :: "string \<Rightarrow> string" where
  "attr_value s = html_decode (takeWhile (\<lambda>c. c \<noteq> QUOT) (nl_norm s))"

definition input_value :: "string \<Rightarrow> string" where
  "input_value s = filter (\<lambda>c. c \<noteq> LF \<and> c \<noteq> CR) (attr_value s)"

definition drop_LF :: "string \<Rightarrow> string" where
  "drop_LF s = (case s of c # r \<Rightarrow> if c = LF then r else s | [] \<Rightarrow> [])"

definition textarea_value :: "string \<Rightarrow> string" where
  "textarea_value s = html_decode (drop_LF (nl_norm s))"

text \<open>No character that ends a text node or an attribute value, or opens a tag.\<close>

definition markup_free :: "string \<Rightarrow> bool" where
  "markup_free s \<longleftrightarrow> list_all (\<lambda>c. c \<notin> {CHR ''<'', CHR ''>'', QUOT, APOS}) s"

section \<open>Lemmas\<close>

lemma replace_all_simps [simp]:
  "replace_all c r [] = []"
  "replace_all c r (x # s) = (if x = c then r else [x]) @ replace_all c r s"
  "replace_all c r (s @ t) = replace_all c r s @ replace_all c r t"
  by (simp_all add: replace_all_def)

lemma escapeHtml_chain_Cons:
  "escapeHtml_chain (x # s) = esc_chain_char x @ escapeHtml_chain s"
  by (simp add: escapeHtml_chain_def esc_chain_char_def esc_table_def)

lemma escapeHtml_chain_Nil [simp]: "escapeHtml_chain [] = []"
  by (simp add: escapeHtml_chain_def)

lemma html_decode_esc_table: "html_decode (esc_table c @ s) = c # html_decode s"
  by (simp add: esc_table_def)

lemma html_decode_esc_chain: "html_decode (esc_chain_char c @ s) = c # html_decode s"
  by (simp add: esc_chain_char_def esc_table_def)

lemma html_decode_escapeHtml_table: "html_decode (escapeHtml_table s) = s"
  by (induction s) (simp_all add: escapeHtml_table_def html_decode_esc_table)

lemma html_decode_escapeHtml_chain: "html_decode (escapeHtml_chain s) = s"
  by (induction s) (simp_all add: escapeHtml_chain_Cons html_decode_esc_chain)

lemma markup_free_escapeHtml_table: "markup_free (escapeHtml_table s)"
  by (induction s) (auto simp: markup_free_def escapeHtml_table_def esc_table_def)

lemma markup_free_takeWhile: "markup_free s \<Longrightarrow> takeWhile (\<lambda>c. c \<noteq> QUOT) s = s"
  by (simp add: markup_free_def list_all_iff takeWhile_eq_all_conv)

lemma html_decode_no_amp: "CHR ''&'' \<notin> set s \<Longrightarrow> html_decode s = s"
proof (induction s)
  case (Cons a s)
  then have "a \<noteq> CHR ''&''" by auto
  with Cons show ?case by simp
qed simp

lemma nl_norm_Cons_not_CR [simp]: "c \<noteq> CR \<Longrightarrow> nl_norm (c # s) = c # nl_norm s"
  by (cases s) simp_all

lemma nl_norm_append: "CR \<notin> set x \<Longrightarrow> nl_norm (x @ y) = x @ nl_norm y"
proof (induction x)
  case (Cons a x)
  then have "a \<noteq> CR" by auto
  with Cons show ?case by simp
qed simp

lemma nl_norm_id: "CR \<notin> set s \<Longrightarrow> nl_norm s = s"
  using nl_norm_append [of s "[]"] by simp

lemma esc_table_no_CR: "CR \<notin> set (esc_table c) \<longleftrightarrow> c \<noteq> CR"
  by (auto simp: esc_table_def)

lemma esc_table_LF: "esc_table c = x # r \<Longrightarrow> x = LF \<longleftrightarrow> c = LF"
  by (auto simp: esc_table_def split: if_splits)

lemma esc_table_CR [simp]: "esc_table CR = [CR]" and esc_table_LF_eq [simp]: "esc_table LF = [LF]"
  by (simp_all add: esc_table_def)

lemma escapeHtml_table_Cons: "escapeHtml_table (c # s) = esc_table c @ escapeHtml_table s"
  and escapeHtml_table_Nil: "escapeHtml_table [] = []"
  by (simp_all add: escapeHtml_table_def)

lemma nl_norm_escapeHtml_table: "nl_norm (escapeHtml_table s) = escapeHtml_table (nl_norm s)"
  supply escapeHtml_table_Cons [simp] escapeHtml_table_Nil [simp]
proof (induction s rule: nl_norm.induct)
  case (2 c)
  then show ?case by (cases "c = CR") (simp_all add: nl_norm_id esc_table_no_CR)
next
  case (3 c d s)
  show ?case
  proof (cases "c = CR")
    case True
    obtain x r where e: "esc_table d = x # r" by (cases "esc_table d") (auto simp: esc_table_def split: if_splits)
    show ?thesis
    proof (cases "d = LF")
      case True
      with \<open>c = CR\<close> 3(1) show ?thesis by simp
    next
      case False
      with e have "x \<noteq> LF" using esc_table_LF by blast
      with \<open>c = CR\<close> False e 3(2) show ?thesis by simp
    qed
  next
    case False
    with 3(2) show ?thesis by (simp add: nl_norm_append esc_table_no_CR)
  qed
qed simp

lemma drop_LF_escapeHtml_table: "drop_LF (escapeHtml_table s) = escapeHtml_table (drop_LF s)"
  supply escapeHtml_table_Cons [simp] escapeHtml_table_Nil [simp]
proof (cases s)
  case (Cons c r)
  obtain x t where e: "esc_table c = x # t" by (cases "esc_table c") (auto simp: esc_table_def split: if_splits)
  then have "x = LF \<longleftrightarrow> c = LF" by (rule esc_table_LF)
  with e Cons show ?thesis by (auto simp: drop_LF_def)
qed (simp add: drop_LF_def)

text \<open>What the browser reads back from a value escaped with the table.\<close>

lemma form_values_escaped:
  "attr_value (escapeHtml_table s) = nl_norm s"
  "input_value (escapeHtml_table s) = filter (\<lambda>c. c \<noteq> LF \<and> c \<noteq> CR) (nl_norm s)"
  "textarea_value (escapeHtml_table s) = drop_LF (nl_norm s)"
  by (simp_all add: attr_value_def input_value_def textarea_value_def nl_norm_escapeHtml_table
      drop_LF_escapeHtml_table markup_free_takeWhile markup_free_escapeHtml_table html_decode_escapeHtml_table)

text \<open>Without line breaks (a textarea: without CR, and not starting with LF) the value is the text.\<close>

lemma form_values_plain:
  "CR \<notin> set s \<Longrightarrow> attr_value (escapeHtml_table s) = s"
  "CR \<notin> set s \<Longrightarrow> LF \<notin> set s \<Longrightarrow> input_value (escapeHtml_table s) = s"
  "CR \<notin> set s \<Longrightarrow> take 1 s \<noteq> [LF] \<Longrightarrow> textarea_value (escapeHtml_table s) = s"
  by (auto simp: form_values_escaped nl_norm_id filter_id_conv drop_LF_def split: list.splits)

section \<open>Properties\<close>

text \<open>
  The five chained \<open>replaceAll\<close> passes of app1.js and company.js equal a
  single per-character substitution: replacing the ampersand first means no
  entity a later pass inserts is escaped again.
\<close>

theorem escapeHtml_chain_table: "escapeHtml_chain s = concat (map esc_chain_char s)"
  by (induction s) (simp_all add: escapeHtml_chain_Cons)

text \<open>
  C32. Both \<open>escapeHtml\<close> implementations leave no character that opens a
  tag or ends an attribute value, and the browser reads the escaped text
  back as the original.
\<close>

theorem escape_roundtrip:
  "markup_free (escapeHtml_table s) \<and> html_decode (escapeHtml_table s) = s
   \<and> markup_free (escapeHtml_chain s) \<and> html_decode (escapeHtml_chain s) = s"
proof (intro conjI)
  show "markup_free (escapeHtml_chain s)"
    by (induction s) (auto simp: markup_free_def escapeHtml_chain_Cons esc_chain_char_def esc_table_def)
qed (simp_all add: markup_free_escapeHtml_table html_decode_escapeHtml_table html_decode_escapeHtml_chain)

end
