(* ===== verification/Admin.thy ===== *)
theory Admin
  imports Editor_Text Slugify Storage Escape
begin

text \<open>
  The admin editor of src/js/admin.js. Its state is the in-memory handbook,
  the editor's active selection \<open>active = {sectionId, subId}\<close>, the two
  local-storage slots it writes, and whether the editor panel has been
  unlocked by the login form. Each button handler is a function on that
  state; a handler that ends by redrawing the editor ends with
  \<open>ensureActive\<close>, which \<open>renderEditor\<close> calls first. The answers of
  \<open>prompt\<close> and \<open>confirm\<close>, the form fields, the random token of \<open>uid\<close>
  and the timestamp \<open>new Date().toISOString()\<close> are parameters.
\<close>

record admin =
  ahb :: handbook
  active_sec :: "string option"
  active_sp :: "string option"
  astore :: store
  authed :: bool

section \<open>Lookups\<close>

definition getSection :: "handbook \<Rightarrow> string option \<Rightarrow> handbook_section option" where
  "getSection hb sid = find (\<lambda>s. Some (sec_id s) = sid) (sections hb)"

definition getSub :: "handbook_section \<Rightarrow> string option \<Rightarrow> subpolicy option" where
  "getSub sec pid = find (\<lambda>p. Some (sp_id p) = pid) (subpolicies sec)"

text \<open>\<open>handbook.sections?.[0]?.subpolicies?.[0]\<close>\<close>

definition first_section_sub :: "handbook \<Rightarrow> subpolicy option" where
  "first_section_sub hb =
     (case first (sections hb) of None \<Rightarrow> None | Some f \<Rightarrow> first (subpolicies f))"

section \<open>Persistence\<close>

text \<open>\<open>saveDraft()\<close>: stamp \<open>meta.updated\<close>, then write the draft slot.\<close>

definition saveDraft :: "string \<Rightarrow> admin \<Rightarrow> admin" where
  "saveDraft now a =
     (let hb = (ahb a)\<lparr>meta := (meta (ahb a))\<lparr>meta_updated := now\<rparr>\<rparr>
      in a\<lparr>ahb := hb, astore := (astore a)\<lparr>draft := Some (stringify hb)\<rparr>\<rparr>)"

text \<open>\<open>publishToLocal()\<close>: write the published slot, then \<open>saveDraft\<close>.\<close>

definition publishToLocal :: "string \<Rightarrow> admin \<Rightarrow> admin" where
  "publishToLocal now a =
     saveDraft now (a\<lparr>astore := (astore a)\<lparr>published := Some (stringify (ahb a))\<rparr>\<rparr>)"

definition clearDraft :: "admin \<Rightarrow> admin" where
  "clearDraft a = a\<lparr>astore := \<lparr>draft = None, published = None\<rparr>\<rparr>"

section \<open>The editor's selection\<close>

text \<open>
  \<open>ensureActive()\<close>: an absent or unknown section falls back to the first
  section and its first sub-policy; an absent or unknown sub-policy of a known
  section falls back to that section's first sub-policy.
\<close>

definition ensureActive :: "admin \<Rightarrow> admin" where
  "ensureActive a =
     (let hb = ahb a;
          a1 = (if truthy (active_sec a) = None \<or> getSection hb (active_sec a) = None
                then a\<lparr>active_sec := truthy (map_option sec_id (first (sections hb))),
                       active_sp := truthy (map_option sp_id (first_section_sub hb))\<rparr>
                else a)
      in (case (case truthy (active_sec a1) of None \<Rightarrow> None | Some s \<Rightarrow> getSection hb (Some s)) of
            None \<Rightarrow> a1
          | Some sec \<Rightarrow>
              if truthy (active_sp a1) = None \<or> getSub sec (active_sp a1) = None
              then a1\<lparr>active_sp := truthy (map_option sp_id (first (subpolicies sec)))\<rparr>
              else a1))"

section \<open>Sections and sub-policies\<close>

text \<open>
  \<open>addMainHeading()\<close>: a cancelled or empty prompt does nothing; otherwise a
  section with the slug of the title is appended and selected.
\<close>

definition addMainHeading :: "string option \<Rightarrow> string \<Rightarrow> string \<Rightarrow> admin \<Rightarrow> admin" where
  "addMainHeading title token now a =
     (case title of
        None \<Rightarrow> a
      | Some t \<Rightarrow>
          if t = [] then a
          else
            (let sid = slugify t token;
                 sec = \<lparr>sec_id = sid, sec_title = js_trim t, sec_summary = [], subpolicies = []\<rparr>
             in ensureActive (saveDraft now
                  (a\<lparr>ahb := (ahb a)\<lparr>sections := sections (ahb a) @ [sec]\<rparr>,
                      active_sec := Some sid, active_sp := None\<rparr>))))"

definition new_subpolicy :: "string \<Rightarrow> subpolicy" where
  "new_subpolicy pid =
     \<lparr>sp_id = pid, sp_title = ''New Sub-policy'', sp_summary = [],
      blocks = [\<lparr>btype = ''p'', btext = ''(Replace this with your policy text.)''\<rparr>], pdf = [], pdf_page = []\<rparr>"

definition addSubpolicy :: "string \<Rightarrow> string \<Rightarrow> string \<Rightarrow> admin \<Rightarrow> admin" where
  "addSubpolicy sid token now a =
     (case getSection (ahb a) (Some sid) of
        None \<Rightarrow> a
      | Some _ \<Rightarrow>
          (let pid = uid ''policy'' token;
               secs = update_first (\<lambda>s. sec_id s = sid)
                        (\<lambda>s. s\<lparr>subpolicies := subpolicies s @ [new_subpolicy pid]\<rparr>)
                        (sections (ahb a))
           in ensureActive (saveDraft now
                (a\<lparr>ahb := (ahb a)\<lparr>sections := secs\<rparr>, active_sec := Some sid, active_sp := Some pid\<rparr>))))"

definition deleteSubpolicy :: "string \<Rightarrow> string \<Rightarrow> bool \<Rightarrow> string \<Rightarrow> admin \<Rightarrow> admin" where
  "deleteSubpolicy sid pid confirmed now a =
     (case getSection (ahb a) (Some sid) of
        None \<Rightarrow> a
      | Some sec \<Rightarrow>
          if \<not> confirmed then a
          else
            (let subs = filter (\<lambda>p. sp_id p \<noteq> pid) (subpolicies sec);
                 secs = update_first (\<lambda>s. sec_id s = sid) (\<lambda>s. s\<lparr>subpolicies := subs\<rparr>)
                          (sections (ahb a))
             in ensureActive (saveDraft now
                  (a\<lparr>ahb := (ahb a)\<lparr>sections := secs\<rparr>,
                      active_sp := truthy (map_option sp_id (first subs))\<rparr>))))"

definition deleteSection :: "string \<Rightarrow> bool \<Rightarrow> string \<Rightarrow> admin \<Rightarrow> admin" where
  "deleteSection sid confirmed now a =
     (if \<not> confirmed then a
      else
        (let hb = (ahb a)\<lparr>sections := filter (\<lambda>s. sec_id s \<noteq> sid) (sections (ahb a))\<rparr>
         in ensureActive (saveDraft now
              (a\<lparr>ahb := hb,
                  active_sec := truthy (map_option sec_id (first (sections hb))),
                  active_sp := truthy (map_option sp_id (first_section_sub hb))\<rparr>))))"

text \<open>The main-heading modal's Save: \<open>title.trim() || section.title\<close>.\<close>

definition saveSection :: "string \<Rightarrow> string \<Rightarrow> string \<Rightarrow> string \<Rightarrow> admin \<Rightarrow> admin" where
  "saveSection sid title summary now a =
     (case getSection (ahb a) (Some sid) of
        None \<Rightarrow> a
      | Some _ \<Rightarrow>
          (let secs = update_first (\<lambda>s. sec_id s = sid)
                 (\<lambda>s. s\<lparr>sec_title := (if js_trim title = [] then sec_title s else js_trim title),
                        sec_summary := js_trim summary\<rparr>) (sections (ahb a))
           in ensureActive (saveDraft now (a\<lparr>ahb := (ahb a)\<lparr>sections := secs\<rparr>\<rparr>))))"

text \<open>A click on a sub-policy in the sidebar.\<close>

definition selectSub :: "string \<Rightarrow> string \<Rightarrow> admin \<Rightarrow> admin" where
  "selectSub sid pid a = ensureActive (a\<lparr>active_sec := Some sid, active_sp := Some pid\<rparr>)"

text \<open>
  The editor's Save button, on the section and sub-policy \<open>renderEditor\<close>
  found for the active selection (without them there is no button).
\<close>

definition saveEditor ::
    "string \<Rightarrow> string \<Rightarrow> string \<Rightarrow> string \<Rightarrow> string \<Rightarrow> admin \<Rightarrow> admin" where
  "saveEditor title summary pdfv txt now a =
     (case (case truthy (active_sec a) of None \<Rightarrow> None | Some s \<Rightarrow> getSection (ahb a) (Some s)) of
        None \<Rightarrow> a
      | Some sec \<Rightarrow>
          (case (case truthy (active_sp a) of None \<Rightarrow> None | Some p \<Rightarrow> getSub sec (Some p)) of
             None \<Rightarrow> a
           | Some sub \<Rightarrow>
               (let upd = (\<lambda>p. p\<lparr>sp_title := (if js_trim title = [] then sp_title p else js_trim title),
                                  sp_summary := js_trim summary, pdf := js_trim pdfv,
                                  blocks := parseEditorText txt\<rparr>);
                    secs = update_first (\<lambda>s. sec_id s = sec_id sec)
                             (\<lambda>s. s\<lparr>subpolicies := update_first (\<lambda>p. sp_id p = sp_id sub) upd
                                                     (subpolicies s)\<rparr>)
                             (sections (ahb a))
                in ensureActive (saveDraft now (a\<lparr>ahb := (ahb a)\<lparr>sections := secs\<rparr>\<rparr>)))))"

section \<open>Company information\<close>

record company_form =
  form_name :: string
  form_address :: string
  form_phone :: string
  form_email :: string
  form_flyer :: string
  form_notes :: string

text \<open>
  The company modal's Save replaces \<open>companyInfo\<close> by the six form fields;
  website, tagline and locations are not among them.
\<close>

definition saveCompany :: "company_form \<Rightarrow> string \<Rightarrow> admin \<Rightarrow> admin" where
  "saveCompany f now a =
     saveDraft now (a\<lparr>ahb := (ahb a)\<lparr>companyInfo := Some
       \<lparr>ci_name = js_trim (form_name f), ci_address = js_trim (form_address f),
        ci_phone = js_trim (form_phone f), ci_email = js_trim (form_email f),
        ci_website = [], ci_tagline = [], ci_flyer = js_trim (form_flyer f),
        ci_notes = js_trim (form_notes f), ci_locations = []\<rparr>\<rparr>\<rparr>)"

section \<open>Export and import\<close>

text \<open>
  \<open>exportHandbook()\<close>: the downloaded copy is stamped at one instant, the draft
  saved afterwards at the next.
\<close>

definition exportHandbook :: "string \<Rightarrow> string \<Rightarrow> admin \<Rightarrow> handbook \<times> admin" where
  "exportHandbook now now' a =
     ((ahb a)\<lparr>meta := (meta (ahb a))\<lparr>meta_updated := now\<rparr>\<rparr>, saveDraft now' a)"

datatype admin_error = InvalidFormat

definition importHandbook :: "slot_text \<Rightarrow> string \<Rightarrow> admin \<Rightarrow> admin_error + admin" where
  "importHandbook parsed now a =
     (case parsed of
        Some (JObject True hb) \<Rightarrow> Inr (ensureActive (saveDraft now (ensureActive (a\<lparr>ahb := hb\<rparr>))))
      | _ \<Rightarrow> Inl InvalidFormat)"

text \<open>\<open>reader.onload\<close>: a rejected file only raises an alert.\<close>

definition onImport :: "slot_text \<Rightarrow> string \<Rightarrow> admin \<Rightarrow> admin" where
  "onImport parsed now a = (case importHandbook parsed now a of Inl _ \<Rightarrow> a | Inr a' \<Rightarrow> a')"

section \<open>Login\<close>

text \<open>
  \<open>login(username, password)\<close> with the digest \<open>sha256Hex\<close> and the two
  configured hashes as parameters; the Login button unlocks the editor.
\<close>

definition login ::
    "(string \<Rightarrow> string) \<Rightarrow> string \<Rightarrow> string \<Rightarrow> string \<Rightarrow> string \<Rightarrow> bool" where
  "login sha256Hex userHash passHash username password \<longleftrightarrow>
     sha256Hex (js_trim username) = userHash \<and> sha256Hex password = passHash"

definition loginClick ::
    "(string \<Rightarrow> string) \<Rightarrow> string \<Rightarrow> string \<Rightarrow> string \<Rightarrow> string \<Rightarrow> admin \<Rightarrow> admin" where
  "loginClick sha256Hex userHash passHash username password a =
     (if login sha256Hex userHash passHash username password
      then ensureActive (a\<lparr>authed := True\<rparr>) else a)"

section \<open>Commands\<close>

datatype admin_cmd =
    AddMainHeading "string option" string
  | AddSubpolicy string string
  | DeleteSubpolicy string string bool
  | DeleteSection string bool
  | SaveSection string string string
  | SelectSub string string
  | SaveEditor string string string string
  | SaveCompany company_form
  | Publish
  | Export string
  | Import slot_text

text \<open>One button press at time \<open>now\<close> (an export stamps its file at a time of its own).\<close>

fun admin_step :: "string \<Rightarrow> admin_cmd \<Rightarrow> admin \<Rightarrow> admin" where
  "admin_step now (AddMainHeading title token) a = addMainHeading title token now a"
| "admin_step now (AddSubpolicy sid token) a = addSubpolicy sid token now a"
| "admin_step now (DeleteSubpolicy sid pid ok) a = deleteSubpolicy sid pid ok now a"
| "admin_step now (DeleteSection sid ok) a = deleteSection sid ok now a"
| "admin_step now (SaveSection sid t s) a = saveSection sid t s now a"
| "admin_step now (SelectSub sid pid) a = selectSub sid pid a"
| "admin_step now (SaveEditor t s p txt) a = saveEditor t s p txt now a"
| "admin_step now (SaveCompany f) a = saveCompany f now a"
| "admin_step now Publish a = publishToLocal now a"
| "admin_step now (Export t) a = snd (exportHandbook t now a)"
| "admin_step now (Import parsed) a = onImport parsed now a"

section \<open>The editor pane\<close>

text \<open>
  \<open>renderEditor()\<close> (lines 347-434) first repairs the selection with
  \<open>ensureActive\<close>, then shows one of three panes. Its form fields are filled
  with \<open>escapeHtml\<close> of the sub-policy's values; \<open>editor_form_of\<close> is what
  the browser's fields then hold.
\<close>

datatype editor_view = NoHeadings | NoSubpolicies handbook_section
  | EditSubpolicy handbook_section subpolicy

definition renderEditor :: "admin \<Rightarrow> admin \<times> editor_view" where
  "renderEditor a =
     (let a' = ensureActive a;
          sec = (case truthy (active_sec a') of None \<Rightarrow> None | Some s \<Rightarrow> getSection (ahb a') (Some s))
      in (a', case sec of
                None \<Rightarrow> NoHeadings
              | Some section \<Rightarrow>
                  (case (case truthy (active_sp a') of None \<Rightarrow> None | Some p \<Rightarrow> getSub section (Some p)) of
                     None \<Rightarrow> NoSubpolicies section
                   | Some sub \<Rightarrow> EditSubpolicy section sub)))"

record editor_form =
  ef_title :: string
  ef_summary :: string
  ef_pdf :: string
  ef_text :: string

definition editor_form_of :: "subpolicy \<Rightarrow> editor_form" where
  "editor_form_of sub =
     \<lparr>ef_title = input_value (escapeHtml_table (sp_title sub)),
      ef_summary = input_value (escapeHtml_table (sp_summary sub)),
      ef_pdf = input_value (escapeHtml_table (pdf sub)),
      ef_text = textarea_value (escapeHtml_table (blocksToEditorText (blocks sub)))\<rparr>"

text \<open>
  Editor states the witnesses evaluate the handlers on: the sample handbook
  with its first policy selected, and the one-section, one-policy handbook of
  the deletion scenario.
\<close>

abbreviation sample_admin :: admin where
  "sample_admin \<equiv> \<lparr>ahb = sample_handbook, active_sec = Some ''lab'', active_sp = Some ''qc'',
      astore = \<lparr>draft = None, published = None\<rparr>, authed = True\<rparr>"

abbreviation sample_s1 :: handbook_section where
  "sample_s1 \<equiv> \<lparr>sec_id = ''s1'', sec_title = ''S1'', sec_summary = [],
      subpolicies = [\<lparr>sp_id = ''A'', sp_title = ''Policy'', sp_summary = [], blocks = [], pdf = [], pdf_page = []\<rparr>]\<rparr>"

abbreviation sample_one :: admin where
  "sample_one \<equiv> \<lparr>ahb = \<lparr>meta = \<lparr>meta_title = [], meta_subtitle = [], meta_updated = []\<rparr>,
      companyInfo = None, sections = [sample_s1]\<rparr>, active_sec = Some ''s1'', active_sp = Some ''A'',
      astore = \<lparr>draft = None, published = None\<rparr>, authed = True\<rparr>"

text \<open>The parse of \<open>{"foo": 1}\<close>: an object without a \<open>sections\<close> array.\<close>

abbreviation foo_doc :: slot_text where
  "foo_doc \<equiv> Some (JObject False \<lparr>meta = \<lparr>meta_title = [], meta_subtitle = [], meta_updated = []\<rparr>,
      companyInfo = None, sections = []\<rparr>)"

section \<open>The selection invariant\<close>

text \<open>
  What \<open>ensureActive\<close> establishes and \<open>renderEditor\<close> relies on: a
  selected section exists and has a non-empty identity; a selected sub-policy
  exists in it; nothing is selected only where the fallback has nothing to
  offer (no sections, or a section whose first entry has an empty identity).
\<close>

definition sel_ok :: "admin \<Rightarrow> bool" where
  "sel_ok a \<longleftrightarrow>
     (case active_sec a of
        None \<Rightarrow> truthy (map_option sec_id (first (sections (ahb a)))) = None
      | Some s \<Rightarrow> s \<noteq> [] \<and>
          (case getSection (ahb a) (Some s) of
             None \<Rightarrow> False
           | Some sec \<Rightarrow>
               (case active_sp a of
                  None \<Rightarrow> truthy (map_option sp_id (first (subpolicies sec))) = None
                | Some p \<Rightarrow> p \<noteq> [] \<and> getSub sec (Some p) \<noteq> None)))"

lemma getSection_Some:
  "getSection hb sid = Some sec \<Longrightarrow> sec \<in> set (sections hb) \<and> sid = Some (sec_id sec)"
  unfolding getSection_def by (auto dest: find_Some_in_set)

lemma getSection_first:
  "first (sections hb) = Some f \<Longrightarrow> getSection hb (Some (sec_id f)) = Some f"
  by (auto simp: getSection_def first_Some_iff)

lemma getSub_first:
  "first (subpolicies sec) = Some p \<Longrightarrow> getSub sec (Some (sp_id p)) = Some p"
  by (auto simp: getSub_def first_Some_iff)

lemma ensureActive_ok: "sel_ok (ensureActive a)"
  unfolding ensureActive_def Let_def sel_ok_def first_section_sub_def
  by (auto simp: getSection_first getSub_first split: option.splits if_splits
      dest: getSection_Some)

lemma sel_ok_cong:
  "sections (ahb a) = sections (ahb b) \<Longrightarrow> active_sec a = active_sec b \<Longrightarrow>
   active_sp a = active_sp b \<Longrightarrow> sel_ok a = sel_ok b"
  by (simp add: sel_ok_def getSection_def split: option.splits)

lemma saveDraft_simps [simp]:
  "sections (ahb (saveDraft now a)) = sections (ahb a)"
  "companyInfo (ahb (saveDraft now a)) = companyInfo (ahb a)"
  "active_sec (saveDraft now a) = active_sec a"
  "active_sp (saveDraft now a) = active_sp a"
  "authed (saveDraft now a) = authed a"
  "published (astore (saveDraft now a)) = published (astore a)"
  by (simp_all add: saveDraft_def Let_def)

lemma sel_ok_saveDraft [simp]: "sel_ok (saveDraft now a) = sel_ok a"
  by (rule sel_ok_cong) simp_all

lemma sel_ok_frame [simp]:
  "sel_ok (a\<lparr>astore := st\<rparr>) = sel_ok a"
  "sel_ok (a\<lparr>authed := b\<rparr>) = sel_ok a"
  "sel_ok (a\<lparr>ahb := (ahb a)\<lparr>companyInfo := ci\<rparr>\<rparr>) = sel_ok a"
  by (rule sel_ok_cong; simp)+

lemma ensureActive_frame [simp]:
  "ahb (ensureActive a) = ahb a" "astore (ensureActive a) = astore a"
  "authed (ensureActive a) = authed a"
  by (simp_all add: ensureActive_def Let_def split: option.splits)

lemma getSection_update_first:
  assumes "getSection hb (Some sid) = Some sec" and "\<And>s. sec_id (f s) = sec_id s"
  shows "getSection (hb\<lparr>sections := update_first (\<lambda>s. sec_id s = sid) f (sections hb)\<rparr>) (Some sid)
         = Some (f sec)"
  using assms update_first_find [of "\<lambda>s. sec_id s = sid" f "sections hb"]
  by (simp add: getSection_def)

lemma getSub_Some:
  "getSub sec pid = Some p \<Longrightarrow> p \<in> set (subpolicies sec) \<and> pid = Some (sp_id p)"
  unfolding getSub_def by (auto dest: find_Some_in_set)

lemma getSection_saveDraft [simp]: "getSection (ahb (saveDraft now a)) = getSection (ahb a)"
  by (simp add: getSection_def fun_eq_iff)

lemma getSub_update_first:
  assumes "getSub sec (Some pid) = Some sp" and "\<And>q. sp_id (f q) = sp_id q"
  shows "getSub (sec\<lparr>subpolicies := update_first (\<lambda>q. sp_id q = pid) f (subpolicies sec)\<rparr>) (Some pid)
         = Some (f sp)"
  using assms update_first_find [of "\<lambda>q. sp_id q = pid" f "subpolicies sec"]
  by (simp add: getSub_def)

lemma ensureActive_found:
  assumes "active_sec a = Some s" "s \<noteq> []" "getSection (ahb a) (Some s) = Some sec"
  shows "ensureActive a =
           (if truthy (active_sp a) = None \<or> getSub sec (active_sp a) = None
            then a\<lparr>active_sp := truthy (map_option sp_id (first (subpolicies sec)))\<rparr> else a)"
  using assms by (auto simp: ensureActive_def Let_def split: option.splits)

lemma ensureActive_keep:
  "active_sec a = Some s \<Longrightarrow> s \<noteq> [] \<Longrightarrow> getSection (ahb a) (Some s) = Some sec \<Longrightarrow>
   active_sp a = Some p \<Longrightarrow> p \<noteq> [] \<Longrightarrow> getSub sec (Some p) \<noteq> None \<Longrightarrow> ensureActive a = a"
  by (auto simp: ensureActive_found)

text \<open>Every button handler keeps the selection invariant.\<close>

lemma admin_step_sel_ok: "sel_ok a \<Longrightarrow> sel_ok (admin_step now c a)"
  by (cases c)
     (auto simp: addMainHeading_def addSubpolicy_def deleteSubpolicy_def deleteSection_def
        saveSection_def selectSub_def saveEditor_def saveCompany_def publishToLocal_def
        exportHandbook_def onImport_def importHandbook_def ensureActive_ok Let_def
        split: option.splits sum.splits json_doc.splits bool.splits)

text \<open>Saving the values a sub-policy already has changes only the timestamp.\<close>

lemma saveEditor_same:
  assumes "active_sec a = Some s" "s \<noteq> []" "getSection (ahb a) (Some s) = Some sec"
    and "active_sp a = Some p" "p \<noteq> []" "getSub sec (Some p) = Some sub"
    and "js_trim (sp_title sub) = sp_title sub" "js_trim (sp_summary sub) = sp_summary sub"
    and "js_trim (pdf sub) = pdf sub" "list_all editor_block (blocks sub)"
  shows "saveEditor (sp_title sub) (sp_summary sub) (pdf sub) (blocksToEditorText (blocks sub)) now a
         = saveDraft now a"
proof -
  have ss: "sec_id sec = s" and ps: "sp_id sub = p"
    using getSection_Some [OF assms(3)] getSub_Some [OF assms(6)] by auto
  have blk: "parseEditorText (blocksToEditorText (blocks sub)) = blocks sub"
    using assms(10) by (simp add: print_parse_editor_blocks list_all_iff)
  have sub_fix: "sub\<lparr>sp_title := (if js_trim (sp_title sub) = [] then sp_title sub else js_trim (sp_title sub)),
      sp_summary := js_trim (sp_summary sub), pdf := js_trim (pdf sub),
      blocks := parseEditorText (blocksToEditorText (blocks sub))\<rparr> = sub"
    using assms(7-9) blk by simp
  have fs: "find (\<lambda>q. sp_id q = sp_id sub) (subpolicies sec) = Some sub"
    using assms(6) ps by (simp add: getSub_def)
  have fc: "find (\<lambda>x. sec_id x = sec_id sec) (sections (ahb a)) = Some sec"
    using assms(3) ss by (simp add: getSection_def)
  have "saveEditor (sp_title sub) (sp_summary sub) (pdf sub) (blocksToEditorText (blocks sub)) now a
        = ensureActive (saveDraft now a)"
    using assms(1-6) ss ps sub_fix fs fc
    by (simp add: saveEditor_def Let_def update_first_fix)
  also have "\<dots> = saveDraft now a"
    by (rule ensureActive_keep [of _ s sec p]) (use assms in simp_all)
  finally show ?thesis .
qed

section \<open>Properties\<close>

text \<open>
  C8. Deleting the only sub-policy of the selected section (confirmed) leaves
  the section with no sub-policies, keeps the section selected and selects no
  sub-policy.
\<close>

theorem delete_only_subpolicy:
  assumes "getSection (ahb a) (Some sid) = Some sec" "active_sec a = Some sid" "sid \<noteq> []"
    and "list_all (\<lambda>p. sp_id p = pid) (subpolicies sec)"
  shows "getSection (ahb (deleteSubpolicy sid pid True now a)) (Some sid) = Some (sec\<lparr>subpolicies := []\<rparr>)
         \<and> active_sec (deleteSubpolicy sid pid True now a) = Some sid
         \<and> active_sp (deleteSubpolicy sid pid True now a) = None"
proof -
  have f: "filter (\<lambda>p. sp_id p \<noteq> pid) (subpolicies sec) = []"
    using assms(4) by (simp add: list_all_iff filter_empty_conv)
  let ?a = "a\<lparr>ahb := (ahb a)\<lparr>sections := update_first (\<lambda>s. sec_id s = sid)
              (\<lambda>s. s\<lparr>subpolicies := []\<rparr>) (sections (ahb a))\<rparr>, active_sp := None\<rparr>"
  have g: "getSection (ahb (saveDraft now ?a)) (Some sid) = Some (sec\<lparr>subpolicies := []\<rparr>)"
    using getSection_update_first [OF assms(1)] by (simp add: getSection_def)
  have "deleteSubpolicy sid pid True now a = ensureActive (saveDraft now ?a)"
    using assms(1) f by (simp add: deleteSubpolicy_def)
  also have "\<dots> = saveDraft now ?a"
    using ensureActive_found [OF _ assms(3) g] assms(2) by simp
  finally show ?thesis
    using g assms(2) by simp
qed

text \<open>
  C6. An import whose file does not parse as an object with a \<open>sections\<close>
  array is rejected with a format error and leaves the editor state, the
  handbook, the selection and both storage slots, unchanged.
\<close>

theorem import_rejects:
  assumes "Option.bind parsed handbook_doc = None"
  shows "importHandbook parsed now a = Inl InvalidFormat \<and> onImport parsed now a = a"
  using assms
  by (auto simp: importHandbook_def onImport_def handbook_doc_def split: option.splits json_doc.splits bool.splits)

text \<open>
  An import of an object with a \<open>sections\<close> array replaces the
  handbook by it, stamps it, saves it as the draft, leaves the published slot
  and the login alone, and repairs the selection.
\<close>

theorem import_accepts:
  "\<exists>a'. importHandbook (Some (JObject True hb)) now a = Inr a'
     \<and> ahb a' = hb\<lparr>meta := (meta hb)\<lparr>meta_updated := now\<rparr>\<rparr>
     \<and> draft (astore a') = Some (stringify (ahb a'))
     \<and> published (astore a') = published (astore a)
     \<and> authed a' = authed a \<and> sel_ok a'"
  by (simp add: importHandbook_def ensureActive_ok saveDraft_def Let_def)

text \<open>
  Saving the draft twice with no mutation in between gives the state of the
  second save alone: the two serialisations differ only in the timestamp.
\<close>

theorem saveDraft_twice: "saveDraft t2 (saveDraft t1 a) = saveDraft t2 a"
  by (simp add: saveDraft_def Let_def)

text \<open>
  Publishing writes the handbook to the published slot before stamping it,
  then stamps it and writes the draft slot: the published copy keeps the
  previous \<open>meta.updated\<close>.
\<close>

theorem publish_slots:
  "published (astore (publishToLocal now a)) = Some (stringify (ahb a))
   \<and> ahb (publishToLocal now a) = (ahb a)\<lparr>meta := (meta (ahb a))\<lparr>meta_updated := now\<rparr>\<rparr>
   \<and> draft (astore (publishToLocal now a)) = Some (stringify (ahb (publishToLocal now a)))"
  by (simp add: publishToLocal_def saveDraft_def Let_def)

text \<open>
  C35. Adding a main heading whose title slugifies to the identity of an
  existing section appends a second section with that identity: identities
  are no longer unique, and the selection resolves to the older section.
\<close>

theorem addMainHeading_duplicate:
  assumes "t \<noteq> []" and "getSection (ahb a) (Some (slugify t token)) = Some old"
  shows "\<not> unique_ids (ahb (addMainHeading (Some t) token now a))
         \<and> active_sec (addMainHeading (Some t) token now a) = Some (slugify t token)
         \<and> getSection (ahb (addMainHeading (Some t) token now a)) (Some (slugify t token)) = Some old"
proof -
  let ?sid = "slugify t token"
  let ?sec = "\<lparr>sec_id = ?sid, sec_title = js_trim t, sec_summary = [], subpolicies = []\<rparr>"
  let ?b = "saveDraft now (a\<lparr>ahb := (ahb a)\<lparr>sections := sections (ahb a) @ [?sec]\<rparr>,
              active_sec := Some ?sid, active_sp := None\<rparr>)"
  have old: "old \<in> set (sections (ahb a))" "sec_id old = ?sid"
    using getSection_Some [OF assms(2)] by auto
  have g: "getSection (ahb ?b) (Some ?sid) = Some old"
    using assms(2) by (simp add: getSection_def find_append_Some)
  have e: "addMainHeading (Some t) token now a = ensureActive ?b"
    using assms(1) by (simp add: addMainHeading_def Let_def)
  have nd: "\<not> unique_ids (ahb ?b)"
  proof -
    have "?sid \<in> set (map sec_id (sections (ahb a)))"
      using old by (metis image_eqI set_map)
    then show ?thesis
      by (simp add: unique_ids_def section_ids_def)
  qed
  have "active_sec (ensureActive ?b) = Some ?sid"
    using ensureActive_found [OF _ slugify_nonempty g] by simp
  then show ?thesis
    using e g nd by (simp add: getSection_def unique_ids_def section_ids_def)
qed

text \<open>
  Adding a main heading with a fresh slug appends an empty section with the
  trimmed title and selects it, with no sub-policy selected.
\<close>

theorem addMainHeading_fresh:
  assumes "t \<noteq> []" and "getSection (ahb a) (Some (slugify t token)) = None"
  shows "sections (ahb (addMainHeading (Some t) token now a)) = sections (ahb a) @
           [\<lparr>sec_id = slugify t token, sec_title = js_trim t, sec_summary = [], subpolicies = []\<rparr>]
         \<and> active_sec (addMainHeading (Some t) token now a) = Some (slugify t token)
         \<and> active_sp (addMainHeading (Some t) token now a) = None
         \<and> getSection (ahb (addMainHeading (Some t) token now a)) (Some (slugify t token)) =
           Some \<lparr>sec_id = slugify t token, sec_title = js_trim t, sec_summary = [], subpolicies = []\<rparr>"
proof -
  let ?sid = "slugify t token"
  let ?sec = "\<lparr>sec_id = ?sid, sec_title = js_trim t, sec_summary = [], subpolicies = []\<rparr>"
  let ?b = "saveDraft now (a\<lparr>ahb := (ahb a)\<lparr>sections := sections (ahb a) @ [?sec]\<rparr>,
              active_sec := Some ?sid, active_sp := None\<rparr>)"
  have g: "getSection (ahb ?b) (Some ?sid) = Some ?sec"
    using assms(2) by (simp add: getSection_def find_append_None)
  have e: "addMainHeading (Some t) token now a = ensureActive ?b"
    using assms(1) by (simp add: addMainHeading_def Let_def)
  have "ensureActive ?b = ?b"
    using ensureActive_found [OF _ slugify_nonempty g] by simp
  then show ?thesis
    using e g by simp
qed

text \<open>
  Adding a sub-policy to an existing section appends the placeholder
  sub-policy with a \<open>policy-\<close> identity and selects it.
\<close>

theorem addSubpolicy_selects:
  assumes "getSection (ahb a) (Some sid) = Some sec" and "sid \<noteq> []"
  shows "active_sec (addSubpolicy sid token now a) = Some sid
         \<and> active_sp (addSubpolicy sid token now a) = Some (uid ''policy'' token)
         \<and> getSection (ahb (addSubpolicy sid token now a)) (Some sid) =
           Some (sec\<lparr>subpolicies := subpolicies sec @ [new_subpolicy (uid ''policy'' token)]\<rparr>)"
proof -
  let ?pid = "uid ''policy'' token"
  let ?f = "\<lambda>s. s\<lparr>subpolicies := subpolicies s @ [new_subpolicy ?pid]\<rparr>"
  let ?b = "saveDraft now (a\<lparr>ahb := (ahb a)\<lparr>sections :=
              update_first (\<lambda>s. sec_id s = sid) ?f (sections (ahb a))\<rparr>,
              active_sec := Some sid, active_sp := Some ?pid\<rparr>)"
  have g: "getSection (ahb ?b) (Some sid) = Some (?f sec)"
    using getSection_update_first [OF assms(1)] by (simp add: getSection_def)
  have s: "getSub (?f sec) (Some ?pid) \<noteq> None"
    by (simp add: getSub_def find_snoc_not_None new_subpolicy_def)
  have e: "addSubpolicy sid token now a = ensureActive ?b"
    using assms(1) by (simp add: addSubpolicy_def Let_def)
  have "ensureActive ?b = ?b"
    by (rule ensureActive_keep [OF _ assms(2) g _ uid_nonempty s]) simp_all
  then show ?thesis
    using e g by simp
qed

text \<open>
  A confirmed section deletion removes every section with that identity,
  duplicates included, and leaves a valid selection; a cancelled one changes
  nothing.
\<close>

theorem deleteSection_removes:
  "section_ids (ahb (deleteSection sid True now a)) = filter (\<lambda>x. x \<noteq> sid) (section_ids (ahb a))
   \<and> sel_ok (deleteSection sid True now a) \<and> deleteSection sid False now a = a"
  by (simp add: deleteSection_def section_ids_def filter_map o_def ensureActive_ok Let_def)

text \<open>
  C19. Pressing Save on the editor pane exactly as \<open>renderEditor\<close> drew it
  (its fields hold the escaped values as the browser reads them back) changes
  nothing but the timestamp and the draft slot, for a sub-policy with trimmed
  fields without line breaks whose blocks are editor blocks without a carriage
  return (the inputs strip line breaks, the parser turns CR into LF).
\<close>

theorem saveEditor_as_rendered:
  assumes "renderEditor a = (a', EditSubpolicy sec sub)"
    and "js_trim (sp_title sub) = sp_title sub" "js_trim (sp_summary sub) = sp_summary sub"
    and "js_trim (pdf sub) = pdf sub" "list_all editor_block (blocks sub)"
    and "list_all no_breaks [sp_title sub, sp_summary sub, pdf sub]"
    and "list_all (\<lambda>b. CR \<notin> set (btext b)) (blocks sub)"
  shows "saveEditor (ef_title (editor_form_of sub)) (ef_summary (editor_form_of sub))
           (ef_pdf (editor_form_of sub)) (ef_text (editor_form_of sub)) now a' = saveDraft now a'"
proof -
  from assms(1) obtain s p where o: "active_sec a' = Some s" "s \<noteq> []" "getSection (ahb a') (Some s) = Some sec"
      "active_sp a' = Some p" "p \<noteq> []" "getSub sec (Some p) = Some sub"
    by (auto simp: renderEditor_def Let_def split: option.splits)
  have "CR \<notin> set (blocksToEditorText (blocks sub))"
    using assms(7) by (rule editor_text_no_CR)
  moreover have "take 1 (blocksToEditorText (blocks sub)) \<noteq> [LF]"
    using assms(5) by (rule editor_text_first)
  ultimately have "editor_form_of sub = \<lparr>ef_title = sp_title sub, ef_summary = sp_summary sub,
      ef_pdf = pdf sub, ef_text = blocksToEditorText (blocks sub)\<rparr>"
    using assms(6) by (simp add: editor_form_of_def form_values_plain no_breaks_def)
  then show ?thesis
    using saveEditor_same [OF o assms(2-5)] by simp
qed

text \<open>
  For an injective digest, the login succeeds exactly when the trimmed
  user name and the untrimmed password are the configured ones.
\<close>

theorem login_iff:
  "inj sha256Hex \<Longrightarrow>
   login sha256Hex (sha256Hex u) (sha256Hex pw) username password \<longleftrightarrow>
   js_trim username = u \<and> password = pw"
  by (simp add: login_def inj_eq)

text \<open>
  A login with a wrong password leaves the state, and its authenticated
  flag, unchanged.
\<close>

theorem login_failure_unchanged:
  "inj sha256Hex \<Longrightarrow> password \<noteq> pw \<Longrightarrow>
   loginClick sha256Hex uh (sha256Hex pw) username password a = a"
  by (simp add: loginClick_def login_def inj_eq)

section \<open>Witnesses\<close>

theorem delete_only_subpolicy_witness:
  "getSection (ahb (deleteSubpolicy ''s1'' ''A'' True ''t'' sample_one)) (Some ''s1'')
     = Some (sample_s1\<lparr>subpolicies := []\<rparr>)
   \<and> active_sec (deleteSubpolicy ''s1'' ''A'' True ''t'' sample_one) = Some ''s1''
   \<and> active_sp (deleteSubpolicy ''s1'' ''A'' True ''t'' sample_one) = None"
  by (rule delete_only_subpolicy) (simp_all add: getSection_def)

theorem import_rejects_witness:
  "importHandbook foo_doc ''t'' sample_admin = Inl InvalidFormat \<and> onImport foo_doc ''t'' sample_admin = sample_admin"
  by (rule import_rejects) (simp add: handbook_doc_def)

lemma slugify_Lab: "slugify ''Lab'' ''0'' = ''lab''"
  by (simp add: slugify_def strip_dashes_def is_slug_char_def js_eval)

lemma slugify_Safety: "slugify ''Safety'' ''0'' = ''safety''"
  by (simp add: slugify_def strip_dashes_def is_slug_char_def js_eval)

theorem addMainHeading_duplicate_witness:
  "\<not> unique_ids (ahb (addMainHeading (Some ''Lab'') ''0'' ''t'' sample_admin))
   \<and> active_sec (addMainHeading (Some ''Lab'') ''0'' ''t'' sample_admin) = Some ''lab''
   \<and> getSection (ahb (addMainHeading (Some ''Lab'') ''0'' ''t'' sample_admin)) (Some ''lab'') = Some sample_lab"
  using addMainHeading_duplicate [of "''Lab''" sample_admin "''0''" sample_lab]
  by (simp add: slugify_Lab getSection_def)

theorem addMainHeading_fresh_witness:
  "active_sec (addMainHeading (Some ''Safety'') ''0'' ''t'' sample_admin) = Some ''safety''
   \<and> active_sp (addMainHeading (Some ''Safety'') ''0'' ''t'' sample_admin) = None"
  using addMainHeading_fresh [of "''Safety''" sample_admin "''0''"]
  by (simp add: slugify_Safety getSection_def)

theorem addSubpolicy_selects_witness:
  "active_sec (addSubpolicy ''hr'' ''1a2b'' ''t'' sample_admin) = Some ''hr''
   \<and> active_sp (addSubpolicy ''hr'' ''1a2b'' ''t'' sample_admin) = Some ''policy-1a2b''"
  using addSubpolicy_selects [of sample_admin "''hr''" sample_hr "''1a2b''"]
  by (simp add: getSection_def uid_def)

lemma sample_admin_rendered: "renderEditor sample_admin = (sample_admin, EditSubpolicy sample_lab sample_qc)"
  by (simp add: renderEditor_def ensureActive_def getSection_def getSub_def)

theorem saveEditor_as_rendered_witness:
  "saveEditor (ef_title (editor_form_of sample_qc)) (ef_summary (editor_form_of sample_qc))
     (ef_pdf (editor_form_of sample_qc)) (ef_text (editor_form_of sample_qc)) ''t'' sample_admin
   = saveDraft ''t'' sample_admin"
  using saveEditor_as_rendered [OF sample_admin_rendered]
  by (simp add: editor_block_def trimmed_def no_breaks_def js_eval)

theorem login_iff_witness:
  "login id (id ''admin'') (id ''correct'') '' admin'' ''correct''"
  using login_iff [of id "''admin''" "''correct''" "'' admin''" "''correct''"]
  by (simp add: js_eval)

theorem login_failure_unchanged_witness:
  "loginClick id (id ''admin'') (id ''correct'') ''admin'' ''wrong'' sample_admin = sample_admin"
  using login_failure_unchanged [of id "''wrong''" "''correct''" "id ''admin''" "''admin''" sample_admin]
  by simp

end
