(* ===== verification/Loading.thy ===== *)
theory Loading
  imports Viewer Admin
begin

text \<open>
  Where each page gets its handbook. The spec's contract: try the draft slot
  (admin only), then the published slot, then the baseline file; the first
  source that exists and parses as an object with a \<open>sections\<close> array wins;
  a source that is absent, fails to parse, or has the wrong shape is skipped;
  loading fails only when no source yields a handbook (\<open>spec_load\<close>). Each
  script implements its own loader: app1.js (\<open>viewer_load\<close>), app.js
  (\<open>app_load\<close>), company.js (\<open>company_load\<close>), admin.js (\<open>admin_load\<close>).
  The lemmas compare them with the contract, and put the loaders together
  with the page start-up of the Viewer and Admin theories.
\<close>

section \<open>The contract\<close>

text \<open>A slot (absent, unparsable, or parsed) read as a handbook.\<close>

definition slot_handbook :: "slot_text option \<Rightarrow> handbook option" where
  "slot_handbook s = (case s of Some (Some d) \<Rightarrow> handbook_doc d | _ \<Rightarrow> None)"

definition fetch_handbook :: "fetch_result \<Rightarrow> handbook option" where
  "fetch_handbook r = (case r of Fetched (Some d) \<Rightarrow> handbook_doc d | _ \<Rightarrow> None)"

fun spec_load :: "slot_text option list \<Rightarrow> fetch_result \<Rightarrow> boot_error + handbook" where
  "spec_load [] base =
     (case fetch_handbook base of Some hb \<Rightarrow> Inr hb | None \<Rightarrow> Inl HandbookLoadError)"
| "spec_load (s # ss) base = (case slot_handbook s of Some hb \<Rightarrow> Inr hb | None \<Rightarrow> spec_load ss base)"

section \<open>app1.js\<close>

text \<open>
  \<open>getPublishedHandbook()\<close> (lines 36-46): an absent or empty slot, text that
  does not parse, and a value that is not an object with a \<open>sections\<close> array
  all give \<open>null\<close>.
\<close>

definition getPublishedHandbook :: "slot_text option \<Rightarrow> handbook option" where
  "getPublishedHandbook slot =
     (case slot of
        None \<Rightarrow> None
      | Some None \<Rightarrow> None
      | Some (Some d) \<Rightarrow> (case d of JObject True hb \<Rightarrow> Some hb | _ \<Rightarrow> None))"

text \<open>
  \<open>loadHandbook()\<close> and the check at the start of \<open>init()\<close> (line 249): a
  failed fetch, a body that is not JSON, and a body of the wrong shape all end
  in the catch of \<open>init\<close>.
\<close>

definition viewer_load :: "slot_text option \<Rightarrow> fetch_result \<Rightarrow> boot_error + handbook" where
  "viewer_load pub base =
     (case getPublishedHandbook pub of
        Some hb \<Rightarrow> Inr hb
      | None \<Rightarrow>
          (case base of
             FetchFailed \<Rightarrow> Inl HandbookLoadError
           | Fetched None \<Rightarrow> Inl HandbookLoadError
           | Fetched (Some d) \<Rightarrow>
               (case d of JObject True hb \<Rightarrow> Inr hb | _ \<Rightarrow> Inl HandbookLoadError)))"

text \<open>
  The whole page: the module-level read of the expanded set (line 22) runs
  before \<open>init\<close>; then the handbook is loaded and \<open>init\<close> continues as
  \<open>viewer_init\<close>.
\<close>

definition viewer_boot ::
    "expanded_slot \<Rightarrow> slot_text option \<Rightarrow> fetch_result \<Rightarrow> url_query \<Rightarrow> boot_error + viewer" where
  "viewer_boot exp pub base url =
     (case read_expanded exp of
        Inl e \<Rightarrow> Inl e
      | Inr _ \<Rightarrow> (case viewer_load pub base of Inl e \<Rightarrow> Inl e | Inr hb \<Rightarrow> viewer_init hb exp url))"

section \<open>app.js\<close>

text \<open>
  app.js \<open>loadHandbook()\<close> returns whatever the published slot parses to, and
  the baseline body unchecked; \<open>main()\<close> then reads \<open>handbook.meta\<close> (which
  throws on \<open>null\<close>) and \<open>render()\<close> calls \<open>handbook.sections.forEach\<close>
  (which throws unless \<open>sections\<close> is an array). Every throw lands in the catch
  of \<open>main\<close>, which draws the failure notice.
\<close>

definition app_doc :: "json_doc \<Rightarrow> boot_error + handbook" where
  "app_doc d = (case d of JObject True hb \<Rightarrow> Inr hb | _ \<Rightarrow> Inl HandbookLoadError)"

definition app_load :: "slot_text option \<Rightarrow> fetch_result \<Rightarrow> boot_error + handbook" where
  "app_load pub base =
     (case pub of
        Some (Some d) \<Rightarrow> app_doc d
      | _ \<Rightarrow>
          (case base of
             FetchFailed \<Rightarrow> Inl HandbookLoadError
           | Fetched None \<Rightarrow> Inl HandbookLoadError
           | Fetched (Some d) \<Rightarrow> app_doc d))"

section \<open>company.js\<close>

text \<open>
  company.js accepts a published value that is any object, arrays included
  (\<open>typeof data === "object"\<close>), and the baseline body unchecked; the page
  then shows \<open>hb.companyInfo || null\<close>, which throws only on \<open>null\<close>.
\<close>

definition company_published :: "slot_text option \<Rightarrow> json_doc option" where
  "company_published slot =
     (case slot of
        Some (Some JArray) \<Rightarrow> Some JArray
      | Some (Some (JObject b hb)) \<Rightarrow> Some (JObject b hb)
      | _ \<Rightarrow> None)"

definition company_info_of :: "json_doc \<Rightarrow> boot_error + company_info option" where
  "company_info_of d =
     (case d of
        JNull \<Rightarrow> Inl HandbookLoadError
      | JObject _ hb \<Rightarrow> Inr (companyInfo hb)
      | _ \<Rightarrow> Inr None)"

definition company_load :: "slot_text option \<Rightarrow> fetch_result \<Rightarrow> boot_error + company_info option" where
  "company_load pub base =
     (case company_published pub of
        Some d \<Rightarrow> company_info_of d
      | None \<Rightarrow>
          (case base of
             FetchFailed \<Rightarrow> Inl HandbookLoadError
           | Fetched None \<Rightarrow> Inl HandbookLoadError
           | Fetched (Some d) \<Rightarrow> company_info_of d))"

section \<open>admin.js\<close>

text \<open>
  admin.js \<open>main()\<close>: the baseline file is fetched first and a failure aborts
  the page (\<open>loadBaseFile\<close>); then \<open>loadDraftOrBase\<close> takes the draft slot
  if it parses, whatever it holds, and the baseline otherwise; the published
  slot is not read. \<open>handbook.sections = handbook.sections || []\<close> throws on
  \<open>null\<close> and on primitives (a property assignment in strict mode) and turns
  an array or an object without \<open>sections\<close> into a handbook with no sections.
\<close>

definition empty_handbook :: handbook where
  "empty_handbook = \<lparr>meta = \<lparr>meta_title = [], meta_subtitle = [], meta_updated = []\<rparr>,
     companyInfo = None, sections = []\<rparr>"

definition loadDraftOrBase :: "slot_text option \<Rightarrow> json_doc \<Rightarrow> json_doc" where
  "loadDraftOrBase drft base = (case drft of Some (Some d) \<Rightarrow> d | _ \<Rightarrow> base)"

definition admin_doc :: "json_doc \<Rightarrow> boot_error + handbook" where
  "admin_doc d =
     (case d of
        JNull \<Rightarrow> Inl HandbookLoadError
      | JPrim _ \<Rightarrow> Inl HandbookLoadError
      | JArray \<Rightarrow> Inr empty_handbook
      | JObject _ hb \<Rightarrow> Inr hb)"

definition admin_load :: "slot_text option \<Rightarrow> fetch_result \<Rightarrow> boot_error + handbook" where
  "admin_load drft base =
     (case base of
        FetchFailed \<Rightarrow> Inl HandbookLoadError
      | Fetched None \<Rightarrow> Inl HandbookLoadError
      | Fetched (Some bd) \<Rightarrow> admin_doc (loadDraftOrBase drft bd))"

text \<open>The editor after \<open>main()\<close>: nothing selected, not logged in.\<close>

definition admin_boot :: "store \<Rightarrow> fetch_result \<Rightarrow> boot_error + admin" where
  "admin_boot st base =
     (case admin_load (draft st) base of
        Inl e \<Rightarrow> Inl e
      | Inr hb \<Rightarrow> Inr \<lparr>ahb = hb, active_sec = None, active_sp = None, astore = st, authed = False\<rparr>)"

text \<open>
  A page's life: start-up, login attempts, and, once the editor is shown, its
  buttons. (The Clear draft button reloads the page: a new start-up.)
\<close>

inductive admin_reach :: "store \<Rightarrow> fetch_result \<Rightarrow> admin \<Rightarrow> bool" for st base where
  boot: "admin_boot st base = Inr a \<Longrightarrow> admin_reach st base a"
| login: "admin_reach st base a \<Longrightarrow> admin_reach st base (loginClick h uh ph u p a)"
| step: "admin_reach st base a \<Longrightarrow> authed a \<Longrightarrow> admin_reach st base (admin_step now c a)"

section \<open>Lemmas\<close>

lemma getPublishedHandbook_slot: "getPublishedHandbook s = slot_handbook s"
  by (simp add: getPublishedHandbook_def slot_handbook_def handbook_doc_def
      split: option.splits json_doc.splits)

lemma fetch_handbook_simps [simp]:
  "fetch_handbook FetchFailed = None" "fetch_handbook (Fetched None) = None"
  "fetch_handbook (Fetched (Some d)) = handbook_doc d"
  by (simp_all add: fetch_handbook_def)

lemma slot_handbook_simps [simp]:
  "slot_handbook None = None" "slot_handbook (Some None) = None"
  "slot_handbook (Some (Some d)) = handbook_doc d"
  by (simp_all add: slot_handbook_def)

lemma admin_boot_unauthed: "admin_boot st base = Inr a \<Longrightarrow> \<not> authed a"
  by (auto simp: admin_boot_def split: sum.splits)

lemma findSection_getSection: "findSection = getSection"
  by (simp add: fun_eq_iff findSection_def getSection_def)

lemma findSub_getSub: "findSub = getSub"
  by (simp add: fun_eq_iff findSub_def getSub_def)

lemma published_publishToLocal [simp]:
  "published (astore (publishToLocal now a)) = Some (stringify (ahb a))"
  by (simp add: publishToLocal_def)

lemma viewer_load_published [simp]: "viewer_load (Some (stringify hb)) base = Inr hb"
  by (simp add: viewer_load_def getPublishedHandbook_def stringify_def)

lemma viewer_boot_deep_link:
  assumes "viewer_load pub base = Inr hb" and "sec \<in> set (sections hb)"
    and "sec_id sec \<noteq> []" and "p \<noteq> []" and "exp \<noteq> SlotInvalid"
  shows "\<exists>v. viewer_boot exp pub base \<lparr>url_section = Some (sec_id sec), url_policy = Some p\<rparr> = Inr v
           \<and> vhb v = hb \<and> active_section v = Some (sec_id sec) \<and> active_sub v = Some p"
  using assms findSection_member [OF assms(2)]
  by (cases exp) (simp_all add: viewer_boot_def read_expanded_def viewer_init_def Let_def
      ensureDefaultSelection_def)

section \<open>Properties\<close>

text \<open>
  C10. The viewer app1.js loads its handbook as the spec's precedence says, with no
  draft slot: a valid published copy wins; an absent, unparsable or
  wrongly-shaped one is skipped in favour of the baseline file; the page fails
  only when the baseline gives no handbook either.
\<close>

theorem viewer_load_refines: "viewer_load pub base = spec_load [pub] base"
  by (simp add: viewer_load_def getPublishedHandbook_slot
      split: option.splits fetch_result.splits json_doc.splits bool.splits)

text \<open>
  The older viewer app.js follows the same precedence whenever its published
  slot is absent, unparsable, or a valid handbook.
\<close>

theorem app_load_refines:
  "(case pub of Some (Some d) \<Rightarrow> handbook_doc d \<noteq> None | _ \<Rightarrow> True) \<Longrightarrow>
   app_load pub base = spec_load [pub] base"
  by (auto simp: app_load_def app_doc_def slot_handbook_def handbook_doc_def
      split: option.splits fetch_result.splits json_doc.splits bool.splits)

text \<open>
  C24. In app.js a published slot that parses to anything but an object with a
  \<open>sections\<close> array is returned as the handbook and makes the page fail,
  whatever the baseline file holds; the spec skips such a source.
\<close>

theorem app_load_blocks:
  "handbook_doc d = None \<Longrightarrow> app_load (Some (Some d)) base = Inl HandbookLoadError"
  by (auto simp: app_load_def app_doc_def handbook_doc_def split: json_doc.splits bool.splits)

text \<open>
  The company page accepts a published object without a \<open>sections\<close>
  array and shows its company information, while the viewer skips that same
  slot and shows the baseline: the two pages can show different handbooks.
\<close>

theorem company_viewer_disagree:
  "company_load (Some (Some (JObject False hb))) base = Inr (companyInfo hb)
   \<and> viewer_load (Some (Some (JObject False hb))) base = spec_load [] base"
  by (simp add: company_load_def company_published_def company_info_of_def viewer_load_refines
      slot_handbook_def handbook_doc_def)

text \<open>
  C25. The admin page needs the baseline file even when a valid draft exists: if
  the fetch fails the page fails, where the spec's precedence picks the draft.
\<close>

theorem admin_load_needs_base:
  "slot_handbook drft = Some hb \<Longrightarrow>
   admin_load drft FetchFailed = Inl HandbookLoadError \<and> spec_load [drft, pub] FetchFailed = Inr hb"
  by (simp add: admin_load_def)

text \<open>
  The admin page takes any parsable draft: a draft \<open>null\<close> makes the page
  fail although the baseline is valid, and an object without \<open>sections\<close>
  replaces the baseline by an empty handbook.
\<close>

theorem admin_load_unvalidated_draft:
  "admin_load (Some (Some JNull)) (Fetched (Some (JObject True hb))) = Inl HandbookLoadError
   \<and> spec_load [Some (Some JNull)] (Fetched (Some (JObject True hb))) = Inr hb
   \<and> admin_load (Some (Some (JObject False hb'))) (Fetched (Some (JObject True hb))) = Inr hb'"
  by (simp add: admin_load_def admin_doc_def loadDraftOrBase_def slot_handbook_def handbook_doc_def
      fetch_handbook_def)

text \<open>
  With a valid baseline, the admin page follows the spec's precedence for a
  draft that is absent, unparsable, or a valid handbook.
\<close>

theorem admin_load_refines:
  "(case drft of Some (Some d) \<Rightarrow> handbook_doc d \<noteq> None | _ \<Rightarrow> True) \<Longrightarrow>
   admin_load drft (Fetched (Some (JObject True b))) = spec_load [drft] (Fetched (Some (JObject True b)))"
  by (auto simp: admin_load_def admin_doc_def loadDraftOrBase_def slot_handbook_def handbook_doc_def
      fetch_handbook_def split: option.splits json_doc.splits bool.splits)

text \<open>
  C23. A corrupt \<open>expandedSections\<close> slot stops the viewer while the module
  loads, before any handbook source is consulted: the spec says a corrupt
  storage slot never blocks the viewer.
\<close>

theorem viewer_boot_corrupt_expanded:
  "viewer_boot SlotInvalid pub base url = Inl ModuleLoadError"
  by (simp add: viewer_boot_def read_expanded_def)

text \<open>
  C4. In every state of an admin page once the editor is unlocked, the
  selection is valid: start-up, logins and every button keep it.
\<close>

theorem admin_reach_sel_ok:
  "admin_reach st base a \<Longrightarrow> authed a \<Longrightarrow> sel_ok a"
proof (induction rule: admin_reach.induct)
  case (boot a)
  then show ?case using admin_boot_unauthed by blast
next
  case (login a h uh ph u p)
  then show ?case by (auto simp: loginClick_def ensureActive_ok split: if_splits)
next
  case (step a now c)
  then show ?case by (simp add: admin_step_sel_ok)
qed

section \<open>Witnesses\<close>

abbreviation sample_fetch :: fetch_result where
  "sample_fetch \<equiv> Fetched (Some (JObject True sample_handbook))"

theorem app_load_refines_witness:
  "app_load (Some (Some (JObject True sample_handbook))) FetchFailed = Inr sample_handbook"
  using app_load_refines [of "Some (Some (JObject True sample_handbook))" FetchFailed] by simp

theorem app_load_blocks_witness:
  "app_load (Some (Some JNull)) sample_fetch = Inl HandbookLoadError"
  using app_load_blocks [of JNull sample_fetch] by simp

theorem admin_load_needs_base_witness:
  "admin_load (Some (Some (JObject True sample_handbook))) FetchFailed = Inl HandbookLoadError
   \<and> spec_load [Some (Some (JObject True sample_handbook)), None] FetchFailed = Inr sample_handbook"
  using admin_load_needs_base [of "Some (Some (JObject True sample_handbook))" sample_handbook None] by simp

theorem admin_load_refines_witness:
  "admin_load None (Fetched (Some (JObject True sample_handbook))) = Inr sample_handbook"
  using admin_load_refines [of None sample_handbook] by simp

theorem admin_reach_sel_ok_witness:
  "sel_ok (admin_step ''t'' (SelectSub ''hr'' ''leave'')
     (loginClick id ''admin'' ''pw'' ''admin'' ''pw''
       \<lparr>ahb = sample_handbook, active_sec = None, active_sp = None,
        astore = \<lparr>draft = None, published = None\<rparr>, authed = False\<rparr>))"
proof -
  let ?st = "\<lparr>draft = None, published = None\<rparr>"
  let ?a0 = "\<lparr>ahb = sample_handbook, active_sec = None, active_sp = None, astore = ?st, authed = False\<rparr>"
  let ?a1 = "loginClick id ''admin'' ''pw'' ''admin'' ''pw'' ?a0"
  have "admin_reach ?st sample_fetch ?a0"
    by (rule admin_reach.boot) (simp add: admin_boot_def admin_load_def admin_doc_def loadDraftOrBase_def)
  then have r1: "admin_reach ?st sample_fetch ?a1"
    by (rule admin_reach.login)
  have au: "authed ?a1"
    by (simp add: loginClick_def login_def js_eval)
  from r1 au have "admin_reach ?st sample_fetch (admin_step ''t'' (SelectSub ''hr'' ''leave'') ?a1)"
    by (rule admin_reach.step)
  moreover have "authed (admin_step ''t'' (SelectSub ''hr'' ''leave'') ?a1)"
    using au by (simp add: selectSub_def)
  ultimately show ?thesis
    by (rule admin_reach_sel_ok)
qed

end
