(* ===== verification/Accordion.thy ===== *)
theory Accordion
  imports Loading
begin

text \<open>
  The older viewer src/js/app.js, the single-expansion ("accordion") form of
  the menu. Its state is the handbook, the active selection, the expanded set
  (not persisted) and the URL's query. It shares its menu filter with app1.js
  (the same \<open>matchesSearch\<close> and \<open>renderMenu\<close> code, modelled once by
  \<open>menu_group_of\<close>) and its loader \<open>app_load\<close> is in the Loading theory;
  its handlers differ: \<open>setActive\<close> collapses every other section,
  \<open>ensureDefault\<close> takes a deep link without looking the section up, and the
  header toggle selects the first visible sub-policy without writing the URL.
\<close>

record acc =
  acc_hb :: handbook
  acc_sec :: "string option"
  acc_sub :: "string option"
  acc_expanded :: "string list"
  acc_url :: url_query

text \<open>\<open>setActive(sectionId, subId)\<close> (lines 36-47).\<close>

definition acc_setActive :: "string \<Rightarrow> string \<Rightarrow> acc \<Rightarrow> acc" where
  "acc_setActive sid pid v =
     v\<lparr>acc_expanded := [sid], acc_sec := Some sid, acc_sub := Some pid,
       acc_url := \<lparr>url_section = Some sid, url_policy = Some pid\<rparr>\<rparr>"

text \<open>\<open>ensureDefault()\<close> (lines 49-66).\<close>

definition ensureDefault :: "acc \<Rightarrow> acc" where
  "ensureDefault v =
     (case (truthy (url_section (acc_url v)), truthy (url_policy (acc_url v))) of
        (Some s, Some p) \<Rightarrow>
          v\<lparr>acc_sec := Some s, acc_sub := Some p, acc_expanded := js_set_add s (acc_expanded v)\<rparr>
      | _ \<Rightarrow>
          (case first (sections (acc_hb v)) of
             None \<Rightarrow> v
           | Some f \<Rightarrow>
               (case first (subpolicies f) of
                  None \<Rightarrow> v
                | Some fs \<Rightarrow> v\<lparr>acc_sec := Some (sec_id f), acc_sub := Some (sp_id fs),
                                acc_expanded := js_set_add (sec_id f) (acc_expanded v)\<rparr>)))"

text \<open>\<open>renderMenu()\<close> (lines 129-176), the groups it draws.\<close>

definition acc_menu :: "acc \<Rightarrow> string \<Rightarrow> menu_group list" where
  "acc_menu v raw =
     concat (map (menu_group_of (acc_expanded v) (search_query raw)) (sections (acc_hb v)))"

text \<open>
  The header's click handler (lines 158-173), on the group as drawn: an open
  group (open by the expanded set or forced open by the query) is removed from
  the set; a closed one becomes the only expanded section and its first
  visible sub-policy is selected, without \<open>setActive\<close>.
\<close>

definition acc_toggle :: "menu_group \<Rightarrow> acc \<Rightarrow> acc" where
  "acc_toggle g v =
     (if g_open g then v\<lparr>acc_expanded := js_set_delete (sec_id (g_section g)) (acc_expanded v)\<rparr>
      else
        (let v1 = v\<lparr>acc_expanded := [sec_id (g_section g)]\<rparr>
         in case first (g_subs g) of
              None \<Rightarrow> v1
            | Some fs \<Rightarrow> v1\<lparr>acc_sec := Some (sec_id (g_section g)), acc_sub := Some (sp_id fs)\<rparr>))"

text \<open>\<open>renderContent()\<close> (lines 78-84): the policy shown, if any.\<close>

definition acc_content :: "acc \<Rightarrow> content" where
  "acc_content v =
     (case findSection (acc_hb v) (acc_sec v) of
        None \<Rightarrow> NoPolicySelected
      | Some sec \<Rightarrow>
          (case findSub sec (acc_sub v) of
             None \<Rightarrow> NoPolicySelected
           | Some sp \<Rightarrow> ShowPolicy sec sp))"

text \<open>
  The Copy link button (lines 109-116) writes \<open>window.location.href\<close> to the
  clipboard: the page's query as it stands.
\<close>

definition copyLink :: "acc \<Rightarrow> url_query" where
  "copyLink v = acc_url v"

text \<open>\<open>main()\<close> (lines 183-200): load, then \<open>ensureDefault\<close> on an empty set.\<close>

definition acc_boot :: "slot_text option \<Rightarrow> fetch_result \<Rightarrow> url_query \<Rightarrow> boot_error + acc" where
  "acc_boot pub base url =
     (case app_load pub base of
        Inl e \<Rightarrow> Inl e
      | Inr hb \<Rightarrow> Inr (ensureDefault \<lparr>acc_hb = hb, acc_sec = None, acc_sub = None,
                                     acc_expanded = [], acc_url = url\<rparr>))"

inductive acc_step :: "acc \<Rightarrow> acc \<Rightarrow> bool" where
  select: "g \<in> set (acc_menu v raw) \<Longrightarrow> g_open g \<Longrightarrow> sp \<in> set (g_subs g) \<Longrightarrow>
     acc_step v (acc_setActive (sec_id (g_section g)) (sp_id sp) v)"
| toggle: "g \<in> set (acc_menu v raw) \<Longrightarrow> acc_step v (acc_toggle g v)"

inductive acc_reach :: "slot_text option \<Rightarrow> fetch_result \<Rightarrow> url_query \<Rightarrow> acc \<Rightarrow> bool"
  for pub base url where
  boot: "acc_boot pub base url = Inr v \<Longrightarrow> acc_reach pub base url v"
| step: "acc_reach pub base url v \<Longrightarrow> acc_step v v' \<Longrightarrow> acc_reach pub base url v'"

text \<open>
  App.js states the witnesses use: a page with the lab policy selected and
  linked, and the page after start-up without query parameters.
\<close>

abbreviation sample_acc :: acc where
  "sample_acc \<equiv> \<lparr>acc_hb = sample_handbook, acc_sec = Some ''lab'', acc_sub = Some ''qc'',
      acc_expanded = [''lab''], acc_url = \<lparr>url_section = Some ''lab'', url_policy = Some ''qc''\<rparr>\<rparr>"

abbreviation acc_boot_state :: acc where
  "acc_boot_state \<equiv> \<lparr>acc_hb = sample_handbook, acc_sec = Some ''lab'', acc_sub = Some ''qc'',
      acc_expanded = [''lab''], acc_url = \<lparr>url_section = None, url_policy = None\<rparr>\<rparr>"

section \<open>Lemmas\<close>

lemma acc_toggle_expanded: "length (acc_expanded v) \<le> Suc 0 \<Longrightarrow> length (acc_expanded (acc_toggle g v)) \<le> Suc 0"
  by (auto simp: acc_toggle_def Let_def split: option.splits intro: order_trans [OF length_js_set_delete])

lemma ensureDefault_expanded: "acc_expanded v = [] \<Longrightarrow> length (acc_expanded (ensureDefault v)) \<le> 1"
  by (simp add: ensureDefault_def js_set_add_def split: option.splits)

lemma sample_acc_boot:
  "acc_boot (Some (Some (JObject True sample_handbook))) FetchFailed \<lparr>url_section = None, url_policy = None\<rparr>
   = Inr acc_boot_state"
  by (simp add: acc_boot_def app_load_def app_doc_def ensureDefault_def js_set_add_def)

lemma sample_leave_group:
  "\<lparr>g_section = sample_hr, g_subs = [sample_leave], g_open = True\<rparr> \<in> set (acc_menu acc_boot_state ''leave'')"
  by (simp add: acc_menu_def viewer_eval js_eval)

text \<open>A closed header click selects without touching the URL.\<close>

lemma acc_toggle_stale_url:
  assumes "\<not> g_open g" and "first (g_subs g) = Some fs"
  shows "acc_sec (acc_toggle g v) = Some (sec_id (g_section g)) \<and> acc_sub (acc_toggle g v) = Some (sp_id fs)
         \<and> acc_expanded (acc_toggle g v) = [sec_id (g_section g)] \<and> acc_url (acc_toggle g v) = acc_url v"
  using assms by (simp add: acc_toggle_def Let_def)

section \<open>Properties\<close>

text \<open>
  C27. The accordion keeps at most one section expanded in every state of an
  app.js page: start-up, selections and header clicks.
\<close>

theorem acc_reach_single_expanded:
  "acc_reach pub base url v \<Longrightarrow> length (acc_expanded v) \<le> 1"
proof (induction rule: acc_reach.induct)
  case (boot v)
  then show ?case
    using ensureDefault_expanded by (auto simp: acc_boot_def split: sum.splits)
next
  case (step v v')
  from step.hyps(2) show ?case
    using step.IH by (cases rule: acc_step.cases) (auto simp: acc_setActive_def acc_toggle_expanded)
qed

text \<open>
  C28. A click on a closed header in app.js selects that section's first visible
  sub-policy but leaves the URL on the previous selection: the link Copy link
  then hands out opens, in a new page on the same handbook, the previous
  policy and not the one on screen. The spec writes the parameters on every
  selection.
\<close>

theorem acc_copied_link_stale:
  assumes "\<not> g_open g" and "first (g_subs g) = Some fs"
    and "app_load pub base = Inr (acc_hb v)"
    and "acc_url v = \<lparr>url_section = Some s, url_policy = Some p\<rparr>" and "s \<noteq> []" and "p \<noteq> []"
  shows "acc_sec (acc_toggle g v) = Some (sec_id (g_section g)) \<and> acc_sub (acc_toggle g v) = Some (sp_id fs)
         \<and> (\<exists>v'. acc_boot pub base (copyLink (acc_toggle g v)) = Inr v'
                 \<and> acc_sec v' = Some s \<and> acc_sub v' = Some p)"
  using acc_toggle_stale_url [OF assms(1,2), of v] assms(3-6)
  by (simp add: copyLink_def acc_boot_def ensureDefault_def)

text \<open>
  C29. app.js takes a deep link verbatim even when its section does not exist:
  the page starts with nothing shown instead of the first policy the spec
  prescribes.
\<close>

theorem acc_deep_link_unchecked:
  assumes "app_load pub base = Inr hb" and "truthy (url_section url) = Some s"
    and "truthy (url_policy url) = Some p" and "findSection hb (Some s) = None"
  shows "\<exists>v. acc_boot pub base url = Inr v \<and> acc_sec v = Some s \<and> acc_sub v = Some p
           \<and> acc_content v = NoPolicySelected"
  using assms by (simp add: acc_boot_def ensureDefault_def acc_content_def)

text \<open>
  In app.js a header that is open only because the search matches it
  cannot be closed: the click removes a section that is not in the expanded
  set and changes nothing.
\<close>

theorem acc_forced_open_toggle_noop:
  assumes "g \<in> set (acc_menu v raw)" and "search_query raw \<noteq> []"
    and "sec_id (g_section g) \<notin> set (acc_expanded v)"
  shows "acc_toggle g v = v"
proof -
  have "g_open g"
    using assms(1,2) by (auto simp: acc_menu_def menu_group_of_def Let_def split: if_splits)
  then show ?thesis
    using assms(3) by (simp add: acc_toggle_def js_set_delete_def)
qed

section \<open>Witnesses\<close>

theorem acc_reach_single_expanded_witness:
  "length (acc_expanded (acc_toggle \<lparr>g_section = sample_hr, g_subs = [sample_leave], g_open = True\<rparr>
      acc_boot_state)) \<le> 1"
proof -
  let ?g = "\<lparr>g_section = sample_hr, g_subs = [sample_leave], g_open = True\<rparr>"
  let ?u = "\<lparr>url_section = None, url_policy = None\<rparr>"
  have "acc_reach (Some (Some (JObject True sample_handbook))) FetchFailed ?u acc_boot_state"
    by (rule acc_reach.boot [OF sample_acc_boot])
  then have "acc_reach (Some (Some (JObject True sample_handbook))) FetchFailed ?u (acc_toggle ?g acc_boot_state)"
    by (rule acc_reach.step [OF _ acc_step.toggle [OF sample_leave_group]])
  then show ?thesis
    by (rule acc_reach_single_expanded)
qed

theorem acc_copied_link_stale_witness:
  "acc_sec (acc_toggle \<lparr>g_section = sample_hr, g_subs = [sample_leave], g_open = False\<rparr> sample_acc) = Some ''hr''
   \<and> acc_sub (acc_toggle \<lparr>g_section = sample_hr, g_subs = [sample_leave], g_open = False\<rparr> sample_acc) = Some ''leave''
   \<and> (\<exists>v'. acc_boot (Some (Some (JObject True sample_handbook))) FetchFailed
            (copyLink (acc_toggle \<lparr>g_section = sample_hr, g_subs = [sample_leave], g_open = False\<rparr> sample_acc)) = Inr v'
          \<and> acc_sec v' = Some ''lab'' \<and> acc_sub v' = Some ''qc'')"
  using acc_copied_link_stale [of "\<lparr>g_section = sample_hr, g_subs = [sample_leave], g_open = False\<rparr>"
      sample_leave "Some (Some (JObject True sample_handbook))" FetchFailed sample_acc "''lab''" "''qc''"]
  by (simp add: app_load_def app_doc_def)

theorem acc_deep_link_unchecked_witness:
  "\<exists>v. acc_boot (Some (Some (JObject True sample_handbook))) FetchFailed
         \<lparr>url_section = Some ''nope'', url_policy = Some ''x''\<rparr> = Inr v
     \<and> acc_sec v = Some ''nope'' \<and> acc_sub v = Some ''x'' \<and> acc_content v = NoPolicySelected"
  by (rule acc_deep_link_unchecked [of _ _ sample_handbook])
     (simp_all add: app_load_def app_doc_def findSection_def)

theorem acc_forced_open_toggle_noop_witness:
  "acc_toggle \<lparr>g_section = sample_hr, g_subs = [sample_leave], g_open = True\<rparr> acc_boot_state = acc_boot_state"
  by (rule acc_forced_open_toggle_noop [OF sample_leave_group]) (simp_all add: viewer_eval js_eval)

end
