(* ===== verification/Company.thy ===== *)
theory Company
  imports Loading Escape
begin

text \<open>
  The company-information page (src/js/company.js \<open>renderCompany\<close>) as the
  texts it shows, and the admin's company modal (src/js/admin.js lines
  495-544), whose form is filled by interpolating the stored values into the
  markup without escaping. What the form then holds is what a browser reads
  back from that markup: an attribute value ends at the first double quote,
  and character references are decoded (\<open>html_decode\<close>). A textarea's text
  is read back whole; the model assumes it does not contain the closing tag.
\<close>

record company_card =
  card_name :: string
  card_tagline :: "string option"
  card_address :: "string option"
  card_phone :: "string option"
  card_email :: "string option"
  card_website :: "string option"
  card_flyer :: "string option"
  card_locations :: "location list"
  card_notes :: "string option"

datatype company_view = NoCompanyInfo | CompanyCard company_card

text \<open>
  \<open>renderCompany(info)\<close>: a field the page shows only when present is an
  option (\<open>None\<close> where the page prints a dash or nothing).
\<close>

definition renderCompany :: "company_info option \<Rightarrow> company_view" where
  "renderCompany info =
     (case info of
        None \<Rightarrow> NoCompanyInfo
      | Some i \<Rightarrow> CompanyCard
          \<lparr>card_name = (if ci_name i = [] then ''Company'' else ci_name i),
           card_tagline = truthy (Some (ci_tagline i)), card_address = truthy (Some (ci_address i)),
           card_phone = truthy (Some (ci_phone i)), card_email = truthy (Some (ci_email i)),
           card_website = truthy (Some (ci_website i)), card_flyer = truthy (Some (ci_flyer i)),
           card_locations = ci_locations i, card_notes = truthy (Some (ci_notes i))\<rparr>)"

text \<open>\<open>init()\<close> of company.js.\<close>

definition company_page :: "slot_text option \<Rightarrow> fetch_result \<Rightarrow> boot_error + company_view" where
  "company_page pub base =
     (case company_load pub base of Inl e \<Rightarrow> Inl e | Inr info \<Rightarrow> Inr (renderCompany info))"

section \<open>The company modal\<close>

text \<open>
  The form as the modal shows it for \<open>handbook.companyInfo || {}\<close>:
  \<open>value="${data.name || ""}"\<close> and the like, unescaped.
\<close>

definition company_modal_form :: "company_info option \<Rightarrow> company_form" where
  "company_modal_form info =
     (let g = (\<lambda>f. case info of None \<Rightarrow> [] | Some i \<Rightarrow> f i)
      in \<lparr>form_name = input_value (g ci_name), form_address = textarea_value (g ci_address),
          form_phone = input_value (g ci_phone), form_email = input_value (g ci_email),
          form_flyer = input_value (g ci_flyer), form_notes = textarea_value (g ci_notes)\<rparr>)"

text \<open>A company whose name contains double quotes.\<close>

abbreviation sample_company :: company_info where
  "sample_company \<equiv> \<lparr>ci_name = ''Smith '' @ [QUOT] @ ''QBH'' @ [QUOT] @ '' Lab'', ci_address = ''1 Main St'',
      ci_phone = [], ci_email = [], ci_website = [], ci_tagline = [], ci_flyer = [], ci_notes = [],
      ci_locations = []\<rparr>"

section \<open>Lemmas\<close>

lemma company_page_published [simp]:
  "company_page (Some (stringify hb)) base = Inr (renderCompany (companyInfo hb))"
  by (simp add: company_page_def company_load_def company_published_def company_info_of_def stringify_def)

lemma companyInfo_saveCompany:
  "companyInfo (ahb (saveCompany f now a)) = Some
     \<lparr>ci_name = js_trim (form_name f), ci_address = js_trim (form_address f),
      ci_phone = js_trim (form_phone f), ci_email = js_trim (form_email f),
      ci_website = [], ci_tagline = [], ci_flyer = js_trim (form_flyer f),
      ci_notes = js_trim (form_notes f), ci_locations = []\<rparr>"
  by (simp add: saveCompany_def)

section \<open>Properties\<close>

text \<open>
  C30. Saving the company form and publishing erases what the form has no field
  for: the company page then shows no locations, no website and no tagline,
  whatever the handbook held before.
\<close>

theorem company_save_publish_erases:
  "\<exists>card. company_page (published (astore (publishToLocal t2 (saveCompany f t1 a)))) base
            = Inr (CompanyCard card)
     \<and> card_locations card = [] \<and> card_website card = None \<and> card_tagline card = None"
  by (simp add: companyInfo_saveCompany renderCompany_def)


section \<open>Witnesses\<close>


end
