(* ===== verification/Navigation.thy ===== *)
theory Navigation
  imports Accordion
begin

text \<open>
  What a reader of either viewer can reach by clicking: the page's life is the
  reachability relation \<open>viewer_reach\<close> (app1.js) or \<open>acc_reach\<close> (app.js),
  and the lemmas here build runs of it. With an empty search box every section
  has a group in the menu, open exactly when it is expanded; a header click
  opens a closed one, and a click on a sub-policy of an open group selects it.
\<close>

section \<open>Lemmas\<close>

lemma findSection_unique:
  "unique_ids hb \<Longrightarrow> sec \<in> set (sections hb) \<Longrightarrow> findSection hb (Some (sec_id sec)) = Some sec"
  using find_distinct_key [of sec_id "sections hb" sec]
  by (simp add: findSection_def unique_ids_def section_ids_def)

lemma findSub_unique:
  "unique_ids hb \<Longrightarrow> sec \<in> set (sections hb) \<Longrightarrow> sp \<in> set (subpolicies sec) \<Longrightarrow>
   findSub sec (Some (sp_id sp)) = Some sp"
  using find_distinct_key [of sp_id "subpolicies sec" sp]
  by (simp add: findSub_def unique_ids_def)

lemma search_query_Nil [simp]: "search_query [] = []"
  by (simp add: search_query_def js_trim_Nil js_lower_def)

lemma renderMenu_no_query_group:
  "sec \<in> set (sections (vhb v)) \<Longrightarrow>
   \<lparr>g_section = sec, g_subs = subpolicies sec, g_open = (sec_id sec \<in> set (expanded v))\<rparr>
     \<in> set (renderMenu v [])"
  by (auto simp: renderMenu_def menu_group_of_no_query)

lemma acc_menu_no_query_group:
  "sec \<in> set (sections (acc_hb v)) \<Longrightarrow>
   \<lparr>g_section = sec, g_subs = subpolicies sec, g_open = (sec_id sec \<in> set (acc_expanded v))\<rparr>
     \<in> set (acc_menu v [])"
  by (auto simp: acc_menu_def menu_group_of_no_query)

lemma viewer_reach_hb: "viewer_reach hb slot url v \<Longrightarrow> vhb v = hb"
  by (induction rule: viewer_reach.induct)
     (auto dest: viewer_init_Inr viewer_step_frame(1) simp: ensureDefaultSelection_frame)

lemma toggleSection_opens:
  "sec_id sec \<notin> set (expanded v) \<Longrightarrow>
   sec_id sec \<in> set (expanded (toggleSection sec v)) \<and> vhb (toggleSection sec v) = vhb v"
  using toggleSection_cases [of sec v] by auto

lemma acc_reach_hb: "acc_reach pub base url v \<Longrightarrow> app_load pub base = Inr hb \<Longrightarrow> acc_hb v = hb"
proof (induction rule: acc_reach.induct)
  case (boot v)
  then show ?case by (auto simp: acc_boot_def ensureDefault_def split: option.splits prod.splits)
next
  case (step v v')
  from step.hyps(2) show ?case
    using step.IH step.prems
    by (cases rule: acc_step.cases) (auto simp: acc_setActive_def acc_toggle_def Let_def split: option.splits)
qed

section \<open>Properties\<close>

text \<open>
  C14. Liveness of the viewer app1.js: from every state of a page, every policy
  of a handbook with unique identities can be brought onto the content pane
  by menu clicks (a header click, when the section is closed, then a click on
  the policy).
\<close>

theorem viewer_can_show_policy:
  assumes "viewer_reach hb slot url v" and "unique_ids hb"
    and "sec \<in> set (sections hb)" and "sp \<in> set (subpolicies sec)"
  shows "\<exists>v'. viewer_reach hb slot url v' \<and> renderContent v' = ShowPolicy sec sp"
proof -
  have hb: "vhb v = hb" using assms(1) by (rule viewer_reach_hb)
  obtain v1 where r1: "viewer_reach hb slot url v1" and h1: "vhb v1 = hb"
      and e1: "sec_id sec \<in> set (expanded v1)"
  proof (cases "sec_id sec \<in> set (expanded v)")
    case True
    then show ?thesis using that assms(1) hb by blast
  next
    case False
    have "viewer_step v (toggleSection sec v)"
      using viewer_step.toggle [OF renderMenu_no_query_group] assms(3) hb by fastforce
    then have "viewer_reach hb slot url (toggleSection sec v)"
      by (rule viewer_reach.step [OF assms(1)])
    then show ?thesis using that toggleSection_opens [OF False] hb by auto
  qed
  let ?g = "\<lparr>g_section = sec, g_subs = subpolicies sec, g_open = True\<rparr>"
  have "?g \<in> set (renderMenu v1 [])"
    using renderMenu_no_query_group [of sec v1] assms(3) h1 e1 by simp
  then have "viewer_step v1 (setActive (sec_id sec) (sp_id sp) v1)"
    using viewer_step.select [of ?g v1 "[]" sp] assms(4) by simp
  then have "viewer_reach hb slot url (setActive (sec_id sec) (sp_id sp) v1)"
    by (rule viewer_reach.step [OF r1])
  moreover have "renderContent (setActive (sec_id sec) (sp_id sp) v1) = ShowPolicy sec sp"
    using h1 assms(2-4)
    by (simp add: renderContent_def findSection_unique findSub_unique)
  ultimately show ?thesis by blast
qed

text \<open>
  C15. Liveness of the older viewer app.js: from every state of a page, every
  policy of a handbook with unique identities can be brought onto the content
  pane by menu clicks.
\<close>

theorem acc_can_show_policy:
  assumes "acc_reach pub base url v" and "app_load pub base = Inr hb" and "unique_ids hb"
    and "sec \<in> set (sections hb)" and "sp \<in> set (subpolicies sec)"
  shows "\<exists>v'. acc_reach pub base url v' \<and> acc_content v' = ShowPolicy sec sp"
proof -
  have hb: "acc_hb v = hb" using acc_reach_hb [OF assms(1,2)] .
  obtain v1 where r1: "acc_reach pub base url v1" and h1: "acc_hb v1 = hb"
      and e1: "sec_id sec \<in> set (acc_expanded v1)"
  proof (cases "sec_id sec \<in> set (acc_expanded v)")
    case True
    then show ?thesis using that assms(1) hb by blast
  next
    case False
    let ?g = "\<lparr>g_section = sec, g_subs = subpolicies sec, g_open = False\<rparr>"
    have "?g \<in> set (acc_menu v [])"
      using acc_menu_no_query_group [of sec v] assms(4) hb False by simp
    then have "acc_reach pub base url (acc_toggle ?g v)"
      by (rule acc_reach.step [OF assms(1) acc_step.toggle])
    moreover have "acc_hb (acc_toggle ?g v) = hb" "sec_id sec \<in> set (acc_expanded (acc_toggle ?g v))"
      using hb by (auto simp: acc_toggle_def Let_def split: option.splits)
    ultimately show ?thesis using that by blast
  qed
  let ?g = "\<lparr>g_section = sec, g_subs = subpolicies sec, g_open = True\<rparr>"
  have "?g \<in> set (acc_menu v1 [])"
    using acc_menu_no_query_group [of sec v1] assms(4) h1 e1 by simp
  then have "acc_step v1 (acc_setActive (sec_id sec) (sp_id sp) v1)"
    using acc_step.select [of ?g v1 "[]" sp] assms(5) by simp
  then have "acc_reach pub base url (acc_setActive (sec_id sec) (sp_id sp) v1)"
    by (rule acc_reach.step [OF r1])
  moreover have "acc_content (acc_setActive (sec_id sec) (sp_id sp) v1) = ShowPolicy sec sp"
    using h1 assms(3-5)
    by (simp add: acc_content_def acc_setActive_def findSection_unique findSub_unique)
  ultimately show ?thesis by blast
qed

section \<open>Witnesses\<close>

theorem viewer_can_show_policy_witness:
  "\<exists>v'. viewer_reach sample_handbook SlotAbsent no_query v' \<and> renderContent v' = ShowPolicy sample_hr sample_leave"
proof -
  have "viewer_init sample_handbook SlotAbsent no_query = Inr sample_viewer"
    by (simp add: viewer_eval)
  then have r: "viewer_reach sample_handbook SlotAbsent no_query sample_viewer"
    by (rule viewer_reach.boot)
  show ?thesis
    by (rule viewer_can_show_policy [OF r sample_handbook_unique]) simp_all
qed

theorem acc_can_show_policy_witness:
  "\<exists>v'. acc_reach (Some (Some (JObject True sample_handbook))) FetchFailed
          \<lparr>url_section = None, url_policy = None\<rparr> v'
     \<and> acc_content v' = ShowPolicy sample_hr sample_leave"
proof -
  have r: "acc_reach (Some (Some (JObject True sample_handbook))) FetchFailed
             \<lparr>url_section = None, url_policy = None\<rparr> acc_boot_state"
    by (rule acc_reach.boot [OF sample_acc_boot])
  have l: "app_load (Some (Some (JObject True sample_handbook))) FetchFailed = Inr sample_handbook"
    by (simp add: app_load_def app_doc_def)
  show ?thesis
    by (rule acc_can_show_policy [OF r l sample_handbook_unique]) simp_all
qed

end
