(* ===== verification/Admin_View.thy ===== *)
theory Admin_View
  imports Loading
begin

text \<open>
  The parts of the admin page around its handlers (src/js/admin.js): the
  sidebar \<open>renderSidebar\<close>, the main-heading modal \<open>openSectionModal\<close>, the
  credential-hash generator of \<open>openCredsModal\<close>, the downloaded export file,
  and the Clear draft button, which reloads the page. Form fields and
  \<open>data-*\<close> attributes are filled with \<open>escapeHtml\<close>; what the browser reads
  back is \<open>attr_value\<close> (an attribute) or \<open>input_value\<close> (an input field) of
  the escaped text.
\<close>

section \<open>Sidebar\<close>

text \<open>
  A group of the sidebar: the section, each sub-policy with whether it is
  drawn active, and the section identity its three buttons carry in
  \<open>data-add-sub\<close>, \<open>data-edit-sec\<close> and \<open>data-del-sec\<close>, as
  \<open>getAttribute\<close> returns it.
\<close>

record sidebar_group =
  sb_section :: handbook_section
  sb_items :: "(subpolicy \<times> bool) list"
  sb_button_id :: string

definition renderSidebar :: "admin \<Rightarrow> sidebar_group list" where
  "renderSidebar a =
     map (\<lambda>sec. \<lparr>sb_section = sec,
                 sb_items = map (\<lambda>sp. (sp, active_sec a = Some (sec_id sec) \<and> active_sp a = Some (sp_id sp)))
                              (subpolicies sec),
                 sb_button_id = attr_value (escapeHtml_table (sec_id sec))\<rparr>)
       (sections (ahb a))"

definition highlighted :: "sidebar_group list \<Rightarrow> subpolicy list" where
  "highlighted gs = concat (map (\<lambda>g. map fst (filter snd (sb_items g))) gs)"

section \<open>Main-heading modal\<close>

text \<open>
  \<open>openSectionModal(sectionId)\<close>: nothing for an unknown identity; otherwise
  the title and summary fields as the browser holds them.
\<close>

definition section_modal_form :: "admin \<Rightarrow> string \<Rightarrow> (string \<times> string) option" where
  "section_modal_form a sid =
     (case getSection (ahb a) (Some sid) of
        None \<Rightarrow> None
      | Some sec \<Rightarrow> Some (input_value (escapeHtml_table (sec_title sec)),
                         input_value (escapeHtml_table (sec_summary sec))))"

section \<open>Credential hashes\<close>

text \<open>
  The Generate button of \<open>openCredsModal\<close>: the trimmed user name and the
  password, both required, and their digests to copy into the configuration.
\<close>

datatype creds_output = CredsRequired | CredsHashes string string

definition genCreds :: "(string \<Rightarrow> string) \<Rightarrow> string \<Rightarrow> string \<Rightarrow> creds_output" where
  "genCreds sha256Hex newUser newPass =
     (let u = js_trim newUser; p = newPass
      in if u = [] \<or> p = [] then CredsRequired else CredsHashes (sha256Hex u) (sha256Hex p))"

section \<open>Export file and Clear draft\<close>

text \<open>
  \<open>downloadJson\<close>: the file holds \<open>JSON.stringify(obj, null, 2)\<close>, which a
  later import parses back to the same document.
\<close>

definition downloadJson :: "handbook \<Rightarrow> slot_text" where
  "downloadJson obj = stringify obj"

text \<open>
  The Clear draft button: after confirmation both slots are removed and the
  page reloads, which is a new start-up on the cleared storage.
\<close>

definition clearDraftReload :: "bool \<Rightarrow> fetch_result \<Rightarrow> admin \<Rightarrow> boot_error + admin" where
  "clearDraftReload ok base a = (if \<not> ok then Inr a else admin_boot (astore (clearDraft a)) base)"

text \<open>
  The file input's change handler (lines 476-482): the first chosen file, if
  any, is imported (its text as \<open>JSON.parse\<close> reads it); clearing the input
  afterwards lets the same file be chosen again and changes no state here.
\<close>

definition onFileChange :: "slot_text list \<Rightarrow> string \<Rightarrow> admin \<Rightarrow> admin" where
  "onFileChange files now a = (case files of [] \<Rightarrow> a | f # _ \<Rightarrow> onImport f now a)"

section \<open>Lemmas\<close>

lemma renderEditor_EditSubpolicy:
  assumes "renderEditor a = (a', EditSubpolicy sec sub)"
  shows "a' = ensureActive a \<and> sec \<in> set (sections (ahb a')) \<and> sub \<in> set (subpolicies sec)
         \<and> active_sec a' = Some (sec_id sec) \<and> active_sp a' = Some (sp_id sub)
         \<and> getSection (ahb a') (Some (sec_id sec)) = Some sec \<and> getSub sec (Some (sp_id sub)) = Some sub"
  using assms
  by (auto simp: renderEditor_def Let_def split: option.splits dest: getSection_Some getSub_Some)

section \<open>Properties\<close>

text \<open>
  C20. With unique identities, the sidebar highlights exactly the sub-policy the
  editor pane shows, and every group's buttons carry its own section's
  identity (escaped into the attribute and read back unchanged, up to the
  parser's normalisation of line breaks).
\<close>

theorem sidebar_matches_editor:
  assumes "unique_ids (ahb a)" and "renderEditor a = (a, EditSubpolicy sec sub)"
  shows "highlighted (renderSidebar a) = [sub]
         \<and> list_all (\<lambda>g. sb_button_id g = nl_norm (sec_id (sb_section g))) (renderSidebar a)"
proof
  have r: "sec \<in> set (sections (ahb a))" "sub \<in> set (subpolicies sec)"
      "active_sec a = Some (sec_id sec)" "active_sp a = Some (sp_id sub)"
    using renderEditor_EditSubpolicy [OF assms(2)] by auto
  have ds: "distinct (map sec_id (sections (ahb a)))" and dp: "distinct (map sp_id (subpolicies sec))"
    using assms(1) r(1) by (auto simp: unique_ids_def section_ids_def)
  have "highlighted (renderSidebar a) =
        concat (map (\<lambda>x. if sec_id x = sec_id sec then filter (\<lambda>sp. sp_id sp = sp_id sub) (subpolicies x) else [])
                 (sections (ahb a)))"
    using r(3,4) by (simp add: highlighted_def renderSidebar_def o_def map_fst_filter_snd eq_commute
        filter_conj_const)
  also have "\<dots> = [sub]"
    using filter_distinct_key [OF ds r(1)] filter_distinct_key [OF dp r(2)]
    by (simp add: concat_map_if_filter)
  finally show "highlighted (renderSidebar a) = [sub]" .
  show "list_all (\<lambda>g. sb_button_id g = nl_norm (sec_id (sb_section g))) (renderSidebar a)"
    by (simp add: renderSidebar_def list_all_iff form_values_escaped)
qed

text \<open>
  The main-heading modal shows the section's trimmed title and summary as
  they are, and saving it unchanged changes nothing but the timestamp and the
  draft slot.
\<close>

theorem section_modal_unchanged:
  assumes "getSection (ahb a) (Some sid) = Some sec"
    and "js_trim (sec_title sec) = sec_title sec" "js_trim (sec_summary sec) = sec_summary sec"
    and "no_breaks (sec_title sec)" "no_breaks (sec_summary sec)"
  shows "section_modal_form a sid = Some (sec_title sec, sec_summary sec)
         \<and> saveSection sid (sec_title sec) (sec_summary sec) now a = ensureActive (saveDraft now a)"
proof
  show "section_modal_form a sid = Some (sec_title sec, sec_summary sec)"
    using assms(1,4,5) by (simp add: section_modal_form_def form_values_plain no_breaks_def)
  have f: "find (\<lambda>s. sec_id s = sid) (sections (ahb a)) = Some sec"
    using assms(1) by (simp add: getSection_def)
  show "saveSection sid (sec_title sec) (sec_summary sec) now a = ensureActive (saveDraft now a)"
    using assms f by (simp add: saveSection_def update_first_fix)
qed

text \<open>
  C21. Hashes generated by the credential modal make the login accept the very
  user name and password that were typed (a user name with surrounding white
  space included); a blank user name or an empty password gives no hashes.
\<close>

theorem creds_then_login:
  "genCreds sha256Hex u p = CredsHashes uh ph \<Longrightarrow>
   login sha256Hex uh ph u p \<and> js_trim u \<noteq> [] \<and> p \<noteq> []"
  by (auto simp: genCreds_def login_def Let_def split: if_splits)

text \<open>
  C26. Clear draft (confirmed) and the reload that follows put the editor back on
  the baseline file, logged out with nothing selected and both slots empty, and
  the viewer then loads the baseline too; a cancelled Clear changes nothing.
\<close>

theorem clear_draft_resets:
  "clearDraftReload True (Fetched (Some (JObject True hb))) a =
     Inr \<lparr>ahb = hb, active_sec = None, active_sp = None,
          astore = \<lparr>draft = None, published = None\<rparr>, authed = False\<rparr>
   \<and> viewer_load (published (astore (clearDraft a))) (Fetched (Some (JObject True hb))) = Inr hb
   \<and> clearDraftReload False base a = Inr a"
  by (simp add: clearDraftReload_def clearDraft_def admin_boot_def admin_load_def admin_doc_def
      loadDraftOrBase_def viewer_load_def getPublishedHandbook_def)

text \<open>
  Round trip through a file: importing the exported handbook restores it,
  stamped with the time of the import.
\<close>

theorem export_import_roundtrip:
  "\<exists>b'. importHandbook (downloadJson (fst (exportHandbook t t' a))) now b = Inr b'
     \<and> ahb b' = (ahb a)\<lparr>meta := (meta (ahb a))\<lparr>meta_updated := now\<rparr>\<rparr>"
  by (simp add: downloadJson_def exportHandbook_def importHandbook_def stringify_def saveDraft_def Let_def)

section \<open>Witnesses\<close>

theorem sidebar_matches_editor_witness:
  "highlighted (renderSidebar sample_admin) = [sample_qc]
   \<and> list_all (\<lambda>g. sb_button_id g = nl_norm (sec_id (sb_section g))) (renderSidebar sample_admin)"
  by (rule sidebar_matches_editor [OF _ sample_admin_rendered]) (simp add: sample_handbook_unique)

theorem section_modal_unchanged_witness:
  "section_modal_form sample_admin ''lab'' = Some (''Waived Lab'', ''Safety rules'')
   \<and> saveSection ''lab'' ''Waived Lab'' ''Safety rules'' ''t'' sample_admin = ensureActive (saveDraft ''t'' sample_admin)"
  using section_modal_unchanged [of sample_admin "''lab''" sample_lab "''t''"]
  by (simp add: getSection_def no_breaks_def js_eval)

theorem creds_then_login_witness:
  "login id ''admin'' ''pw'' '' admin'' ''pw'' \<and> js_trim '' admin'' \<noteq> [] \<and> ''pw'' \<noteq> []"
  using creds_then_login [of id "'' admin''" "''pw''" "''admin''" "''pw''"]
  by (simp add: genCreds_def js_eval)

end
