(* ===== verification/Digest.thy ===== *)
theory Digest
  imports Prelude "HOL-Library.Word"
begin

text \<open>
  The credential digest of admin.js, \<open>sha256Hex\<close> (lines 23-28): the text's
  UTF-8 bytes, their SHA-256 digest, and the digest written as a lower-case
  hexadecimal string. The digest itself is a parameter; the encoding around it is
  modelled on bytes (\<open>8 word\<close>): the UTF-8 step is injective and the hex
  step reads back, so \<open>sha256Hex\<close> distinguishes texts whenever the digest
  does.
\<close>

type_synonym byte = "8 word"

text \<open>
  \<open>new TextEncoder().encode(text)\<close>: the UTF-8 bytes of the string. A character of
  the model is a code point below 256, one byte below 128 and two bytes
  (\<open>110xxxxx 10xxxxxx\<close>) above. \<open>utf8_decode\<close> is the decoder the encoding is
  checked against.
\<close>

definition utf8_char :: "char \<Rightarrow> byte list" where
  "utf8_char c =
     (let n = of_char c :: nat
      in if n < 128 then [word_of_nat n]
         else [word_of_nat (192 + n div 64), word_of_nat (128 + n mod 64)])"

definition textEncode :: "string \<Rightarrow> byte list" where
  "textEncode s = concat (map utf8_char s)"

fun utf8_decode :: "byte list \<Rightarrow> string option" where
  "utf8_decode [] = Some []"
| "utf8_decode (b # bs) =
     (if unat b < 128 then map_option (Cons (char_of (unat b))) (utf8_decode bs)
      else if 194 \<le> unat b \<and> unat b < 196 then
        (case bs of
           [] \<Rightarrow> None
         | b2 # bs' \<Rightarrow>
             if 128 \<le> unat b2 \<and> unat b2 < 192
             then map_option (Cons (char_of ((unat b - 192) * 64 + (unat b2 - 128))))
                    (utf8_decode bs')
             else None)
      else None)"

text \<open>
  The last line of \<open>sha256Hex\<close>: each byte of the digest
  (\<open>Array.from(new Uint8Array(buf))\<close>) as \<open>b.toString(16).padStart(2, "0")\<close>, the
  pieces joined with \<open>""\<close>. \<open>toString(16)\<close> writes the lower-case base-16
  digits of a non-negative integer, most significant first.
\<close>

definition hex_chars :: string where
  "hex_chars = ''0123456789abcdef''"

definition hex_digit :: "nat \<Rightarrow> char" where
  "hex_digit d = hex_chars ! d"

fun toString16 :: "nat \<Rightarrow> string" where
  "toString16 n =
     (if n < 16 then [hex_digit n] else toString16 (n div 16) @ [hex_digit (n mod 16)])"

definition padStart :: "nat \<Rightarrow> char \<Rightarrow> string \<Rightarrow> string" where
  "padStart n c s = replicate (n - length s) c @ s"

definition byte_hex :: "byte \<Rightarrow> string" where
  "byte_hex b = padStart 2 (CHR ''0'') (toString16 (unat b))"

definition hexJoin :: "byte list \<Rightarrow> string" where
  "hexJoin arr = js_join [] (map byte_hex arr)"

text \<open>
  \<open>sha256Hex(text)\<close>, with \<open>crypto.subtle.digest("SHA-256", \<dots>)\<close> the
  parameter \<open>digest\<close> on byte lists.
\<close>

definition sha256Hex :: "(byte list \<Rightarrow> byte list) \<Rightarrow> string \<Rightarrow> string" where
  "sha256Hex digest text = hexJoin (digest (textEncode text))"

text \<open>The reading of a hexadecimal string back into bytes.\<close>

definition hex_val :: "char \<Rightarrow> nat option" where
  "hex_val c = (case filter (\<lambda>i. hex_chars ! i = c) [0..<16] of [] \<Rightarrow> None | i # _ \<Rightarrow> Some i)"

fun unhex :: "string \<Rightarrow> byte list option" where
  "unhex [] = Some []"
| "unhex [_] = None"
| "unhex (h # l # r) =
     (case (hex_val h, hex_val l) of
        (Some a, Some b) \<Rightarrow> map_option (Cons (word_of_nat (16 * a + b))) (unhex r)
      | _ \<Rightarrow> None)"

lemma unat_byte_small [simp]: "k < 256 \<Longrightarrow> unat (word_of_nat k :: byte) = k"
  by (simp add: unat_of_nat)

lemma js_join_Nil_concat [simp]: "js_join [] xs = concat xs"
  by (induction "[] :: string" xs rule: js_join.induct) simp_all

lemma hexJoin_concat: "hexJoin arr = concat (map byte_hex arr)"
  by (simp add: hexJoin_def)

lemma length_hex_chars: "length hex_chars = 16"
  by (simp_all add: hex_chars_def)

lemma hex_val_digits: "list_all (\<lambda>d. hex_val (hex_digit d) = Some d) [0..<16]"
  by (simp add: hex_val_def hex_digit_def hex_chars_def upt_rec)

lemma hex_val_digit [simp]: "d < 16 \<Longrightarrow> hex_val (hex_digit d) = Some d"
  using hex_val_digits by (simp add: list_all_iff)

lemma hex_digit_set: "d < 16 \<Longrightarrow> hex_digit d \<in> set hex_chars"
  by (simp add: hex_digit_def length_hex_chars)

lemma unat_byte_lt: "unat (b :: byte) < 256"
  using unsigned_less [of b] by simp

lemma unat_byte_hi [simp]: "unat (b :: byte) div 16 < 16"
  using unat_byte_lt [of b] by simp

lemma byte_hex_digits:
  "byte_hex b = [hex_digit (unat b div 16), hex_digit (unat b mod 16)]"
proof -
  have lt: "unat b < 256" by (rule unat_byte_lt)
  show ?thesis
  proof (cases "unat b < 16")
    case True
    then show ?thesis by (simp add: byte_hex_def padStart_def hex_digit_def hex_chars_def)
  next
    case False
    with lt have "unat b div 16 < 16" by simp
    with False show ?thesis by (simp add: byte_hex_def padStart_def)
  qed
qed

lemma unhex_byte_hex: "unhex (byte_hex b @ r) = map_option (Cons b) (unhex r)"
proof -
  have "16 * (unat b div 16) + unat b mod 16 = unat b" by simp
  moreover have "unat b div 16 < 16" using unat_byte_lt [of b] by simp
  ultimately show ?thesis by (simp add: byte_hex_digits)
qed

lemma utf8_decode_char: "utf8_decode (utf8_char c @ bs) = map_option (Cons c) (utf8_decode bs)"
proof -
  define n where "n = (of_char c :: nat)"
  have n: "n < 256" by (simp add: n_def)
  have c: "char_of n = c" by (simp add: n_def)
  show ?thesis
  proof (cases "n < 128")
    case True
    with n c show ?thesis by (simp add: utf8_char_def n_def [symmetric])
  next
    case False
    with n have d: "n div 64 = 2 \<or> n div 64 = 3" by linarith
    define b1 b2 where "b1 = (word_of_nat (192 + n div 64) :: byte)"
      and "b2 = (word_of_nat (128 + n mod 64) :: byte)"
    have u1: "unat b1 = 192 + n div 64" unfolding b1_def using n by (intro unat_byte_small) simp
    have u2: "unat b2 = 128 + n mod 64" unfolding b2_def by (intro unat_byte_small) simp
    have e: "utf8_char c = [b1, b2]"
      using False by (simp add: utf8_char_def n_def [symmetric] b1_def b2_def)
    have g1: "\<not> unat b1 < 128 \<and> 194 \<le> unat b1 \<and> unat b1 < 196" using d u1 by auto
    have g2: "128 \<le> unat b2 \<and> unat b2 < 192" using u2 by simp
    have g3: "(unat b1 - 192) * 64 + (unat b2 - 128) = n" using u1 u2 by simp
    show ?thesis by (simp add: e g1 g2 g3 c)
  qed
qed

lemma hex_roundtrip_aux: "unhex (hexJoin arr) = Some arr"
  by (induction arr) (simp_all add: hexJoin_concat unhex_byte_hex)

lemma utf8_roundtrip: "utf8_decode (textEncode s) = Some s"
  by (induction s) (simp_all add: textEncode_def utf8_decode_char)

lemma textEncode_inj: "inj textEncode"
  by (rule inj_on_inverseI [where g = "the \<circ> utf8_decode"]) (simp add: utf8_roundtrip)

lemma sha256Hex_eq_iff:
  "inj digest \<Longrightarrow> sha256Hex digest x = sha256Hex digest y \<longleftrightarrow> x = y"
  unfolding sha256Hex_def
  by (metis hex_roundtrip_aux option.inject textEncode_inj injD)

text \<open>
  The hex string of \<open>sha256Hex\<close> reads back to the digest's bytes: the
  two-character padding makes the encoding of a byte list injective.
\<close>

theorem hex_roundtrip: "unhex (hexJoin arr) = Some arr"
  by (induction arr) (simp_all add: hexJoin_concat unhex_byte_hex)

text \<open>
  C36. The hex string has two lower-case hexadecimal characters per digest
  byte: 64 for the 32 bytes of SHA-256.
\<close>

theorem hex_bounds:
  "length (hexJoin arr) = 2 * length arr \<and> set (hexJoin arr) \<subseteq> set hex_chars"
  by (induction arr) (auto simp: hexJoin_concat byte_hex_digits hex_digit_set)

text \<open>
  C18. For an injective digest, \<open>sha256Hex\<close> is injective: equal hex strings
  come only from equal texts, the assumption the login check rests on.
\<close>

theorem sha256Hex_inj: "inj digest \<Longrightarrow> inj (sha256Hex digest)"
  by (simp add: inj_def sha256Hex_eq_iff)

section \<open>Witnesses\<close>

theorem sha256Hex_inj_witness: "inj (id :: byte list \<Rightarrow> byte list) \<and> inj (sha256Hex id)"
  using sha256Hex_inj [of id] by simp

end
