(* ===== verification/Panes.thy ===== *)
theory Panes
  imports Accordion Digest
begin

text \<open>
  The content panes of the two viewers as the texts they show. app1.js
  \<open>renderContent\<close> (lines 202-222) draws a card with the sub-policy title (or
  \<open>"Policy"\<close>), the section title, the summary when there is one, a PDF
  button when there is a link, the paragraphs and the bullets. app.js
  \<open>renderContent\<close> (lines 85-108) draws the title as it is, the section title
  with the summary always, the PDF button, the paragraphs and the bullets,
  and a "Text not added yet" notice when there are neither. Both split the
  blocks with the same \<open>parseBlocks\<close> code (app1.js lines 93-101, app.js lines
  68-76). app.js links the PDF with its page anchor,
  \<open>#page=\<close> and \<open>encodeURIComponent(sub.pdfPage)\<close> (\<open>pdf_href\<close>), where
  app1.js links the bare \<open>pdf\<close> field.
\<close>

record policy_card =
  pc_title :: string
  pc_section :: string
  pc_summary :: "string option"
  pc_pdf :: "string option"
  pc_paras :: "string list"
  pc_bullets :: "string list"
  pc_text_missing :: bool

text \<open>
  \<open>encodeURIComponent\<close>: the unreserved characters stay, every other
  character becomes its UTF-8 bytes as \<open>%XX\<close> with upper-case digits.
\<close>

definition uri_unreserved :: "char \<Rightarrow> bool" where
  "uri_unreserved c \<longleftrightarrow>
     c \<in> set (''ABCDEFGHIJKLMNOPQRSTUVWXYZabcdefghijklmnopqrstuvwxyz0123456789-_.!~*()'')
     \<or> c = APOS"

definition hex_upper :: "nat \<Rightarrow> char" where
  "hex_upper d = ''0123456789ABCDEF'' ! d"

definition percent_byte :: "byte \<Rightarrow> string" where
  "percent_byte b = [CHR ''%'', hex_upper (unat b div 16), hex_upper (unat b mod 16)]"

definition encodeURIComponent :: "string \<Rightarrow> string" where
  "encodeURIComponent s =
     concat (map (\<lambda>c. if uri_unreserved c then [c] else concat (map percent_byte (utf8_char c))) s)"

text \<open>app.js line 86: the link of the PDF button.\<close>

definition pdf_href :: "subpolicy \<Rightarrow> string" where
  "pdf_href sp =
     (if pdf sp = [] then []
      else pdf sp @ (if pdf_page sp = [] then [] else ''#page='' @ encodeURIComponent (pdf_page sp)))"

definition viewer_pane :: "viewer \<Rightarrow> policy_card option" where
  "viewer_pane v =
     (case renderContent v of
        NoPolicySelected \<Rightarrow> None
      | ShowPolicy sec sp \<Rightarrow>
          (case parseBlocks (blocks sp) of (bullets, paras) \<Rightarrow>
             Some \<lparr>pc_title = (if sp_title sp = [] then ''Policy'' else sp_title sp),
                   pc_section = sec_title sec, pc_summary = truthy (Some (sp_summary sp)),
                   pc_pdf = truthy (Some (pdf sp)), pc_paras = paras, pc_bullets = bullets,
                   pc_text_missing = False\<rparr>))"

definition acc_pane :: "acc \<Rightarrow> policy_card option" where
  "acc_pane w =
     (case acc_content w of
        NoPolicySelected \<Rightarrow> None
      | ShowPolicy sec sp \<Rightarrow>
          (case parseBlocks (blocks sp) of (bullets, paras) \<Rightarrow>
             Some \<lparr>pc_title = sp_title sp, pc_section = sec_title sec,
                   pc_summary = Some (sp_summary sp),
                   pc_pdf = (if pdf sp = [] then None else Some (pdf_href sp)),
                   pc_paras = paras, pc_bullets = bullets,
                   pc_text_missing = (paras = [] \<and> bullets = [])\<rparr>))"

text \<open>What both panes have in common: the section, the paragraphs, the bullets.\<close>

definition pane_body :: "policy_card \<Rightarrow> string \<times> string list \<times> string list" where
  "pane_body c = (pc_section c, pc_paras c, pc_bullets c)"

section \<open>Lemmas\<close>

lemma utf8_char_not_Nil: "utf8_char c \<noteq> []"
  by (simp add: utf8_char_def Let_def)

lemma encodeURIComponent_Nil_iff: "encodeURIComponent s = [] \<longleftrightarrow> s = []"
  by (cases s) (simp_all add: encodeURIComponent_def utf8_char_not_Nil percent_byte_def)

lemma pdf_href_bare_iff:
  "pdf_href sp = pdf sp \<longleftrightarrow> pdf sp = [] \<or> pdf_page sp = []"
  by (simp add: pdf_href_def encodeURIComponent_Nil_iff)

lemma panes_of_content:
  assumes "acc_content w = renderContent v"
  shows "map_option pane_body (viewer_pane v) = map_option pane_body (acc_pane w)
         \<and> (\<forall>sec sub. renderContent v = ShowPolicy sec sub \<longrightarrow>
              (map_option pc_pdf (viewer_pane v) = map_option pc_pdf (acc_pane w)
               \<longleftrightarrow> pdf sub = [] \<or> pdf_page sub = []))"
proof (cases "renderContent v")
  case NoPolicySelected
  with assms show ?thesis by (simp add: viewer_pane_def acc_pane_def)
next
  case (ShowPolicy sec sub)
  obtain bl pa where pb: "parseBlocks (blocks sub) = (bl, pa)" by fastforce
  have v: "map_option pc_pdf (viewer_pane v) = Some (truthy (Some (pdf sub)))"
      "map_option pane_body (viewer_pane v) = Some (sec_title sec, pa, bl)"
    using ShowPolicy pb by (simp_all add: viewer_pane_def pane_body_def)
  have w: "map_option pc_pdf (acc_pane w) = Some (if pdf sub = [] then None else Some (pdf_href sub))"
      "map_option pane_body (acc_pane w) = Some (sec_title sec, pa, bl)"
    using assms ShowPolicy pb by (simp_all add: acc_pane_def pane_body_def)
  have "(pdf sub = pdf_href sub) = (pdf sub = [] \<or> pdf_page sub = [])"
    using pdf_href_bare_iff [of sub] by (simp add: eq_commute)
  with v w ShowPolicy show ?thesis by auto
qed

section \<open>Properties\<close>

text \<open>
  C16. The two viewers agree on what a link shows, except for the PDF anchor:
  on the same storage and baseline, when both load a handbook, a link to an
  existing section opens a page in each viewer; their content panes show the
  same section and the same paragraphs and bullets in the same order (or both
  show nothing), and their PDF links are the same exactly when the policy has
  no PDF or no \<open>pdfPage\<close>.
\<close>

theorem panes_same_body:
  assumes "viewer_load pub base = Inr hb" and "app_load pub base = Inr hb"
    and "findSection hb (Some s) \<noteq> None" and "s \<noteq> []" and "p \<noteq> []" and "exp \<noteq> SlotInvalid"
  shows "\<exists>v w. viewer_boot exp pub base \<lparr>url_section = Some s, url_policy = Some p\<rparr> = Inr v
           \<and> acc_boot pub base \<lparr>url_section = Some s, url_policy = Some p\<rparr> = Inr w
           \<and> map_option pane_body (viewer_pane v) = map_option pane_body (acc_pane w)
           \<and> (\<forall>sec sub. renderContent v = ShowPolicy sec sub \<longrightarrow>
                (map_option pc_pdf (viewer_pane v) = map_option pc_pdf (acc_pane w)
                 \<longleftrightarrow> pdf sub = [] \<or> pdf_page sub = []))"
proof -
  obtain sec where sec: "findSection hb (Some s) = Some sec"
    using assms(3) by blast
  then have m: "sec \<in> set (sections hb)" and sid: "sec_id sec = s"
    using findSection_Some by auto
  obtain v where v: "viewer_boot exp pub base \<lparr>url_section = Some s, url_policy = Some p\<rparr> = Inr v"
      and hv: "vhb v = hb" "active_section v = Some s" "active_sub v = Some p"
    using viewer_boot_deep_link [OF assms(1) m, of p exp] sid assms(4-6) by auto
  let ?w = "ensureDefault \<lparr>acc_hb = hb, acc_sec = None, acc_sub = None, acc_expanded = [],
              acc_url = \<lparr>url_section = Some s, url_policy = Some p\<rparr>\<rparr>"
  have w: "acc_boot pub base \<lparr>url_section = Some s, url_policy = Some p\<rparr> = Inr ?w"
    using assms(2) by (simp add: acc_boot_def)
  have hw: "acc_hb ?w = hb" "acc_sec ?w = Some s" "acc_sub ?w = Some p"
    using assms(4,5) by (simp_all add: ensureDefault_def)
  have c: "acc_content ?w = renderContent v"
    unfolding renderContent_def acc_content_def hw hv by (rule refl)
  from panes_of_content [OF c] v w show ?thesis by blast
qed

section \<open>Witnesses\<close>

theorem panes_same_body_witness:
  "\<exists>v w. viewer_boot SlotAbsent (Some (Some (JObject True sample_handbook))) FetchFailed
           \<lparr>url_section = Some ''lab'', url_policy = Some ''safety''\<rparr> = Inr v
     \<and> acc_boot (Some (Some (JObject True sample_handbook))) FetchFailed
           \<lparr>url_section = Some ''lab'', url_policy = Some ''safety''\<rparr> = Inr w
     \<and> map_option pane_body (viewer_pane v) = map_option pane_body (acc_pane w)
     \<and> (\<forall>sec sub. renderContent v = ShowPolicy sec sub \<longrightarrow>
          (map_option pc_pdf (viewer_pane v) = map_option pc_pdf (acc_pane w)
           \<longleftrightarrow> pdf sub = [] \<or> pdf_page sub = []))"
  using panes_same_body [of "Some (Some (JObject True sample_handbook))" FetchFailed sample_handbook
      "''lab''" "''safety''" SlotAbsent]
  by (simp add: viewer_load_def getPublishedHandbook_def app_load_def app_doc_def findSection_def)

text \<open>On the sample's Safety policy, with page anchor 3, the two links differ.\<close>

lemma sample_safety_links: "pdf_href sample_safety = ''pdf/safety.pdf#page=3''"
  by (simp add: pdf_href_def encodeURIComponent_def uri_unreserved_def)

end
