(* ===== verification/Modal.thy ===== *)
theory Modal
  imports Admin_View Company
begin

text \<open>
  The modal dialog of admin.js and the page around it: \<open>openModal\<close> and
  \<open>closeModal\<close> (lines 123-133) show and clear the one \<open>#modal\<close> element;
  the main-heading modal (\<open>openSectionModal\<close>), the credentials modal
  (\<open>openCredsModal\<close>) and the company modal (the \<open>btnCompany\<close> listener)
  open it with their forms; a click on its backdrop closes it; \<open>main()\<close>
  either shows the page or, when start-up throws, an error message.
  The company modal's Cancel button is wired with an inline
  \<open>onclick="closeModal()"\<close>: admin.js is an ES module (it begins with
  \<open>import\<close>), so \<open>closeModal\<close> is not a global name and the handler throws
  a ReferenceError that changes nothing.
\<close>

datatype modal_view =
    SectionModal string
  | CredsModal "creds_output option"
  | CompanyModal company_form

record admin_page =
  pg :: admin
  modal :: "modal_view option"

definition openModal :: "modal_view \<Rightarrow> admin_page \<Rightarrow> admin_page" where
  "openModal m p = p\<lparr>modal := Some m\<rparr>"

definition closeModal :: "admin_page \<Rightarrow> admin_page" where
  "closeModal p = p\<lparr>modal := None\<rparr>"

definition openSectionModal :: "string \<Rightarrow> admin_page \<Rightarrow> admin_page" where
  "openSectionModal sid p =
     (case getSection (ahb (pg p)) (Some sid) of
        None \<Rightarrow> p
      | Some _ \<Rightarrow> openModal (SectionModal sid) p)"

definition openCredsModal :: "admin_page \<Rightarrow> admin_page" where
  "openCredsModal p = openModal (CredsModal None) p"

definition companyClick :: "admin_page \<Rightarrow> admin_page" where
  "companyClick p = openModal (CompanyModal (company_modal_form (companyInfo (ahb (pg p))))) p"

text \<open>
  The controls of the open modal. A control of a modal that is not shown
  cannot be clicked, so it changes nothing.
\<close>

datatype modal_event =
    SecClose
  | SecSave string string
  | GenCredsClick string string
  | CloseCreds
  | CompanySave company_form
  | CompanyCancel
  | BackdropClick

definition companyCancel :: "admin_page \<Rightarrow> admin_page" where
  "companyCancel p = p"

definition backdropClick :: "admin_page \<Rightarrow> admin_page" where
  "backdropClick p = closeModal p"

fun modal_step ::
    "(string \<Rightarrow> string) \<Rightarrow> string \<Rightarrow> modal_event \<Rightarrow> admin_page \<Rightarrow> admin_page" where
  "modal_step h now SecClose p =
     (case modal p of Some (SectionModal _) \<Rightarrow> closeModal p | _ \<Rightarrow> p)"
| "modal_step h now (SecSave t s) p =
     (case modal p of
        Some (SectionModal sid) \<Rightarrow> closeModal (p\<lparr>pg := saveSection sid t s now (pg p)\<rparr>)
      | _ \<Rightarrow> p)"
| "modal_step h now (GenCredsClick u pw) p =
     (case modal p of
        Some (CredsModal _) \<Rightarrow> p\<lparr>modal := Some (CredsModal (Some (genCreds h u pw)))\<rparr>
      | _ \<Rightarrow> p)"
| "modal_step h now CloseCreds p =
     (case modal p of Some (CredsModal _) \<Rightarrow> closeModal p | _ \<Rightarrow> p)"
| "modal_step h now (CompanySave f) p =
     (case modal p of
        Some (CompanyModal _) \<Rightarrow> closeModal (p\<lparr>pg := saveCompany f now (pg p)\<rparr>)
      | _ \<Rightarrow> p)"
| "modal_step h now CompanyCancel p =
     (case modal p of Some (CompanyModal _) \<Rightarrow> companyCancel p | _ \<Rightarrow> p)"
| "modal_step h now BackdropClick p =
     (case modal p of None \<Rightarrow> p | Some _ \<Rightarrow> backdropClick p)"

text \<open>A sequence of clicks, each at its own time.\<close>

fun modal_run ::
    "(string \<Rightarrow> string) \<Rightarrow> (string \<times> modal_event) list \<Rightarrow> admin_page \<Rightarrow> admin_page" where
  "modal_run h [] p = p"
| "modal_run h ((now, e) # es) p = modal_run h es (modal_step h now e p)"

definition modal_saves :: "modal_event \<Rightarrow> bool" where
  "modal_saves e = (case e of SecSave _ _ \<Rightarrow> True | CompanySave _ \<Rightarrow> True | _ \<Rightarrow> False)"

text \<open>
  \<open>main().catch\<close>: a start-up that throws leaves only the escaped message
  (\<open>err?.message || String(err)\<close>, the parameter \<open>message\<close>) in
  \<open>#authMsg\<close>; otherwise the page starts with no modal open.
\<close>

datatype main_view = MainFailed string | MainReady admin_page

definition admin_main ::
    "(boot_error \<Rightarrow> string) \<Rightarrow> store \<Rightarrow> fetch_result \<Rightarrow> main_view" where
  "admin_main message st base =
     (case admin_boot st base of
        Inl e \<Rightarrow> MainFailed (escapeHtml_table (message e))
      | Inr a \<Rightarrow> MainReady \<lparr>pg = a, modal = None\<rparr>)"

section \<open>Lemmas\<close>

lemma modal_step_keeps_pg:
  "\<not> modal_saves e \<Longrightarrow> pg (modal_step h now e p) = pg p"
  by (cases e)
     (simp_all add: modal_saves_def closeModal_def companyCancel_def backdropClick_def
       split: option.splits modal_view.splits)

text \<open>
  C22. Closing, cancelling and generating credential hashes never change the
  editor: over any sequence of modal clicks without a Save, the handbook,
  selection, storage slots and login flag stay as they were.
\<close>

theorem modal_clicks_keep_editor:
  "list_all (\<lambda>(t, e). \<not> modal_saves e) es \<Longrightarrow> pg (modal_run h es p) = pg p"
  by (induction h es p rule: modal_run.induct) (simp_all add: modal_step_keeps_pg)

text \<open>
  The company modal's Cancel button does not close it: the page is
  unchanged, the modal still shows its form, and only a click on the
  backdrop closes it.
\<close>

theorem company_cancel_stuck:
  "modal_step h now CompanyCancel (companyClick p) = companyClick p
   \<and> modal (companyClick p) \<noteq> None
   \<and> modal_step h now BackdropClick (modal_step h now CompanyCancel (companyClick p))
       = p\<lparr>modal := None\<rparr>"
  by (simp add: companyClick_def openModal_def companyCancel_def backdropClick_def closeModal_def)

text \<open>
  Opening the main-heading modal of a section whose title and summary are
  trimmed and without line breaks, and pressing Save on the form as drawn closes the modal and only
  stamps and stores the draft.
\<close>

theorem section_modal_save_unchanged:
  assumes "getSection (ahb (pg p)) (Some sid) = Some sec"
    and "js_trim (sec_title sec) = sec_title sec" "js_trim (sec_summary sec) = sec_summary sec"
    and "no_breaks (sec_title sec)" "no_breaks (sec_summary sec)"
    and "section_modal_form (pg p) sid = Some (t, s)"
  shows "modal_step h now (SecSave t s) (openSectionModal sid p)
           = p\<lparr>pg := ensureActive (saveDraft now (pg p)), modal := None\<rparr>"
proof -
  have "t = sec_title sec" "s = sec_summary sec"
    using section_modal_unchanged [OF assms(1-5), of now] assms(6) by simp_all
  then show ?thesis
    using section_modal_unchanged [OF assms(1-5), of now] assms(1)
    by (simp add: openSectionModal_def openModal_def closeModal_def)
qed

theorem admin_main_base_fails:
  "admin_main message st FetchFailed = MainFailed (escapeHtml_table (message HandbookLoadError))
   \<and> markup_free (escapeHtml_table (message HandbookLoadError))"
  by (simp add: admin_main_def admin_boot_def admin_load_def markup_free_escapeHtml_table)

section \<open>Witnesses\<close>

theorem modal_clicks_keep_editor_witness:
  "list_all (\<lambda>(t, e). \<not> modal_saves e)
     [(''t1'', GenCredsClick ''boss'' ''pw''), (''t2'', CloseCreds), (''t3'', CompanyCancel)]
   \<and> pg (modal_run id [(''t1'', GenCredsClick ''boss'' ''pw''), (''t2'', CloseCreds), (''t3'', CompanyCancel)]
          (openCredsModal \<lparr>pg = sample_admin, modal = None\<rparr>))
     = pg (openCredsModal \<lparr>pg = sample_admin, modal = None\<rparr>)"
  using modal_clicks_keep_editor [of "[(''t1'', GenCredsClick ''boss'' ''pw''), (''t2'', CloseCreds), (''t3'', CompanyCancel)]"
      id "openCredsModal \<lparr>pg = sample_admin, modal = None\<rparr>"]
  by (simp add: modal_saves_def)

theorem section_modal_save_unchanged_witness:
  "getSection (ahb sample_admin) (Some ''lab'') = Some sample_lab
   \<and> section_modal_form sample_admin ''lab'' = Some (''Waived Lab'', ''Safety rules'')
   \<and> modal_step id ''t'' (SecSave ''Waived Lab'' ''Safety rules'')
        (openSectionModal ''lab'' \<lparr>pg = sample_admin, modal = None\<rparr>)
      = \<lparr>pg = ensureActive (saveDraft ''t'' sample_admin), modal = None\<rparr>"
  using section_modal_save_unchanged [of "\<lparr>pg = sample_admin, modal = None\<rparr>" "''lab''" sample_lab
      "''Waived Lab''" "''Safety rules''" id "''t''"]
  by (simp add: getSection_def section_modal_form_def form_values_plain no_breaks_def js_eval)

end
