(* ===== verification/Spec2Isabelle.thy ===== *)
theory Spec2Isabelle
  imports Editor_Text Viewer Admin Loading Accordion Company Navigation Admin_View Panes Digest Modal
begin

text \<open>
  \<^bold>\<open>A verification development of the QBH policy handbook.\<close>

  The repository is a static, client-only site over one JSON document, the
  handbook: \<open>meta\<close> fields, \<open>companyInfo\<close>, and an ordered array of sections,
  each with an ordered array of sub-policies, each with an ordered array of
  text blocks (paragraph \<open>"p"\<close> or bullet \<open>"li"\<close>). Four scripts read and
  write it:
  \<^item> src/app1.js, the read-only viewer: loads the handbook (a locally
    published copy first, the baseline file otherwise), keeps the active
    selection, the set of expanded sections (persisted in local storage) and the
    URL's \<open>section\<close>/\<open>policy\<close> parameters in step, and filters the menu by a
    free-text query;
  \<^item> src/js/app.js, an older viewer with the same menu and selection logic in
    its single-expansion ("accordion") form;
  \<^item> src/js/company.js, the company-information page;
  \<^item> src/js/admin.js, the password-gated editor: loads the baseline file and a
    local draft, edits sections, sub-policies and company information, parses
    the editor's text into blocks, and saves, publishes, exports and imports
    the handbook.

  \<^bold>\<open>Library.\<close>
  \<^item> \<open>Prelude\<close>: the JavaScript string primitives the scripts call
    (\<open>trim\<close>, \<open>toLowerCase\<close>, \<open>join\<close>, \<open>split(/\r?\n/)\<close>) as functions on
    \<open>char list\<close>, JavaScript truthiness of identifiers (\<open>truthy\<close>), a \<open>Set\<close>
    as a duplicate-free list in insertion order, in-place update of the element
    \<open>find\<close> returns (\<open>update_first\<close>), shared list lemmas.
  \<^item> \<open>Handbook_Model\<close>: the document as records (\<open>block\<close>, \<open>subpolicy\<close>,
    \<open>handbook_section\<close>, \<open>company_info\<close>, \<open>location\<close>, \<open>meta_info\<close>,
    \<open>handbook\<close>), the uniqueness of identities as a predicate, a sample
    handbook for the witnesses.
  \<^item> \<open>Editor_Text\<close>: admin.js \<open>parseEditorText\<close> (its loop body is
    \<open>parse_line\<close>) and \<open>blocksToEditorText\<close>: the round trip on editor
    blocks, the shape of every parsed block, idempotence of a save, and the
    lossy case of an empty bullet.
  \<^item> \<open>Viewer\<close>: app1.js as a state record \<open>viewer\<close> (handbook, active
    selection, expanded set and its stored copy, URL query) with
    \<open>setActive\<close>, \<open>ensureDefaultSelection\<close>, the header toggle
    \<open>toggleSection\<close>, start-up \<open>viewer_init\<close> (which fails when the stored
    expanded set does not parse), the filtered menu \<open>renderMenu\<close> and
    \<open>matchesSearch\<close>, the content pane; user events as the step relation
    \<open>viewer_step\<close> and a page's life as \<open>viewer_reach\<close>. The lemmas give
    the initial selection (default, deep link, stale policy), soundness and
    completeness of the menu filter, what a step does to selection, expansion,
    storage and URL, and an invariant of every reachable state.
  \<^item> \<open>Slugify\<close>: admin.js \<open>uid\<close> and \<open>slugify\<close>: the alphabet and length
    of an identifier, a trailing separator after truncation, collisions. The
    global replace \<open>.replace(/[^a-z0-9]+/g, "-")\<close> is modelled twice: as the
    run replacement \<open>replace_runs\<close> that \<open>slugify\<close> uses, and as the
    regular-expression engine's matching loop \<open>replace_from\<close> (a
    \<open>partial_function\<close> into \<open>option\<close>, engine semantics rather than code of
    the repository), shown to end and to agree with \<open>replace_runs\<close>.
  \<^item> \<open>Storage\<close>: the two local-storage slots, the result of
    \<open>JSON.parse\<close> as the shape the readers test (\<open>json_doc\<close>), and the
    baseline fetch's outcomes.
  \<^item> \<open>Admin\<close>: admin.js as a state record \<open>admin\<close> (handbook, active
    section and sub-policy, storage slots, login flag) with one function per
    button handler (\<open>addMainHeading\<close>, \<open>addSubpolicy\<close>,
    \<open>deleteSubpolicy\<close>, \<open>deleteSection\<close>, \<open>saveSection\<close>,
    \<open>selectSub\<close>, \<open>saveEditor\<close>, \<open>saveCompany\<close>, \<open>publishToLocal\<close>,
    \<open>exportHandbook\<close>, \<open>importHandbook\<close>, \<open>loginClick\<close>), each ending with
    the selection repair \<open>ensureActive\<close> where the code redraws the editor;
    \<open>admin_step\<close> dispatches a command; \<open>renderEditor\<close> is the pane the
    editor draws and \<open>editor_form_of\<close> what its escaped form fields hold. The
    lemmas show that every handler
    keeps the selection valid (\<open>sel_ok\<close>), the behaviour of each handler
    including its rejected and cancelled cases, that Save on the pane as
    drawn changes nothing when its fields have no line breaks, and the exact
    condition under which a login succeeds.
  \<^item> \<open>Loading\<close>: the spec's source precedence as \<open>spec_load\<close> (draft, then
    published, then baseline; a source that is absent, unparsable or of the
    wrong shape is skipped) and the four loaders of the scripts:
    \<open>viewer_load\<close> (app1.js \<open>getPublishedHandbook\<close>, \<open>loadHandbook\<close>,
    the check in \<open>init\<close>), \<open>app_load\<close> (app.js), \<open>company_load\<close>
    (company.js), \<open>admin_load\<close> (admin.js \<open>loadBaseFile\<close>,
    \<open>loadDraftOrBase\<close>, \<open>main\<close>); the viewer page start-up
    \<open>viewer_boot\<close>, the editor start-up \<open>admin_boot\<close> and an editor page's
    life \<open>admin_reach\<close> (start-up, logins, and buttons once unlocked). The
    lemmas show that app1.js refines the precedence, where the other three
    depart from it, and that the selection is valid in every unlocked editor
    state.
  \<^item> \<open>Accordion\<close>: app.js as a state record \<open>acc\<close> with its
    \<open>setActive\<close> (which collapses every other section),
    \<open>ensureDefault\<close>, the header click \<open>acc_toggle\<close>, the content lookup,
    start-up \<open>acc_boot\<close> over \<open>app_load\<close>, and a page's life
    \<open>acc_reach\<close>; its menu is the shared \<open>menu_group_of\<close>. The lemmas show
    that at most one section is ever expanded, and three departures from the
    spec: a header click selects without updating the URL, a deep link to a
    missing section is not replaced by the default, and a header open only by
    the search cannot be closed; \<open>copyLink\<close> is what Copy link hands out,
    which after such a header click reopens the previous policy.
  \<^item> \<open>Panes\<close>: the content cards of both viewers (\<open>viewer_pane\<close>,
    \<open>acc_pane\<close>) and app.js's PDF link \<open>pdf_href\<close> with its
    \<open>#page=\<close> anchor (\<open>encodeURIComponent\<close> of \<open>pdfPage\<close>): on the same
    storage and link both show the same section, paragraphs and bullets, and
    the same PDF link exactly when the policy has no page anchor.
  \<^item> \<open>Escape\<close>: both \<open>escapeHtml\<close> implementations, the table-driven
    pass of admin.js and app.js (\<open>escapeHtml_table\<close>) and the chained
    \<open>replaceAll\<close> of app1.js and company.js (\<open>escapeHtml_chain\<close>), and the
    browser's reading as their specification: character references
    (\<open>html_decode\<close>), the parser's newline normalisation (\<open>nl_norm\<close>), and
    what an attribute, an input field and a textarea hold (\<open>attr_value\<close>,
    \<open>input_value\<close>, which strips line breaks, and \<open>textarea_value\<close>,
    which drops a leading LF). Both escapes leave no markup character and read
    back to the original text; a form field reads back the text itself when it
    has no line break.
  \<^item> \<open>Company\<close>: company.js \<open>renderCompany\<close> as the texts the card shows,
    the page \<open>company_page\<close>, and the admin's company modal
    \<open>company_modal_form\<close>, which interpolates stored values unescaped: the
    lemmas show that a save erases the fields the form lacks and that an
    unchanged re-save truncates a name at a double quote.
  \<^item> \<open>Navigation\<close>: runs of \<open>viewer_reach\<close> and \<open>acc_reach\<close> built from
    menu clicks: from every state of either viewer, every policy of a handbook
    with unique identities can be brought onto the content pane (liveness).
  \<^item> \<open>Admin_View\<close>: the admin page around its handlers: the file input
    \<open>onFileChange\<close>, the sidebar
    \<open>renderSidebar\<close> (which sub-policy is highlighted, which identity the
    buttons carry), the main-heading modal \<open>section_modal_form\<close>, the
    credential-hash generator \<open>genCreds\<close>, the export file \<open>downloadJson\<close>
    and the Clear draft button with its reload \<open>clearDraftReload\<close>. The
    lemmas show that the sidebar and the editor agree, that an unchanged modal
    save changes nothing, that generated hashes accept the typed credentials,
    that Clear draft returns every page to the baseline, and that export then
    import restores the handbook.
  \<^item> \<open>Digest\<close>: admin.js \<open>sha256Hex\<close> on bytes (\<open>8 word\<close>): the UTF-8
    encoding \<open>textEncode\<close> of \<open>TextEncoder\<close>, the digest as a parameter,
    and the hex string \<open>hexJoin\<close> of \<open>toString16\<close> (\<open>toString(16)\<close>)
    and \<open>padStart\<close>. The lemmas show that the hex string has two
    lower-case hexadecimal characters per byte, that it reads back to the
    digest's bytes (the padding makes it injective), and that
    \<open>sha256Hex\<close> is injective whenever the digest is.
  \<^item> \<open>Modal\<close>: the \<open>#modal\<close> element of admin.js beside the editor state
    (\<open>admin_page\<close>): \<open>openModal\<close>, \<open>closeModal\<close>, the three modals
    (\<open>openSectionModal\<close>, \<open>openCredsModal\<close>, \<open>companyClick\<close>), their
    buttons and the backdrop click (\<open>modal_step\<close>), sequences of clicks
    (\<open>modal_run\<close>), and \<open>main()\<close> with its \<open>catch\<close>
    (\<open>admin_main\<close>). The lemmas show that clicks without a Save never
    change the editor (the company modal's Cancel button is a click that
    does nothing: its inline handler names a function a module does not make
    global), and
    that saving the main-heading modal as drawn only stores the draft.
  \<^item> This theory: the properties that span components. What the editor
    publishes is what every page loads; a selection survives a reload of its
    link; text saved in the editor and published is what the viewer shows for
    that policy; the login, with the page's own \<open>sha256Hex\<close>, rejects a wrong
    password and accepts the right one.

  \<^bold>\<open>Modelling choices.\<close> Strings are lists of 8-bit characters; the primitives
  are modelled on ASCII (the white space of \<open>trim\<close>, the letters of
  \<open>toLowerCase\<close>). The answers of \<open>prompt\<close> and \<open>confirm\<close>, form fields,
  the random token of \<open>uid\<close>, timestamps and the SHA-256 digest are
  parameters of the handlers; the digest is assumed injective where a theorem
  needs it. \<open>JSON.stringify\<close> followed by \<open>JSON.parse\<close> is the identity on
  handbooks. A storage slot or response body is modelled by what
  \<open>JSON.parse\<close> makes of it (\<open>json_doc\<close>): unparsable, \<open>null\<close>, a
  primitive, an array, or an object with or without a \<open>sections\<close> array; an
  object without one is taken to lack the field (a non-array value there is
  not distinguished). Asynchronous steps (fetch, digest, file read) complete
  before the handler continues, as the spec's concurrency section says, so a
  handler is one function. The Clear draft button is \<open>clearDraft\<close> followed
  by a reload, a new start-up, so it is not a step of \<open>admin_reach\<close>. No loop
  of the program can run forever on finite data, so every operation is a
  terminating \<open>fun\<close> or \<open>definition\<close> and no fuel is needed.

  \<^bold>\<open>Not modelled.\<close> The markup strings the pages assemble (only which
  texts and policies they show is modelled); the SHA-256 function itself
  (\<open>crypto.subtle.digest\<close>, a library call, is the parameter \<open>digest\<close> of
  \<open>sha256Hex\<close>; the encoding around it is modelled); Blob, object URLs and
  \<open>FileReader\<close> (the files are modelled by what \<open>JSON.parse\<close> makes of
  them); the clipboard write of the copy-link button; the timers of the save hint;
  the markup inside the modals; and the browser's HTML parser beyond newline
  normalisation, the reading of attribute values, input and textarea values,
  and the five character references the escapes produce. The program's own loops are \<open>forEach\<close>, \<open>for-of\<close>, \<open>map\<close>
  and \<open>filter\<close> over finite arrays and strings, modelled by structural
  recursion or list combinators and total by construction; the one loop whose
  end needs an argument is the matching loop of a global regular-expression
  replace, modelled as \<open>replace_from\<close>.
\<close>

section \<open>Properties across components\<close>

text \<open>
  C13. What the admin publishes is what the other pages load: after Publish, the
  viewer (app1.js), the older viewer (app.js) and the company page all load
  the handbook as it was before the publish stamp, whatever the baseline file.
\<close>

theorem publish_then_view:
  "viewer_load (published (astore (publishToLocal now a))) base = Inr (ahb a)
   \<and> app_load (published (astore (publishToLocal now a))) base = Inr (ahb a)
   \<and> company_load (published (astore (publishToLocal now a))) base = Inr (companyInfo (ahb a))"
  by (simp add: viewer_load_def getPublishedHandbook_def app_load_def app_doc_def company_load_def
      company_published_def company_info_of_def stringify_def)

text \<open>
  C12. Selecting a policy in the menu and reloading the page with the URL and the
  stored expanded set this leaves reproduces the same selection, given that
  the handbook source still yields the same handbook.
\<close>

theorem select_then_reload:
  assumes "g \<in> set (renderMenu v raw)" and "sp \<in> set (g_subs g)"
    and "sec_id (g_section g) \<noteq> []" and "sp_id sp \<noteq> []"
    and "viewer_load pub base = Inr (vhb v)"
  shows "\<exists>v'. viewer_boot (SlotList (expanded (setActive (sec_id (g_section g)) (sp_id sp) v))) pub base
                (vurl (setActive (sec_id (g_section g)) (sp_id sp) v)) = Inr v'
           \<and> active_section v' = Some (sec_id (g_section g)) \<and> active_sub v' = Some (sp_id sp)"
proof -
  have "g_section g \<in> set (sections (vhb v))"
    using assms(1) by (rule renderMenu_group(1))
  from viewer_boot_deep_link [OF assms(5) this assms(3,4), of "SlotList (expanded (setActive (sec_id (g_section g)) (sp_id sp) v))"]
  show ?thesis
    by (simp add: setActive_def Let_def) blast
qed

text \<open>
  C11. End to end: text saved in the admin editor for the selected policy and
  then published is what the viewer shows for that policy's link: the blocks
  of the viewer's content pane are the parse of the saved text.
\<close>

theorem edit_publish_view:
  assumes "active_sec a = Some s" "s \<noteq> []" "getSection (ahb a) (Some s) = Some sec"
    and "active_sp a = Some p" "p \<noteq> []" "getSub sec (Some p) = Some sub"
  shows "\<exists>v sec' sub'.
           viewer_boot SlotAbsent (published (astore (publishToLocal t2 (saveEditor ti su pd txt t1 a)))) base
             \<lparr>url_section = Some s, url_policy = Some p\<rparr> = Inr v
           \<and> renderContent v = ShowPolicy sec' sub' \<and> sp_id sub' = p \<and> blocks sub' = parseEditorText txt"
proof -
  have ss: "sec_id sec = s" and ps: "sp_id sub = p"
    using getSection_Some [OF assms(3)] getSub_Some [OF assms(6)] by auto
  let ?upd = "\<lambda>q. q\<lparr>sp_title := (if js_trim ti = [] then sp_title q else js_trim ti),
                      sp_summary := js_trim su, pdf := js_trim pd, blocks := parseEditorText txt\<rparr>"
  let ?f = "\<lambda>x. x\<lparr>subpolicies := update_first (\<lambda>q. sp_id q = p) ?upd (subpolicies x)\<rparr>"
  let ?a = "saveEditor ti su pd txt t1 a"
  have sec_eq: "sections (ahb ?a) = update_first (\<lambda>x. sec_id x = s) ?f (sections (ahb a))"
    using assms ss ps by (simp add: saveEditor_def Let_def)
  have gs: "getSection (ahb ?a) (Some s) = Some (?f sec)"
    using getSection_update_first [OF assms(3), of ?f] sec_eq by (simp add: getSection_def)
  have gp: "getSub (?f sec) (Some p) = Some (?upd sub)"
    by (rule getSub_update_first [OF assms(6)]) simp
  have mem: "?f sec \<in> set (sections (ahb ?a))" and sid: "sec_id (?f sec) = s"
    using getSection_Some [OF gs] by auto
  obtain v where v: "viewer_boot SlotAbsent (published (astore (publishToLocal t2 ?a))) base
        \<lparr>url_section = Some s, url_policy = Some p\<rparr> = Inr v"
      and hb: "vhb v = ahb ?a" and act: "active_section v = Some s" "active_sub v = Some p"
    using viewer_boot_deep_link [OF _ mem, of "published (astore (publishToLocal t2 ?a))" base p SlotAbsent]
      sid assms(2,5) by auto
  have "renderContent v = ShowPolicy (?f sec) (?upd sub)"
    using gs gp hb act by (simp add: renderContent_def findSection_getSection findSub_getSub)
  then show ?thesis
    using v ps by auto
qed

text \<open>
  C17. The login of admin.js with its own \<open>sha256Hex\<close> (Digest) over any
  injective digest, against the hashes of the user name \<open>admin\<close> and the
  password \<open>correct\<close>: the wrong password leaves the page locked and its state
  unchanged; the right one, with blanks around the user name, unlocks it.
\<close>

theorem login_sha256_scenario:
  assumes "inj digest"
  shows "loginClick (sha256Hex digest) (sha256Hex digest ''admin'') (sha256Hex digest ''correct'')
           ''admin'' ''wrong'' a = a
         \<and> authed (loginClick (sha256Hex digest) (sha256Hex digest ''admin'')
              (sha256Hex digest ''correct'') '' admin '' ''correct'' a)"
  using assms by (simp add: loginClick_def login_def sha256Hex_eq_iff js_eval)

section \<open>Witnesses\<close>

theorem login_sha256_scenario_witness:
  "inj (id :: byte list \<Rightarrow> byte list)
   \<and> loginClick (sha256Hex id) (sha256Hex id ''admin'') (sha256Hex id ''correct'')
        ''admin'' ''wrong'' sample_admin = sample_admin
   \<and> authed (loginClick (sha256Hex id) (sha256Hex id ''admin'') (sha256Hex id ''correct'')
        '' admin '' ''correct'' sample_admin)"
  using login_sha256_scenario [of id sample_admin] by simp

theorem select_then_reload_witness:
  "\<exists>v'. viewer_boot (SlotList (expanded (setActive ''hr'' ''leave'' sample_viewer)))
          (Some (stringify sample_handbook)) FetchFailed (vurl (setActive ''hr'' ''leave'' sample_viewer)) = Inr v'
     \<and> active_section v' = Some ''hr'' \<and> active_sub v' = Some ''leave''"
  using select_then_reload [OF sample_hr_group_listed, of sample_leave "Some (stringify sample_handbook)" FetchFailed]
  by simp

theorem edit_publish_view_witness:
  "\<exists>v sec' sub'.
     viewer_boot SlotAbsent (published (astore (publishToLocal ''t2''
        (saveEditor ''QC'' [] [] ''- gloves'' ''t1'' sample_admin)))) FetchFailed
       \<lparr>url_section = Some ''lab'', url_policy = Some ''qc''\<rparr> = Inr v
     \<and> renderContent v = ShowPolicy sec' sub' \<and> sp_id sub' = ''qc'' \<and> blocks sub' = parseEditorText ''- gloves''"
  by (rule edit_publish_view [of sample_admin "''lab''" sample_lab "''qc''" sample_qc])
     (simp_all add: getSection_def getSub_def)

end
